theory Spec2Isabelle
  imports Complex_Main "HOL-Library.AList"
begin

section \<open>JavaScript values as the route handler sees them\<close>

text \<open>
  The handler in \<^verbatim>\<open>src/app/api/face-reading/route.ts\<close> works on values produced by
  \<^verbatim>\<open>JSON.parse\<close> and \<^verbatim>\<open>response.json()\<close>, whose TypeScript types are unchecked
  casts. The model therefore keeps them untyped. Numbers are IEEE doubles in the source;
  here a finite number is a real, so the rounding of double arithmetic is not modelled
  (no statement below depends on it). Strings are lists of bytes and the string
  operations are exact on ASCII text.
\<close>

datatype jsnum = Finite real | PosInf | NegInf | NaN

datatype jsval =
    JUndef
  | JNull
  | JBool bool
  | JNum jsnum
  | JStr string
  | JArr "jsval list"
  | JObj "(string \<times> jsval) list"
  | JInherited string
    \<comment> \<open>a member inherited from \<^verbatim>\<open>Object.prototype\<close> under the given key (a built-in
        function, or the prototype itself for \<^verbatim>\<open>__proto__\<close>)\<close>

text \<open>A thrown exception or rejected promise is the left summand of the result.\<close>

datatype js_error =
    TypeError      \<comment> \<open>property read on null/undefined, or call of a non-function\<close>
  | SyntaxError    \<comment> \<open>\<^verbatim>\<open>JSON.parse\<close> or \<^verbatim>\<open>response.json()\<close> on text that is not JSON\<close>
  | NetworkError   \<comment> \<open>\<^verbatim>\<open>fetch\<close> rejects\<close>
  | StreamError    \<comment> \<open>reading the response body rejects\<close>
  | ThrownError    \<comment> \<open>\<^verbatim>\<open>throw new Error(...)\<close> in the source\<close>

fun bindE :: "'e + 'a \<Rightarrow> ('a \<Rightarrow> 'e + 'b) \<Rightarrow> 'e + 'b" where
  "bindE (Inl e) f = Inl e"
| "bindE (Inr x) f = f x"

fun mapE :: "('a \<Rightarrow> 'e + 'b) \<Rightarrow> 'a list \<Rightarrow> 'e + 'b list" where
  "mapE f [] = Inr []"
| "mapE f (x # xs) = bindE (f x) (\<lambda>y. bindE (mapE f xs) (\<lambda>ys. Inr (y # ys)))"

subsection \<open>Numbers\<close>

definition Number_isFinite :: "jsnum \<Rightarrow> bool" where
  "Number_isFinite n = (case n of Finite _ \<Rightarrow> True | _ \<Rightarrow> False)"

fun num_add :: "jsnum \<Rightarrow> jsnum \<Rightarrow> jsnum" where
  "num_add (Finite a) (Finite b) = Finite (a + b)"
| "num_add NaN _ = NaN"
| "num_add _ NaN = NaN"
| "num_add PosInf NegInf = NaN"
| "num_add NegInf PosInf = NaN"
| "num_add PosInf _ = PosInf"
| "num_add _ PosInf = PosInf"
| "num_add NegInf _ = NegInf"
| "num_add _ NegInf = NegInf"

fun num_neg :: "jsnum \<Rightarrow> jsnum" where
  "num_neg (Finite a) = Finite (- a)"
| "num_neg PosInf = NegInf"
| "num_neg NegInf = PosInf"
| "num_neg NaN = NaN"

definition num_sub :: "jsnum \<Rightarrow> jsnum \<Rightarrow> jsnum" where
  "num_sub a b = num_add a (num_neg b)"

text \<open>Multiplication by a positive finite constant (\<^verbatim>\<open>x * 100\<close>, \<^verbatim>\<open>x / 2\<close>).\<close>

fun num_scale :: "real \<Rightarrow> jsnum \<Rightarrow> jsnum" where
  "num_scale c (Finite a) = Finite (c * a)"
| "num_scale c n = n"

text \<open>The order on numbers other than \<^verbatim>\<open>NaN\<close>.\<close>

fun num_le :: "jsnum \<Rightarrow> jsnum \<Rightarrow> bool" where
  "num_le NaN _ = False"
| "num_le _ NaN = False"
| "num_le NegInf _ = True"
| "num_le _ PosInf = True"
| "num_le (Finite a) (Finite b) = (a \<le> b)"
| "num_le _ _ = False"

definition num_gt0 :: "jsnum \<Rightarrow> bool" where
  "num_gt0 n = (case n of Finite a \<Rightarrow> 0 < a | PosInf \<Rightarrow> True | _ \<Rightarrow> False)"

definition num_lt0 :: "jsnum \<Rightarrow> bool" where
  "num_lt0 n = (case n of Finite a \<Rightarrow> a < 0 | NegInf \<Rightarrow> True | _ \<Rightarrow> False)"

definition Math_min :: "jsnum \<Rightarrow> jsnum \<Rightarrow> jsnum" where
  "Math_min a b = (if a = NaN \<or> b = NaN then NaN else if num_le a b then a else b)"

definition Math_max :: "jsnum \<Rightarrow> jsnum \<Rightarrow> jsnum" where
  "Math_max a b = (if a = NaN \<or> b = NaN then NaN else if num_le a b then b else a)"

text \<open>\<^verbatim>\<open>Math.round\<close> rounds to the nearest integer, a half towards plus infinity.\<close>

fun Math_round :: "jsnum \<Rightarrow> jsnum" where
  "Math_round (Finite a) = Finite (of_int \<lfloor>a + 1 / 2\<rfloor>)"
| "Math_round n = n"

text \<open>\<^verbatim>\<open>Math.max(0, Math.min(1, x))\<close>, written at four places of the source.\<close>

definition clamp01 :: "jsnum \<Rightarrow> jsnum" where
  "clamp01 x = Math_max (Finite 0) (Math_min (Finite 1) x)"

subsection \<open>Strings\<close>

definition is_space :: "char \<Rightarrow> bool" where
  "is_space c = ((of_char c :: nat) \<in> {32, 9, 10, 11, 12, 13})"

definition trim :: "string \<Rightarrow> string" where
  "trim s = rev (dropWhile is_space (rev (dropWhile is_space s)))"

definition upper_letters :: string where
  "upper_letters = ''ABCDEFGHIJKLMNOPQRSTUVWXYZ''"

definition lower_letters :: string where
  "lower_letters = ''abcdefghijklmnopqrstuvwxyz''"

definition toLowerCase :: "string \<Rightarrow> string" where
  "toLowerCase s =
     map (\<lambda>c. case map_of (zip upper_letters lower_letters) c of Some d \<Rightarrow> d | None \<Rightarrow> c) s"

definition toUpperCase :: "string \<Rightarrow> string" where
  "toUpperCase s =
     map (\<lambda>c. case map_of (zip lower_letters upper_letters) c of Some d \<Rightarrow> d | None \<Rightarrow> c) s"

definition is_digit :: "char \<Rightarrow> bool" where
  "is_digit c = (c \<in> set ''0123456789'')"

text \<open>\<^verbatim>\<open>s.split(",")\<close>: the pieces between the commas, at least one piece.\<close>

fun split_comma_from :: "string \<Rightarrow> string \<Rightarrow> string list" where
  "split_comma_from cur [] = [cur]"
| "split_comma_from cur (c # cs) =
     (if c = CHR '','' then cur # split_comma_from [] cs
      else split_comma_from (cur @ [c]) cs)"

definition split_comma :: "string \<Rightarrow> string list" where
  "split_comma s = split_comma_from [] s"

text \<open>\<^verbatim>\<open>label.match(/\d+/g)\<close>: the maximal runs of decimal digits, left to right.\<close>

fun digit_runs_from :: "string \<Rightarrow> string \<Rightarrow> string list" where
  "digit_runs_from cur [] = (if cur = [] then [] else [cur])"
| "digit_runs_from cur (c # cs) =
     (if is_digit c then digit_runs_from (cur @ [c]) cs
      else if cur = [] then digit_runs_from [] cs
      else cur # digit_runs_from [] cs)"

definition digit_runs :: "string \<Rightarrow> string list" where
  "digit_runs s = digit_runs_from [] s"

definition digits_value :: "string \<Rightarrow> nat" where
  "digits_value s = foldl (\<lambda>n c. 10 * n + (of_char c - 48)) 0 s"

text \<open>
  \<^verbatim>\<open>Number(item)\<close> on a run of digits. A double holds every integer below \<open>2^53\<close>
  exactly; above it the source rounds to the nearest double, which the model does not,
  and from \<open>2^1024 - 2^970\<close> on the result is \<^verbatim>\<open>Infinity\<close>.
\<close>

definition Number_of_digits :: "string \<Rightarrow> jsnum" where
  "Number_of_digits s =
     (if digits_value s < 2 ^ 1024 - 2 ^ 970 then Finite (real (digits_value s)) else PosInf)"

text \<open>
  \<^verbatim>\<open>text.replace(/```json|```/g, "")\<close>: every code fence, with or without the
  \<^verbatim>\<open>json\<close> tag, is removed.
\<close>

fun strip_fences :: "string \<Rightarrow> string" where
  "strip_fences [] = []"
| "strip_fences (c # cs) =
     (if take 7 (c # cs) = ''```json'' then strip_fences (drop 6 cs)
      else if take 3 (c # cs) = ''```'' then strip_fences (drop 2 cs)
      else c # strip_fences cs)"

subsection \<open>Property access\<close>

definition nullish :: "jsval \<Rightarrow> bool" where
  "nullish v = (v = JUndef \<or> v = JNull)"

fun truthy :: "jsval \<Rightarrow> bool" where
  "truthy JUndef = False"
| "truthy JNull = False"
| "truthy (JBool b) = b"
| "truthy (JNum n) = (case n of Finite a \<Rightarrow> a \<noteq> 0 | NaN \<Rightarrow> False | _ \<Rightarrow> True)"
| "truthy (JStr s) = (s \<noteq> [])"
| "truthy (JArr xs) = True"
| "truthy (JObj kvs) = True"
| "truthy (JInherited k) = True"

text \<open>
  The names every plain object inherits from \<^verbatim>\<open>Object.prototype\<close>. A lookup
  \<^verbatim>\<open>table[key]\<close> on an object literal finds them when the literal has no own
  property of that name.
\<close>

definition object_prototype_keys :: "string list" where
  "object_prototype_keys =
     [''constructor'', ''__defineGetter__'', ''__defineSetter__'', ''hasOwnProperty'',
      ''__lookupGetter__'', ''__lookupSetter__'', ''isPrototypeOf'',
      ''propertyIsEnumerable'', ''toString'', ''valueOf'', ''__proto__'',
      ''toLocaleString'']"

text \<open>
  \<^verbatim>\<open>v?.k\<close>: undefined on null and undefined, the property otherwise. The keys the
  handler reads are fixed names, none of them a built-in member of a string, number,
  boolean or array, so a read on those values gives undefined.
\<close>

definition optget :: "jsval \<Rightarrow> string \<Rightarrow> jsval" where
  "optget v k =
     (case v of
        JObj kvs \<Rightarrow>
          (case map_of kvs k of
             Some x \<Rightarrow> x
           | None \<Rightarrow> if k \<in> set object_prototype_keys then JInherited k else JUndef)
      | _ \<Rightarrow> JUndef)"

text \<open>\<^verbatim>\<open>v.k\<close>: throws on null and undefined.\<close>

definition getp :: "jsval \<Rightarrow> string \<Rightarrow> js_error + jsval" where
  "getp v k = (if nullish v then Inl TypeError else Inr (optget v k))"

text \<open>\<^verbatim>\<open>v?.[0]\<close>\<close>

definition optindex0 :: "jsval \<Rightarrow> jsval" where
  "optindex0 v =
     (case v of
        JArr xs \<Rightarrow> (case xs of [] \<Rightarrow> JUndef | x # _ \<Rightarrow> x)
      | JStr s \<Rightarrow> (case s of [] \<Rightarrow> JUndef | c # _ \<Rightarrow> JStr [c])
      | JObj kvs \<Rightarrow> optget (JObj kvs) ''0''
      | _ \<Rightarrow> JUndef)"

text \<open>\<^verbatim>\<open>a ?? b\<close>\<close>

definition coalesce :: "jsval \<Rightarrow> jsval \<Rightarrow> jsval" where
  "coalesce a b = (if nullish a then b else a)"

text \<open>\<^verbatim>\<open>v.trim()\<close>: only a string has the method.\<close>

definition call_trim :: "jsval \<Rightarrow> js_error + string" where
  "call_trim v = (case v of JStr s \<Rightarrow> Inr (trim s) | _ \<Rightarrow> Inl TypeError)"

text \<open>
  \<^verbatim>\<open>(v ?? []).filter(...)\<close> and \<^verbatim>\<open>(v ?? []).map(...)\<close>: only an array has the
  methods.
\<close>

definition array_or_empty :: "jsval \<Rightarrow> js_error + jsval list" where
  "array_or_empty v =
     (if nullish v then Inr [] else case v of JArr xs \<Rightarrow> Inr xs | _ \<Rightarrow> Inl TypeError)"

text \<open>
  A lookup \<^verbatim>\<open>TABLE[key]\<close> in one of the constant tables of the source, which are
  object literals: an own entry, an inherited member, or undefined.
\<close>

datatype 'a member = Own 'a | Inherited string | Absent

definition table_lookup :: "(string \<times> 'a) list \<Rightarrow> string \<Rightarrow> 'a member" where
  "table_lookup tab k =
     (case map_of tab k of
        Some x \<Rightarrow> Own x
      | None \<Rightarrow> if k \<in> set object_prototype_keys then Inherited k else Absent)"

subsection \<open>Platform conversions\<close>

text \<open>
  Conversions between numbers and text, the hash and the JSON parser belong to the
  runtime, not to the repository. They are parameters of the model.
\<close>

record platform =
  sha256_hex :: "string \<Rightarrow> string"
  number_to_string :: "jsnum \<Rightarrow> string"
  to_fixed :: "nat \<Rightarrow> jsnum \<Rightarrow> string"
  other_to_number :: "jsval \<Rightarrow> jsnum"
  other_to_string :: "jsval \<Rightarrow> string"
  JSON_parse :: "string \<Rightarrow> jsval option"

text \<open>
  \<^verbatim>\<open>Number(v)\<close>, and the implicit conversion of an operand of \<^verbatim>\<open>-\<close> and \<^verbatim>\<open>*\<close>.
  The conversion of an object goes through its \<^verbatim>\<open>valueOf\<close> and \<^verbatim>\<open>toString\<close>; for
  an object parsed from JSON that has own properties of these names the source throws,
  which the model, total here, does not cover.
\<close>

definition js_Number :: "platform \<Rightarrow> jsval \<Rightarrow> jsnum" where
  "js_Number P v =
     (case v of
        JNum n \<Rightarrow> n
      | JUndef \<Rightarrow> NaN
      | JNull \<Rightarrow> Finite 0
      | JBool b \<Rightarrow> Finite (if b then 1 else 0)
      | _ \<Rightarrow> other_to_number P v)"

text \<open>\<^verbatim>\<open>String(v)\<close>\<close>

definition js_String :: "platform \<Rightarrow> jsval \<Rightarrow> string" where
  "js_String P v =
     (case v of
        JStr s \<Rightarrow> s
      | JUndef \<Rightarrow> ''undefined''
      | JNull \<Rightarrow> ''null''
      | JBool b \<Rightarrow> (if b then ''true'' else ''false'')
      | JNum n \<Rightarrow> number_to_string P n
      | _ \<Rightarrow> other_to_string P v)"

text \<open>
  \<^verbatim>\<open>Array.prototype.sort\<close> with a comparison function, as a stable insertion sort:
  an element goes before the first one it compares below. A \<^verbatim>\<open>NaN\<close> comparison counts
  as equal. The language leaves the order open when the comparison is not a consistent
  order; the model fixes this one.
\<close>

fun sort_insert :: "('a \<Rightarrow> 'a \<Rightarrow> js_error + jsnum) \<Rightarrow> 'a \<Rightarrow> 'a list \<Rightarrow> js_error + 'a list" where
  "sort_insert cmp x [] = Inr [x]"
| "sort_insert cmp x (y # ys) =
     bindE (cmp x y) (\<lambda>c.
       if num_lt0 c then Inr (x # y # ys)
       else bindE (sort_insert cmp x ys) (\<lambda>r. Inr (y # r)))"

definition js_sort :: "('a \<Rightarrow> 'a \<Rightarrow> js_error + jsnum) \<Rightarrow> 'a list \<Rightarrow> js_error + 'a list" where
  "js_sort cmp xs = foldl (\<lambda>acc x. bindE acc (sort_insert cmp x)) (Inr []) xs"

section \<open>Constants, types and tables of the route\<close>

datatype MajorCode = RPL | DKV | TKJ

text \<open>\<^verbatim>\<open>Object.keys(MAJOR_LABELS)\<close>, in the order of the literal.\<close>

definition MAJOR_CODES :: "MajorCode list" where
  "MAJOR_CODES = [RPL, DKV, TKJ]"

fun code_key :: "MajorCode \<Rightarrow> string" where
  "code_key RPL = ''RPL''"
| "code_key DKV = ''DKV''"
| "code_key TKJ = ''TKJ''"

definition RATE_LIMIT_WINDOW_MS :: int where
  "RATE_LIMIT_WINDOW_MS = 60000"

definition RATE_LIMIT_MAX :: nat where
  "RATE_LIMIT_MAX = 6"

definition CACHE_TTL_MS :: int where
  "CACHE_TTL_MS = 10 * 60 * 1000"

datatype IndicatorLevel = strength | opportunity | warning

fun indicator_key :: "IndicatorLevel \<Rightarrow> string" where
  "indicator_key strength = ''strength''"
| "indicator_key opportunity = ''opportunity''"
| "indicator_key warning = ''warning''"

text \<open>A point as the tables of the source build it with \<^verbatim>\<open>createPoint\<close>.\<close>

record ManifestingPoint =
  indicator :: IndicatorLevel
  title :: string
  description :: string

definition createPoint :: "IndicatorLevel \<Rightarrow> string \<Rightarrow> string \<Rightarrow> ManifestingPoint" where
  "createPoint i t d = \<lparr>indicator = i, title = t, description = d\<rparr>"

record ExpressionInsight =
  narrative :: jsval
  confidence :: jsnum
  label :: string

record AgeRange =
  range_min :: "jsnum option"
  range_max :: "jsnum option"

record AgeInsight =
  age_label :: string
  age_confidence :: jsnum
  age_estimated :: "jsnum option"
  age_range :: AgeRange
  age_headline :: string
  age_narrative :: string

record StageDescriptor =
  stage_label :: string
  stage_narrative :: string
  stage_prompt :: string

record AgePreset =
  preset_range :: AgeRange
  preset_estimated :: jsnum
  preset_confidence :: jsnum
  preset_label :: string

text \<open>
  The fields of a fallback template as the code reads them at run time. The table is
  indexed by an arbitrary string, so the value found may be an inherited member, which
  has none of the fields: every field is optional here, also those the TypeScript type
  requires.
\<close>

record FallbackTemplate =
  energyTone :: "string option"
  personality :: "string option"
  major :: "MajorCode option"
  karir :: "ManifestingPoint list option"
  masaDepan :: "ManifestingPoint list option"
  alasan :: "ManifestingPoint list option"
  langkah :: "string option"
  kebiasaan :: "string list option"
  alternatifNotes :: "(string \<times> string) list option"
  confidenceModifier :: "jsnum option"

definition inherited_member_fields :: FallbackTemplate where
  "inherited_member_fields =
     \<lparr>energyTone = None, personality = None, major = None, karir = None,
      masaDepan = None, alasan = None, langkah = None, kebiasaan = None,
      alternatifNotes = None, confidenceModifier = None\<rparr>"

fun MAJOR_LABELS :: "MajorCode \<Rightarrow> string" where
  "MAJOR_LABELS RPL =
     ''Rekayasa Perangkat Lunak''"
| "MAJOR_LABELS DKV =
     ''Desain Komunikasi Visual''"
| "MAJOR_LABELS TKJ =
     ''Teknik Komputer dan Jaringan''"

fun DEFAULT_MAJOR_NOTES :: "MajorCode \<Rightarrow> string" where
  "DEFAULT_MAJOR_NOTES RPL =
     ''Cocok untuk pemikir analitis yang senang membangun solusi digital.''"
| "DEFAULT_MAJOR_NOTES DKV =
     ''Selaras bagi yang ekspresif dan ingin menyalurkan kreativitas visual.''"
| "DEFAULT_MAJOR_NOTES TKJ =
     ''Pas untuk pribadi teknis yang suka merakit dan menjaga sistem teknologi.''"

fun DEFAULT_MAJOR_POINTS :: "MajorCode \<Rightarrow> ManifestingPoint list" where
  "DEFAULT_MAJOR_POINTS RPL =
     [createPoint strength
        ''Logika terstruktur''
        ''Mood yang stabil menandakan kemampuan menganalisis pola dan membangun solusi bertahap.'',
      createPoint opportunity
        ''Eksperimen digital''
        ''Gunakan rasa ingin tahu untuk mencoba membuat aplikasi atau automasi sederhana.'']"
| "DEFAULT_MAJOR_POINTS DKV =
     [createPoint strength
        ''Ekspresi kreatif''
        ''Energi ekspresif cocok diterjemahkan menjadi karya visual dan storytelling kuat.'',
      createPoint opportunity
        ''Sensitivitas estetika''
        ''Asah kepekaan warna dan komposisi lewat latihan visual harian.'']"
| "DEFAULT_MAJOR_POINTS TKJ =
     [createPoint strength
        ''Ketekunan teknis''
        ''Mood fokus menunjukkan ketelitian tinggi saat memecahkan masalah perangkat.'',
      createPoint opportunity
        ''Problem solving nyata''
        ''Gunakan rasa penasaran untuk membongkar dan memahami cara kerja jaringan.'']"

record MajorFocus =
  focus_langkah :: string
  focus_kebiasaan :: "string list"

fun DEFAULT_MAJOR_FOCUS :: "MajorCode \<Rightarrow> MajorFocus" where
  "DEFAULT_MAJOR_FOCUS RPL =
     \<lparr>focus_langkah =
       ''Luangkan 30 menit per hari untuk latihan logika atau coding dasar di platform gratis.'',
      focus_kebiasaan = [''Catat ide masalah yang ingin kamu pecahkan lalu coba terjemahkan ke konsep aplikasi.'',
      ''Ikut komunitas pemrograman pemula seminggu sekali untuk review kode sederhana.'']\<rparr>"
| "DEFAULT_MAJOR_FOCUS DKV =
     \<lparr>focus_langkah =
       ''Buat moodboard mingguan dari referensi visual untuk melatih rasa estetika.'',
      focus_kebiasaan = [''Lakukan sketsa cepat 10 menit setiap hari dengan tema berbeda.'',
      ''Unggah karya ke media sosial atau forum desain untuk meminta umpan balik.'']\<rparr>"
| "DEFAULT_MAJOR_FOCUS TKJ =
     \<lparr>focus_langkah =
       ''Kerjakan proyek mini jaringan atau perakitan perangkat setiap pekan dan dokumentasikan prosesnya.'',
      focus_kebiasaan = [''Tulis checklist troubleshooting setiap kali menemukan masalah teknis.'',
      ''Ikut kanal komunitas teknologi untuk berdiskusi minimal dua kali seminggu.'']\<rparr>"

definition EXPRESSION_LABELS :: "(string \<times> string) list" where
  "EXPRESSION_LABELS =
     [(''neutral'',
       ''Wajah tampak netral dan tenang.''),
      (''happiness'',
       ''Ekspresi bahagia mendominasi, menunjukkan energi positif dan terbuka.''),
      (''surprise'',
       ''Ada unsur terkejut atau rasa kagum yang kuat.''),
      (''sadness'',
       ''Ekspresi sedih terlihat, perlunya dukungan emosional.''),
      (''anger'',
       ''Wajah menunjukkan ketegasan dan fokus tinggi, mungkin ada sedikit ketegangan.''),
      (''disgust'',
       ''Ekspresi kurang nyaman atau ada hal yang membuat kurang sreg.''),
      (''fear'',
       ''Ada sinyal kehati-hatian tinggi atau keraguan yang perlu ditenangkan.''),
      (''contempt'',
       ''Ekspresi kritis, menggambarkan standar tinggi terhadap diri atau sekitar.'')]"

definition DEFAULT_EXPRESSION :: string where
  "DEFAULT_EXPRESSION =
     ''Ekspresi wajah tampak netral dan tenang; AI menganggapmu menjaga emosi tetap seimbang.''"

definition AGE_STAGE_DESCRIPTORS :: "(jsnum \<times> StageDescriptor) list" where
  "AGE_STAGE_DESCRIPTORS =
     [(Finite 12,
       \<lparr>stage_label = ''Pra-remaja'',
        stage_narrative =
          ''Fokus pada kebiasaan belajar ringan, eksplorasi minat, dan pendampingan orang tua agar tetap menyenangkan.'',
        stage_prompt =
          ''pra-remaja yang membutuhkan aktivitas eksploratif dan pendampingan intensif''\<rparr>),
      (Finite 15,
       \<lparr>stage_label = ''Remaja awal'',
        stage_narrative =
          ''Sedang memasuki masa SMP; bekali dengan dasar literasi digital, disiplin belajar, dan proyek kecil yang menyenangkan.'',
        stage_prompt =
          ''pelajar SMP yang baru mengeksplorasi minat jurusan''\<rparr>),
      (Finite 18,
       \<lparr>stage_label = ''Remaja akhir'',
        stage_narrative =
          ''Usia SMA/SMK; saat yang tepat untuk menguatkan portofolio, pengalaman organisasi, dan memilih jalur lanjutan.'',
        stage_prompt =
          ''pelajar SMA/SMK yang bersiap memilih jurusan lanjutan''\<rparr>),
      (Finite 24,
       \<lparr>stage_label = ''Dewasa muda'',
        stage_narrative =
          ''Rentang kuliah awal; arahkan pada pengalaman magang, proyek penelitian, dan perluasan jejaring profesional.'',
        stage_prompt =
          ''mahasiswa awal yang menguatkan fondasi karier''\<rparr>),
      (Finite 35,
       \<lparr>stage_label = ''Profesional awal'',
        stage_narrative =
          ''Mulai meniti karier; fokus pada spesialisasi skill, sertifikasi, dan kepemimpinan proyek.'',
        stage_prompt =
          ''profesional muda yang ingin memantapkan spesialisasi''\<rparr>),
      (Finite 50,
       \<lparr>stage_label = ''Profesional madya'',
        stage_narrative =
          ''Tahap mengembangkan peran strategis; perkuat mentoring, manajemen tim, dan keseimbangan hidup.'',
        stage_prompt =
          ''profesional madya yang ingin memperluas peran strategis''\<rparr>),
      (PosInf,
       \<lparr>stage_label = ''Mentor berpengalaman'',
        stage_narrative =
          ''Pengalaman matang; saatnya membagikan wawasan, menjadi mentor, dan merancang legacy karya.'',
        stage_prompt =
          ''mentor berpengalaman yang membina generasi berikutnya''\<rparr>)]"

definition DEFAULT_STAGE_DESCRIPTOR :: StageDescriptor where
  "DEFAULT_STAGE_DESCRIPTOR =
     \<lparr>stage_label = ''Rentang belum jelas'',
      stage_narrative =
        ''AI membaca sinyal usia yang unik, jadi tebakan dibuat santai. Jika ingin hasil lebih tajam, boleh coba ulang foto dengan pencahayaan merata.'',
      stage_prompt = ''pelajar dengan usia visual yang belum terbaca jelas''\<rparr>"

definition FALLBACK_AGE_PRESETS :: "(string \<times> AgePreset) list" where
  "FALLBACK_AGE_PRESETS =
     [(''happiness'',
       \<lparr>preset_range = \<lparr>range_min = Some (Finite 16), range_max = Some (Finite 20)\<rparr>,
        preset_estimated = Finite 18, preset_confidence = Finite 0.38, preset_label = ''16-20''\<rparr>),
      (''surprise'',
       \<lparr>preset_range = \<lparr>range_min = Some (Finite 16), range_max = Some (Finite 19)\<rparr>,
        preset_estimated = Finite 17, preset_confidence = Finite 0.36, preset_label = ''16-19''\<rparr>),
      (''sadness'',
       \<lparr>preset_range = \<lparr>range_min = Some (Finite 17), range_max = Some (Finite 21)\<rparr>,
        preset_estimated = Finite 19, preset_confidence = Finite 0.34, preset_label = ''17-21''\<rparr>),
      (''anger'',
       \<lparr>preset_range = \<lparr>range_min = Some (Finite 18), range_max = Some (Finite 24)\<rparr>,
        preset_estimated = Finite 21, preset_confidence = Finite 0.33, preset_label = ''18-24''\<rparr>),
      (''disgust'',
       \<lparr>preset_range = \<lparr>range_min = Some (Finite 17), range_max = Some (Finite 23)\<rparr>,
        preset_estimated = Finite 20, preset_confidence = Finite 0.33, preset_label = ''17-23''\<rparr>),
      (''fear'',
       \<lparr>preset_range = \<lparr>range_min = Some (Finite 16), range_max = Some (Finite 22)\<rparr>,
        preset_estimated = Finite 19, preset_confidence = Finite 0.32, preset_label = ''16-22''\<rparr>),
      (''contempt'',
       \<lparr>preset_range = \<lparr>range_min = Some (Finite 18), range_max = Some (Finite 24)\<rparr>,
        preset_estimated = Finite 21, preset_confidence = Finite 0.35, preset_label = ''18-24''\<rparr>),
      (''neutral'',
       \<lparr>preset_range = \<lparr>range_min = Some (Finite 16), range_max = Some (Finite 20)\<rparr>,
        preset_estimated = Finite 18, preset_confidence = Finite 0.35, preset_label = ''16-20''\<rparr>),
      (''unknown'',
       \<lparr>preset_range = \<lparr>range_min = Some (Finite 16), range_max = Some (Finite 19)\<rparr>,
        preset_estimated = Finite 17, preset_confidence = Finite 0.33, preset_label = ''16-19''\<rparr>),
      (''default'',
       \<lparr>preset_range = \<lparr>range_min = Some (Finite 16), range_max = Some (Finite 19)\<rparr>,
        preset_estimated = Finite 17, preset_confidence = Finite 0.34, preset_label = ''16-19''\<rparr>)]"

definition EXPRESSION_MAJOR_AFFINITY :: "(string \<times> MajorCode list) list" where
  "EXPRESSION_MAJOR_AFFINITY =
     [(''happiness'', [DKV, RPL, TKJ]),
      (''surprise'', [DKV, RPL, TKJ]),
      (''sadness'', [RPL, DKV, TKJ]),
      (''anger'', [TKJ, RPL, DKV]),
      (''disgust'', [TKJ, RPL, DKV]),
      (''fear'', [TKJ, RPL, DKV]),
      (''contempt'', [RPL, TKJ, DKV]),
      (''neutral'', [RPL, TKJ, DKV]),
      (''unknown'', [DKV, RPL, TKJ]),
      (''default'', [RPL, DKV, TKJ])]"
definition template_default :: FallbackTemplate where
  "template_default = \<lparr>
    energyTone = Some (''Energi wajah stabil; manfaatkan untuk menjaga ritme eksplorasi kreatif secara konsisten.''),
    personality = Some (''Karakter adaptif dan tangguh, tinggal menguatkan keberanian menampilkan karya.''),
    major = Some (DKV),
    karir = Some ([createPoint strength
        ''Sense visual terarah''
        ''Ekspresimu menunjukkan kemampuan menjaga detail sehingga cocok merancang konten visual yang rapi.'',
      createPoint opportunity
        ''Perkuat storytelling''
        ''Coba rutin membuat moodboard dan menarasikan ide agar pesan kreatif tersampaikan kuat.'']),
    masaDepan = Some ([createPoint opportunity
        ''Bangun portofolio lintas media''
        ''Eksperimen dengan ilustrasi, motion, dan desain UI supaya identitas kreatif makin terlihat.'',
      createPoint warning
        ''Jaga konsistensi ritme''
        ''Atur jadwal istirahat agar inspirasi tetap segar dan tidak burnout saat menyelesaikan proyek panjang.'']),
    alasan = Some ([createPoint strength
        ''Studio kreatif lengkap''
        ''DKV menyediakan laboratorium multimedia dan mentor visual untuk mengasah ide menjadi karya nyata.'',
      createPoint opportunity
        ''Eksperimen lintas format''
        ''Setiap mata pelajaran DKV membuka peluang mencoba berbagai media sehingga potensi kreatifmu tidak monoton.'']),
    langkah = None,
    kebiasaan = None,
    alternatifNotes = Some ([(''RPL'', ''Jika ingin mengemas ide ke aplikasi interaktif, RPL membantumu menerjemahkan konsep ke produk digital.''),
      (''TKJ'', ''Bila tertarik pada perangkat dan jaringan, TKJ menawarkan praktik teknis yang melatih ketelitianmu.'')]),
    confidenceModifier = Some (Finite (-0.15)) \<rparr>"

definition template_neutral :: FallbackTemplate where
  "template_neutral = \<lparr>
    energyTone = Some (''Ekspresi netral menggambarkan kestabilan dan kesiapan menerima pelajaran baru.''),
    personality = Some (''Karakter fleksibel, mudah menyesuaikan dengan berbagai situasi belajar.''),
    major = Some (TKJ),
    karir = Some ([createPoint strength
        ''Kerapian sistem''
        ''Ketelitianmu membantu menjaga perangkat dan jaringan tetap stabil meski di bawah tekanan.'',
      createPoint opportunity
        ''Kolaborasi troubleshooting''
        ''Libatkan teman untuk menyelesaikan kasus jaringan sederhana agar komunikasi teknismu semakin matang.'']),
    masaDepan = Some ([createPoint opportunity
        ''Spesialis infrastruktur digital''
        ''Bidang jaringan, cloud dasar, atau keamanan memberi banyak jalur peningkatan karier.'',
      createPoint warning
        ''Terus update teknologi''
        ''Jadwalkan belajar rutin agar tidak tertinggal perkembangan tools dan standar terbaru.'']),
    alasan = None,
    langkah = None,
    kebiasaan = None,
    alternatifNotes = Some ([(''RPL'', ''Jika ingin menulis automasi untuk solusi perangkat, RPL bisa membantu memadukan logika dan sistem.''),
      (''DKV'', ''Untuk menyalurkan sisi kreatif, DKV menawarkan eksplorasi visual yang segar.'')]),
    confidenceModifier = None \<rparr>"

definition template_happiness :: FallbackTemplate where
  "template_happiness = \<lparr>
    energyTone = Some (''Energi wajah ceria dan hangat, mudah membangun situasi kolaboratif.''),
    personality = Some (''Karakter supel serta ekspresif, cocok memimpin aktivitas kreatif.''),
    major = Some (DKV),
    karir = Some ([createPoint strength
        ''Karisma tim''
        ''Aura positif memudahkan mengambil peran koordinasi dalam proyek bersama.'',
      createPoint opportunity
        ''Salurkan ide visual''
        ''Eksplor kelas multimedia atau desain untuk menyalurkan imajinasi.'']),
    masaDepan = Some ([createPoint opportunity
        ''Bangun portofolio''
        ''Kumpulkan hasil karya tiap bulan sebagai bukti konsistensi kreativitas.'',
      createPoint warning
        ''Atur prioritas''
        ''Gunakan to-do list harian agar energi tidak terpecah ke terlalu banyak aktivitas.'']),
    alasan = Some ([createPoint strength
        ''Studio kreatif lengkap''
        ''Jurusan DKV menyediakan fasilitas desain dan mentor kreatif untuk menyalurkan imajinasi.'',
      createPoint opportunity
        ''Portofolio kuat''
        ''Tiap proyek desain bisa dijadikan portofolio untuk menembus industri kreatif sejak dini.'']),
    langkah = Some (''Susun portofolio mini berisi proyek sekolah atau karya mandiri dalam 3 bulan ke depan.''),
    kebiasaan = Some ([''Dokumentasikan progres proyek mingguan dalam bentuk foto atau video pendek.'',
      ''Ikut komunitas kreatif daring untuk bertukar ide dan feedback.'']),
    alternatifNotes = Some ([(''RPL'', ''Jika ingin menyalurkan ide ke aplikasi interaktif, RPL bisa jadi kombinasi yang seru.''),
      (''TKJ'', ''Energi positifmu juga bisa menghidupkan tim teknis di jurusan TKJ.'')]),
    confidenceModifier = None \<rparr>"

definition template_anger :: FallbackTemplate where
  "template_anger = \<lparr>
    energyTone = Some (''Energi tegas menonjol, cocok untuk peran yang membutuhkan keberanian keputusan.''),
    personality = Some (''Karakter kompetitif dan berorientasi hasil, butuh kanal produktif agar energi tersalurkan.''),
    major = Some (TKJ),
    karir = Some ([createPoint strength
        ''Kecepatan respon''
        ''Ketegasanmu membantu menyelesaikan tugas operasional di bawah tekanan.'',
      createPoint warning
        ''Kelola emosi''
        ''Latih teknik napas atau olahraga ringan sebelum mengambil keputusan penting.'']),
    masaDepan = Some ([createPoint opportunity
        ''Peran kepemimpinan''
        ''Ambil posisi koordinator proyek untuk menyalurkan insting memimpin.'',
      createPoint warning
        ''Bangun empati''
        ''Sisihkan waktu mendengar masukan tim agar keputusan lebih diterima.'']),
    alasan = Some ([createPoint strength
        ''Tantangan teknis nyata''
        ''TKJ memberi banyak praktik lapangan untuk menyalurkan energi kompetitifmu.'',
      createPoint opportunity
        ''Simulasi industri''
        ''Kegiatan prakerin menyiapkan mental menghadapi tekanan kerja sebenarnya.'']),
    langkah = Some (''Terapkan metode GTD (Getting Things Done) sederhana untuk menjaga fokus prioritas.''),
    kebiasaan = Some ([''Mulai hari dengan 5 menit pernapasan atau peregangan.'',
      ''Catat pemicu emosi dan siapkan respon alternatif yang lebih tenang.'']),
    alternatifNotes = Some ([(''RPL'', ''Jika ingin menyalurkan ketegasan lewat problem solving digital, RPL bisa dicoba.''),
      (''DKV'', ''Energi besar juga dapat diarahkan membuat konten berpengaruh di DKV.'')]),
    confidenceModifier = None \<rparr>"

definition template_sadness :: FallbackTemplate where
  "template_sadness = \<lparr>
    energyTone = Some (''Energi terlihat lembut dan empatik, mudah menangkap perasaan orang lain.''),
    personality = Some (''Karakter peduli, cocok pada peran pelayanan atau pendampingan.''),
    major = Some (RPL),
    karir = Some ([createPoint strength
        ''Empati tinggi''
        ''Kepekaan emosimu memberi nilai tambah pada bidang sosial atau pendidikan.'',
      createPoint opportunity
        ''Bangun daya juang''
        ''Perkuat ketahanan mental melalui journaling dan dukungan komunitas.'']),
    masaDepan = Some ([createPoint opportunity
        ''Solusi berdampak''
        ''Menciptakan aplikasi bantu belajar atau kesehatan mental bisa jadi fokus menarik.'',
      createPoint warning
        ''Jaga semangat''
        ''Tetapkan penghargaan diri setiap kali menyelesaikan modul atau proyek.'']),
    alasan = Some ([createPoint strength
        ''Kolaborasi empatik''
        ''Proyek RPL menuntut kerja tim sehingga empati kamu menjadi keunggulan.'',
      createPoint opportunity
        ''Transformasi ide jadi solusi''
        ''Mood sensitif mempermudahmu merancang fitur yang benar-benar membantu pengguna.'']),
    langkah = None,
    kebiasaan = Some ([''Refleksikan emosi dan ide solusi dalam jurnal setiap malam.'',
      ''Libatkan teman untuk pair programming ringan seminggu sekali.'']),
    alternatifNotes = Some ([(''DKV'', ''Jika ingin menyalurkan emosi lewat visual, DKV bisa menjadi ruang berekspresi.''),
      (''TKJ'', ''TKJ cocok bila kamu ingin fokus ke sistem yang menjamin kenyamanan banyak orang.'')]),
    confidenceModifier = None \<rparr>"

definition template_surprise :: FallbackTemplate where
  "template_surprise = \<lparr>
    energyTone = Some (''Ekspresi penuh rasa ingin tahu, cepat menangkap informasi baru.''),
    personality = Some (''Karakter eksploratif dan adaptif, senang mencoba hal berbeda.''),
    major = Some (RPL),
    karir = Some ([createPoint strength
        ''Respons cepat''
        ''Kamu sigap mengatasi perubahan, cocok di bidang teknologi atau event.'',
      createPoint opportunity
        ''Struktur belajar''
        ''Susun kerangka belajar agar rasa penasaran tetap terarah.'']),
    masaDepan = Some ([createPoint opportunity
        ''Inovasi berkelanjutan''
        ''Bidang startup atau riset terapan memberi ruang eksplorasi tanpa batas.'',
      createPoint warning
        ''Hindari loncat-loncat''
        ''Tentukan satu fokus utama tiap semester agar hasil terasa nyata.'']),
    alasan = Some ([createPoint strength
        ''Eksperimen terencana''
        ''RPL memungkinkanmu menguji ide inovatif melalui prototipe digital.'',
      createPoint opportunity
        ''Jalur portofolio''
        ''Setiap aplikasi kecil bisa dijadikan studi kasus untuk menonjolkan rasa ingin tahu.'']),
    langkah = Some (''Ambil satu proyek ekstrakurikuler dan jadikan studi kasus portofolio.''),
    kebiasaan = Some ([''Gunakan papan ide untuk menampung inspirasi sebelum dieksekusi.'',
      ''Review pembelajaran tiap Jumat untuk memilih ide teratas minggu berikutnya.'']),
    alternatifNotes = Some ([(''DKV'', ''Jika imajinasi visualmu menguat, DKV memberi ruang eksplorasi konsep unik.''),
      (''TKJ'', ''TKJ cocok bila kamu ingin mendalami perangkat yang mendukung ide-ide besar.'')]),
    confidenceModifier = None \<rparr>"

definition template_disgust :: FallbackTemplate where
  "template_disgust = \<lparr>
    energyTone = Some (''Ekspresi menunjukkan standar tinggi dan keinginan menjaga kualitas.''),
    personality = Some (''Karakter perfeksionis, teliti terhadap detail dan lingkungan.''),
    major = Some (TKJ),
    karir = Some ([createPoint strength
        ''Kontrol kualitas''
        ''Kepekaanmu terhadap detail cocok di bidang kuliner, kecantikan, atau produksi.'',
      createPoint opportunity
        ''Kelola ekspektasi''
        ''Belajar membagi standar: mana yang wajib tinggi dan mana yang bisa fleksibel.'']),
    masaDepan = Some ([createPoint opportunity
        ''Spesialis kualitas''
        ''Pertimbangkan profesi QC, UX, atau desain interior yang menuntut cita rasa.'',
      createPoint warning
        ''Hindari overkritik''
        ''Gunakan sudut pandang apresiasi sebelum memberi evaluasi pada orang lain.'']),
    alasan = Some ([createPoint strength
        ''Kerapian sistem''
        ''TKJ membiasakan standar check list dan dokumentasi sehingga perfeksimu tersalurkan.'',
      createPoint opportunity
        ''Praktik bertahap''
        ''Setiap proyek jaringan melatihmu menilai kualitas konfigurasi secara rinci.'']),
    langkah = Some (''Buat checklist mutu pribadi sebelum memulai dan selesai mengerjakan proyek.''),
    kebiasaan = Some ([''Latihan sensory check selama 10 menit tiap hari.'',
      ''Berikan apresiasi diri atas progres kecil untuk menjaga motivasi.'']),
    alternatifNotes = Some ([(''RPL'', ''Jika ingin mengontrol kualitas software, RPL memberi ruang testing dan QA.''),
      (''DKV'', ''Ketekunan detailmu juga bermanfaat menciptakan karya visual yang presisi di DKV.'')]),
    confidenceModifier = None \<rparr>"

definition template_fear :: FallbackTemplate where
  "template_fear = \<lparr>
    energyTone = Some (''Ekspresi berhati-hati menunjukkan kebutuhan akan rasa aman sebelum melangkah.''),
    personality = Some (''Karakter analitis namun membutuhkan dorongan kepercayaan diri.''),
    major = Some (TKJ),
    karir = Some ([createPoint strength
        ''Detil dan teliti''
        ''Kehati-hatianmu cocok di bidang riset, akuntansi, atau kontrol kualitas.'',
      createPoint opportunity
        ''Bangun keberanian''
        ''Mulai ambil proyek kecil bertahap untuk melatih percaya diri.'']),
    masaDepan = Some ([createPoint opportunity
        ''Perencanaan matang''
        ''Profesi analis data atau perencana keuangan selaras dengan gaya berpikir sistematismu.'',
      createPoint warning
        ''Atasi overthinking''
        ''Gunakan teknik 5-4-3-2-1 atau journaling untuk meredam kekhawatiran.'']),
    alasan = Some ([createPoint strength
        ''Sistem yang aman''
        ''TKJ mengajarkan cara menjaga jaringan tetap stabil sehingga selaras dengan kebutuhanmu akan rasa aman.'',
      createPoint opportunity
        ''Proyek bertahap''
        ''Pembelajaran praktikum memungkinkanmu menaikkan percaya diri setahap demi setahap.'']),
    langkah = Some (''Susun rencana mingguan berisi tiga prioritas utama agar fokus mudah dijaga.''),
    kebiasaan = Some ([''Gunakan daftar afirmasi positif setiap pagi.'',
      ''Cek-in emosi di tengah hari dengan skala 1-5 lalu sesuaikan aktivitas.'']),
    alternatifNotes = Some ([(''RPL'', ''Jika ingin belajar membangun solusi yang membantu orang banyak, RPL memberimu pijakan aman.''),
      (''DKV'', ''Menyalurkan rasa hati-hati lewat karya visual di DKV bisa menjadi terapi kreatif.'')]),
    confidenceModifier = None \<rparr>"

definition template_contempt :: FallbackTemplate where
  "template_contempt = \<lparr>
    energyTone = Some (''Ekspresi kritis menandakan intuisi tajam dalam menilai kondisi.''),
    personality = Some (''Karakter analitis dan tegas, cocok menjadi penasehat atau strategi.''),
    major = Some (RPL),
    karir = Some ([createPoint strength
        ''Analisis tajam''
        ''Kemampuan menilai cepat membantu di bidang hukum, debat, atau riset kebijakan.'',
      createPoint warning
        ''Bangun empati komunikatif''
        ''Sertakan langkah solutif saat menyampaikan kritik agar penerimaan lebih baik.'']),
    masaDepan = Some ([createPoint opportunity
        ''Peran strategi''
        ''Pertimbangkan profesi konsultan, analis bisnis, atau content strategist.'',
      createPoint warning
        ''Jaga fleksibilitas''
        ''Latih melihat sisi positif agar tidak terjebak pada penilaian yang terlalu keras.'']),
    alasan = Some ([createPoint strength
        ''Logika tajam''
        ''RPL memfasilitasi pola pikir kritis lewat debugging dan analisis sistem.'',
      createPoint opportunity
        ''Solusi aplikatif''
        ''Setiap kritik bisa diterjemahkan menjadi fitur baru pada aplikasi yang kamu bangun.'']),
    langkah = Some (''Setiap memberi evaluasi, sertakan minimal dua apresiasi dan satu alternatif solusi.''),
    kebiasaan = Some ([''Latihan menulis opini dengan format sandwich feedback.'',
      ''Ikuti konten atau buku tentang empati dan komunikasi asertif.'']),
    alternatifNotes = Some ([(''DKV'', ''Jika ingin mengasah kritik visual, DKV memberimu ruang menilai estetika.''),
      (''TKJ'', ''TKJ cocok bila kamu ingin memastikan standar teknis dan keamanan tertata rapi.'')]),
    confidenceModifier = None \<rparr>"

definition FALLBACK_TEMPLATES :: "(string \<times> FallbackTemplate) list" where
  "FALLBACK_TEMPLATES =
     [(''default'', template_default),
      (''neutral'', template_neutral),
      (''happiness'', template_happiness),
      (''anger'', template_anger),
      (''sadness'', template_sadness),
      (''surprise'', template_surprise),
      (''disgust'', template_disgust),
      (''fear'', template_fear),
      (''contempt'', template_contempt)]"
section \<open>Rate limiter\<close>

type_synonym rate_buckets = "string \<rightharpoonup> int list"

text \<open>
  \<^verbatim>\<open>checkRateLimit(key)\<close> with the value \<^verbatim>\<open>Date.now()\<close> returned to it. The result
  is \<^verbatim>\<open>true\<close> when the request is rejected, together with the map as the call leaves it.
\<close>

definition checkRateLimit :: "int \<Rightarrow> string \<Rightarrow> rate_buckets \<Rightarrow> bool \<times> rate_buckets" where
  "checkRateLimit now key buckets =
     (let windowStart = now - RATE_LIMIT_WINDOW_MS;
          timestamps = (case buckets key of Some ts \<Rightarrow> ts | None \<Rightarrow> []);
          filtered = filter (\<lambda>ts. ts > windowStart) timestamps
      in if length filtered \<ge> RATE_LIMIT_MAX then (True, buckets(key \<mapsto> filtered))
         else (False, buckets(key \<mapsto> filtered @ [now])))"

text \<open>A run of calls for one key, at the given clock readings, in order.\<close>

fun checkRateLimit_run :: "string \<Rightarrow> int list \<Rightarrow> rate_buckets \<Rightarrow> bool list \<times> rate_buckets" where
  "checkRateLimit_run key [] buckets = ([], buckets)"
| "checkRateLimit_run key (now # rest) buckets =
     (let (r, buckets') = checkRateLimit now key buckets;
          (rs, buckets'') = checkRateLimit_run key rest buckets'
      in (r # rs, buckets''))"

section \<open>Age helpers\<close>

definition describeAgeStage :: "jsnum option \<Rightarrow> StageDescriptor" where
  "describeAgeStage age =
     (case age of
        None \<Rightarrow> DEFAULT_STAGE_DESCRIPTOR
      | Some a \<Rightarrow>
          if a = NaN then DEFAULT_STAGE_DESCRIPTOR
          else (case find (\<lambda>item. num_le a (fst item)) AGE_STAGE_DESCRIPTORS of
                  Some item \<Rightarrow> snd item
                | None \<Rightarrow> snd (last AGE_STAGE_DESCRIPTORS)))"

definition no_range :: AgeRange where
  "no_range = \<lparr>range_min = None, range_max = None\<rparr>"

definition parseAgeLabelRange :: "string \<Rightarrow> AgeRange" where
  "parseAgeLabelRange lbl =
     (if lbl = [] then no_range
      else
        let matches = digit_runs lbl in
        if matches = [] then
          (if CHR ''+'' \<in> set lbl then
             (case digit_runs lbl of
                plusMatch # _ \<Rightarrow>
                  (let base = Number_of_digits plusMatch
                   in if Number_isFinite base then \<lparr>range_min = Some base, range_max = None\<rparr>
                      else no_range)
              | [] \<Rightarrow> no_range)
           else no_range)
        else
          let numbers = filter Number_isFinite (map Number_of_digits matches) in
          (case numbers of
             [] \<Rightarrow> no_range
           | [v] \<Rightarrow> \<lparr>range_min = Some v, range_max = (if CHR ''+'' \<in> set lbl then None else Some v)\<rparr>
           | first # second # _ \<Rightarrow>
               \<lparr>range_min = Some (Math_min first second), range_max = Some (Math_max first second)\<rparr>))"

definition computeEstimatedAge :: "AgeRange \<Rightarrow> jsnum option \<Rightarrow> jsnum option" where
  "computeEstimatedAge rng fallback =
     (case (range_min rng, range_max rng) of
        (Some lo, Some hi) \<Rightarrow> Some (Math_round (num_scale (1 / 2) (num_add lo hi)))
      | (Some lo, None) \<Rightarrow> Some lo
      | (None, Some hi) \<Rightarrow> Some hi
      | (None, None) \<Rightarrow>
          (case fallback of
             Some f \<Rightarrow> if Number_isFinite f then Some (Math_round f) else None
           | None \<Rightarrow> None))"

text \<open>The en dash of the source text, in UTF-8.\<close>

definition en_dash :: string where
  "en_dash = [CHR 0xE2, CHR 0x80, CHR 0x93]"

definition formatAgeRangeText :: "platform \<Rightarrow> AgeRange \<Rightarrow> jsnum option \<Rightarrow> string" where
  "formatAgeRangeText P rng estimated =
     (case (range_min rng, range_max rng) of
        (Some lo, Some hi) \<Rightarrow>
          number_to_string P lo @ en_dash @ number_to_string P hi @ '' tahun''
      | (Some lo, None) \<Rightarrow> number_to_string P lo @ ''+ tahun''
      | _ \<Rightarrow>
          (case estimated of
             Some e \<Rightarrow> ''sekitar '' @ number_to_string P e @ '' tahun''
           | None \<Rightarrow> ''''))"

definition buildAgeHeadline :: "platform \<Rightarrow> AgeRange \<Rightarrow> jsnum option \<Rightarrow> string" where
  "buildAgeHeadline P rng estimated =
     (let formatted = formatAgeRangeText P rng estimated
      in if formatted \<noteq> [] then ''Perkiraan usia '' @ formatted
         else ''Perkiraan usia belum terbaca'')"

definition buildAgeNarrative :: "platform \<Rightarrow> AgeRange \<Rightarrow> jsnum option \<Rightarrow> jsnum \<Rightarrow> string" where
  "buildAgeNarrative P rng estimated conf =
     (let descriptor =
            describeAgeStage
              (case estimated of
                 Some e \<Rightarrow> Some e
               | None \<Rightarrow> (case range_min rng of Some lo \<Rightarrow> Some lo | None \<Rightarrow> range_max rng));
          rangeText = formatAgeRangeText P rng estimated;
          confidenceText =
            (if num_gt0 conf
             then ''Keyakinan model sekitar '' @ to_fixed P 0 (num_scale 100 conf) @ ''%.''
             else ''Model belum yakin dengan hasil ini.'')
      in if rangeText \<noteq> [] then
           ''AI memperkirakan usia visual berada di '' @ rangeText @ ''. ''
             @ stage_narrative descriptor @ '' '' @ confidenceText
             @ '' Ingat, tebakan ini hanya referensi santai dan bukan identitas resmi.''
         else
           stage_narrative descriptor @ '' '' @ confidenceText
             @ '' Ulangi foto dengan pencahayaan lebih merata agar AI dapat membaca usia lebih baik.'')"

text \<open>
  \<^verbatim>\<open>FALLBACK_AGE_PRESETS[key] ?? FALLBACK_AGE_PRESETS.default\<close>, then the reads
  \<^verbatim>\<open>preset.range.min\<close> and \<^verbatim>\<open>preset.range.max\<close>. An inherited member is not
  nullish, so it is kept; it has no \<^verbatim>\<open>range\<close>, and the read of \<^verbatim>\<open>min\<close> throws.
\<close>

definition buildFallbackAgeInsight :: "platform \<Rightarrow> ExpressionInsight option \<Rightarrow> js_error + AgeInsight" where
  "buildFallbackAgeInsight P expression =
     (let key = (case expression of Some e \<Rightarrow> toLowerCase (label e) | None \<Rightarrow> ''default'') in
      bindE
        (case table_lookup FALLBACK_AGE_PRESETS key of
           Own p \<Rightarrow> Inr p
         | Inherited k \<Rightarrow> Inl TypeError
         | Absent \<Rightarrow>
             (case table_lookup FALLBACK_AGE_PRESETS ''default'' of
                Own p \<Rightarrow> Inr p
              | _ \<Rightarrow> Inl TypeError))
        (\<lambda>preset.
           let rng = \<lparr>range_min = range_min (preset_range preset),
                        range_max = range_max (preset_range preset)\<rparr>;
               estimated = Some (preset_estimated preset);
               conf = clamp01 (preset_confidence preset);
               headline = buildAgeHeadline P rng estimated;
               narr = buildAgeNarrative P rng estimated conf
           in Inr \<lparr>age_label = preset_label preset,
                    age_confidence = conf,
                    age_estimated = estimated,
                    age_range = rng,
                    age_headline = headline,
                    age_narrative = narr\<rparr>))"

section \<open>Major codes\<close>

text \<open>
  \<^verbatim>\<open>isMajorCode\<close> asks \<^verbatim>\<open>hasOwnProperty\<close>, so only the three own keys of
  \<^verbatim>\<open>MAJOR_LABELS\<close> pass.
\<close>

definition major_of_key :: "string \<Rightarrow> MajorCode option" where
  "major_of_key k = map_of (map (\<lambda>c. (code_key c, c)) MAJOR_CODES) k"

definition isMajorCode :: "string \<Rightarrow> bool" where
  "isMajorCode v = (major_of_key v \<noteq> None)"

definition call_toUpperCase :: "jsval \<Rightarrow> js_error + string" where
  "call_toUpperCase v = (case v of JStr s \<Rightarrow> Inr (toUpperCase s) | _ \<Rightarrow> Inl TypeError)"

definition call_toLowerCase :: "jsval \<Rightarrow> js_error + string" where
  "call_toLowerCase v = (case v of JStr s \<Rightarrow> Inr (toLowerCase s) | _ \<Rightarrow> Inl TypeError)"

definition normalizeMajorCode :: "jsval \<Rightarrow> js_error + MajorCode" where
  "normalizeMajorCode v =
     bindE (call_toUpperCase (coalesce v (JStr '''')))
       (\<lambda>u. let upper = trim u
            in Inr (if isMajorCode upper
                    then (case major_of_key upper of Some c \<Rightarrow> c | None \<Rightarrow> RPL)
                    else RPL))"

definition resolveMajorName :: "jsval \<Rightarrow> jsval \<Rightarrow> js_error + string" where
  "resolveMajorName code providedName =
     bindE (normalizeMajorCode code)
       (\<lambda>majorCode.
          if truthy providedName then
            bindE (call_trim providedName)
              (\<lambda>t. if t \<noteq> [] then Inr t else Inr (MAJOR_LABELS majorCode))
          else Inr (MAJOR_LABELS majorCode))"

section \<open>Fallback analysis\<close>

definition point_value :: "ManifestingPoint \<Rightarrow> jsval" where
  "point_value p =
     JObj [(''indicator'', JStr (indicator_key (indicator p))),
           (''title'', JStr (title p)),
           (''description'', JStr (description p))]"

definition optional_string :: "string option \<Rightarrow> jsval" where
  "optional_string s = (case s of Some t \<Rightarrow> JStr t | None \<Rightarrow> JUndef)"

definition optional_points :: "ManifestingPoint list option \<Rightarrow> jsval" where
  "optional_points ps = (case ps of Some xs \<Rightarrow> JArr (map point_value xs) | None \<Rightarrow> JUndef)"

text \<open>
  The first loop of \<^verbatim>\<open>buildFallbackAnalysis\<close>: the notes of the template, under their
  normalized codes. The \<^verbatim>\<open>Map\<close> keeps insertion order, as \<open>AList.update\<close> does.
\<close>

fun template_notes ::
  "(string \<times> string) list \<Rightarrow> (MajorCode \<times> string) list \<Rightarrow> js_error + (MajorCode \<times> string) list" where
  "template_notes [] notes = Inr notes"
| "template_notes ((code, note) # rest) notes =
     bindE (normalizeMajorCode (JStr code))
       (\<lambda>normalized.
          template_notes rest (if note \<noteq> [] then AList.update normalized note notes else notes))"

text \<open>The second loop: a default note for every other code that has none.\<close>

fun default_notes ::
  "MajorCode \<Rightarrow> MajorCode list \<Rightarrow> (MajorCode \<times> string) list \<Rightarrow> (MajorCode \<times> string) list" where
  "default_notes m [] notes = notes"
| "default_notes m (code # rest) notes =
     (if code = m then default_notes m rest notes
      else if code \<notin> fst ` set notes
      then default_notes m rest (AList.update code (DEFAULT_MAJOR_NOTES code) notes)
      else default_notes m rest notes)"

text \<open>
  \<^verbatim>\<open>FALLBACK_TEMPLATES[label] ?? FALLBACK_TEMPLATES.default\<close>: the entry of that name,
  an inherited member (which is not nullish, and has none of the fields), or the default
  entry.
\<close>

definition select_template :: "string \<Rightarrow> FallbackTemplate" where
  "select_template lbl =
     (case table_lookup FALLBACK_TEMPLATES lbl of
        Own t \<Rightarrow> t
      | Inherited k \<Rightarrow> inherited_member_fields
      | Absent \<Rightarrow> template_default)"

definition buildFallbackAnalysis :: "ExpressionInsight \<Rightarrow> js_error + jsval" where
  "buildFallbackAnalysis expression =
     (let lbl = toLowerCase (label expression);
          template = select_template lbl;
          m = (case major template of Some c \<Rightarrow> c | None \<Rightarrow> RPL)
      in
      bindE
        (case alternatifNotes template of
           Some entries \<Rightarrow> template_notes entries []
         | None \<Rightarrow> Inr [])
        (\<lambda>notes0.
           let notes = default_notes m MAJOR_CODES notes0;
               langkah' =
                 (case langkah template of
                    Some s \<Rightarrow> trim s
                  | None \<Rightarrow> focus_langkah (DEFAULT_MAJOR_FOCUS m));
               kebiasaan' =
                 (case kebiasaan template of
                    Some ks \<Rightarrow>
                      if length ks > 0 then filter (\<lambda>e. e \<noteq> []) (map trim ks)
                      else focus_kebiasaan (DEFAULT_MAJOR_FOCUS m)
                  | None \<Rightarrow> focus_kebiasaan (DEFAULT_MAJOR_FOCUS m));
               alasan' =
                 (case alasan template of
                    Some ps \<Rightarrow> if length ps > 0 then ps else DEFAULT_MAJOR_POINTS m
                  | None \<Rightarrow> DEFAULT_MAJOR_POINTS m);
               alternatif =
                 map (\<lambda>(code, note).
                        JObj [(''kode'', JStr (code_key code)),
                              (''nama'', JStr (MAJOR_LABELS code)),
                              (''catatan'', JStr note)])
                     notes
           in
           Inr (JObj
             [(''expressionSummary'', JObj
                 [(''headline'', narrative expression),
                  (''energyTone'', optional_string (energyTone template)),
                  (''personalityHighlight'', optional_string (personality template)),
                  (''confidenceModifier'',
                     JNum (case confidenceModifier template of
                             Some c \<Rightarrow> c
                           | None \<Rightarrow> Finite (- 0.1)))]),
              (''manifesting'', JObj
                 [(''pekerjaanKarir'', optional_points (karir template)),
                  (''masaDepan'', optional_points (masaDepan template))]),
              (''rekomendasiJurusan'', JObj
                 [(''utama'', JObj
                     [(''kode'', JStr (code_key m)),
                      (''nama'', JStr (MAJOR_LABELS m)),
                      (''alasan'', JArr (map point_value alasan')),
                      (''langkahFokus'', JStr langkah'),
                      (''kebiasaanPendukung'', JArr (map JStr kebiasaan'))]),
                  (''alternatif'', JArr alternatif)])])))"

section \<open>Response normalization\<close>

datatype MetaSource = ai | fallback

record PayloadPoint =
  point_title :: string
  point_description :: string
  point_indicator :: jsval

record Alternative =
  alt_kode :: MajorCode
  alt_nama :: string
  alt_catatan :: string

text \<open>
  \<^verbatim>\<open>AnalysisPayload\<close>, its nested objects flattened. The text fields of the expression
  summary are whatever the structured result holds, unchecked.
\<close>

record AnalysisPayload =
  expr_headline :: jsval
  expr_energyTone :: jsval
  expr_personalityHighlight :: jsval
  expr_confidence :: jsnum
  expr_baseLabel :: string
  expr_baseConfidence :: jsnum
  payload_age :: AgeInsight
  manifesting_pekerjaanKarir :: "PayloadPoint list"
  manifesting_masaDepan :: "PayloadPoint list"
  utama_kode :: MajorCode
  utama_nama :: string
  utama_alasan :: "PayloadPoint list"
  utama_langkahFokus :: string
  utama_kebiasaanPendukung :: "string list"
  rekomendasi_alternatif :: "Alternative list"
  meta_source :: MetaSource
  meta_cached :: "bool option"

definition normalizePoints :: "jsval \<Rightarrow> js_error + PayloadPoint list" where
  "normalizePoints items =
     bindE (array_or_empty items)
       (\<lambda>xs.
          mapE (\<lambda>item.
                  bindE (call_trim (optget item ''title''))
                    (\<lambda>t. bindE (call_trim (optget item ''description''))
                      (\<lambda>d. Inr \<lparr>point_title = t,
                                  point_description = d,
                                  point_indicator =
                                    coalesce (optget item ''indicator'') (JStr ''opportunity'')\<rparr>)))
               (filter (\<lambda>item. truthy (optget item ''title'') \<and> truthy (optget item ''description''))
                  xs))"

definition sanitizeStringArray :: "jsval \<Rightarrow> js_error + string list" where
  "sanitizeStringArray items =
     bindE (array_or_empty items)
       (\<lambda>xs.
          bindE (mapE (\<lambda>entry. if nullish entry then Inr [] else call_trim entry) xs)
            (\<lambda>ys. Inr (filter (\<lambda>entry. entry \<noteq> []) ys)))"

definition alternatifDariAi :: "jsval \<Rightarrow> js_error + Alternative list" where
  "alternatifDariAi items =
     bindE (array_or_empty items)
       (\<lambda>xs.
          bindE
            (mapE (\<lambda>item.
                     let c = optget item ''catatan'' in
                     if nullish c then Inr None
                     else
                       bindE (call_trim c)
                         (\<lambda>catatan.
                            if catatan = [] then Inr None
                            else
                              bindE (normalizeMajorCode (optget item ''kode''))
                                (\<lambda>code.
                                   bindE (resolveMajorName (optget item ''kode'') (optget item ''nama''))
                                     (\<lambda>nama. Inr (Some \<lparr>alt_kode = code,
                                                          alt_nama = nama,
                                                          alt_catatan = catatan\<rparr>)))))
                  xs)
            (\<lambda>ys. Inr (List.map_filter (\<lambda>y. y) ys)))"

text \<open>The two loops that fill \<^verbatim>\<open>alternatif\<close>, with the set \<^verbatim>\<open>seenCodes\<close>.\<close>

fun alternatif_from_ai ::
  "Alternative list \<Rightarrow> Alternative list \<times> MajorCode set \<Rightarrow> Alternative list \<times> MajorCode set" where
  "alternatif_from_ai [] acc = acc"
| "alternatif_from_ai (alt # rest) (out, seenCodes) =
     (if alt_kode alt \<in> seenCodes then alternatif_from_ai rest (out, seenCodes)
      else alternatif_from_ai rest (out @ [alt], insert (alt_kode alt) seenCodes))"

fun alternatif_defaults ::
  "MajorCode list \<Rightarrow> Alternative list \<times> MajorCode set \<Rightarrow> Alternative list \<times> MajorCode set" where
  "alternatif_defaults [] acc = acc"
| "alternatif_defaults (code # rest) (out, seenCodes) =
     (if code \<in> seenCodes then alternatif_defaults rest (out, seenCodes)
      else alternatif_defaults rest
             (out @ [\<lparr>alt_kode = code,
                       alt_nama = MAJOR_LABELS code,
                       alt_catatan = DEFAULT_MAJOR_NOTES code\<rparr>],
              insert code seenCodes))"

definition build_alternatif :: "MajorCode \<Rightarrow> Alternative list \<Rightarrow> Alternative list" where
  "build_alternatif utamaKode fromAi =
     fst (alternatif_defaults MAJOR_CODES (alternatif_from_ai fromAi ([], {utamaKode})))"

text \<open>
  Lines 1065 to 1204 of the route: from the structured result (of the generator or of
  the fallback) to \<^verbatim>\<open>basePayload\<close>. Every read \<^verbatim>\<open>aiResult.x\<close> throws when
  \<^verbatim>\<open>aiResult\<close> is null or undefined.
\<close>

definition basePayload ::
  "ExpressionInsight \<Rightarrow> AgeInsight \<Rightarrow> MetaSource \<Rightarrow> jsval \<Rightarrow> js_error + AnalysisPayload" where
  "basePayload expression ageInsight metaSource aiResult =
     bindE (getp aiResult ''manifesting'') (\<lambda>manifesting.
     bindE (normalizePoints (optget manifesting ''pekerjaanKarir'')) (\<lambda>manifestingKarir.
     bindE (normalizePoints (optget manifesting ''masaDepan'')) (\<lambda>manifestingMasaDepan.
     bindE (getp aiResult ''rekomendasiJurusan'') (\<lambda>rekomendasi.
     let jurusanUtamaRaw = coalesce (optget rekomendasi ''utama'') (JObj []) in
     bindE (normalizeMajorCode (optget jurusanUtamaRaw ''kode'')) (\<lambda>utamaKode.
     bindE (resolveMajorName (optget jurusanUtamaRaw ''kode'') (optget jurusanUtamaRaw ''nama''))
       (\<lambda>utamaNama.
     bindE (normalizePoints (optget jurusanUtamaRaw ''alasan'')) (\<lambda>alasan0.
     bindE (if length alasan0 = 0
            then normalizePoints (JArr (map point_value (DEFAULT_MAJOR_POINTS utamaKode)))
            else Inr alasan0) (\<lambda>alasanJurusan.
     bindE (let l = optget jurusanUtamaRaw ''langkahFokus''
            in if nullish l then Inr (focus_langkah (DEFAULT_MAJOR_FOCUS utamaKode))
               else call_trim l) (\<lambda>langkahFokus.
     bindE (sanitizeStringArray (optget jurusanUtamaRaw ''kebiasaanPendukung'')) (\<lambda>kebiasaan0.
     let kebiasaanPendukung =
           (if length kebiasaan0 = 0 then focus_kebiasaan (DEFAULT_MAJOR_FOCUS utamaKode)
            else kebiasaan0) in
     bindE (alternatifDariAi (optget rekomendasi ''alternatif'')) (\<lambda>fromAi.
     let alternatif = build_alternatif utamaKode fromAi in
     bindE (getp aiResult ''expressionSummary'') (\<lambda>summary.
     let confidenceModifier = coalesce (optget summary ''confidenceModifier'') (JNum (Finite 0));
         expressionConfidence =
           (case confidenceModifier of
              JNum (Finite c) \<Rightarrow> clamp01 (num_add (confidence expression) (Finite c))
            | _ \<Rightarrow> confidence expression)
     in
     Inr \<lparr>expr_headline = coalesce (optget summary ''headline'') (narrative expression),
          expr_energyTone =
            coalesce (optget summary ''energyTone'')
              (JStr ''Energi netral, tetap jaga kestabilan emosi.''),
          expr_personalityHighlight =
            coalesce (optget summary ''personalityHighlight'')
              (JStr ''Karakter terlihat seimbang dan responsif.''),
          expr_confidence = expressionConfidence,
          expr_baseLabel = label expression,
          expr_baseConfidence = confidence expression,
          payload_age = ageInsight,
          manifesting_pekerjaanKarir = manifestingKarir,
          manifesting_masaDepan = manifestingMasaDepan,
          utama_kode = utamaKode,
          utama_nama = utamaNama,
          utama_alasan = alasanJurusan,
          utama_langkahFokus = langkahFokus,
          utama_kebiasaanPendukung = kebiasaanPendukung,
          rekomendasi_alternatif = alternatif,
          meta_source = metaSource,
          meta_cached = None\<rparr>))))))))))))"

section \<open>Upstream calls\<close>

text \<open>
  What one \<^verbatim>\<open>fetch\<close> can give: a rejected promise, or a response with its
  \<^verbatim>\<open>ok\<close> flag and a body. The body is described by what reading it gives: a failed
  read, text that is not JSON, or the parsed JSON value.
\<close>

datatype response_body = BodyFails | BodyNotJson | BodyJson jsval

datatype fetch_outcome = Rejects | Responds bool response_body

definition response_text :: "response_body \<Rightarrow> js_error + unit" where
  "response_text b = (case b of BodyFails \<Rightarrow> Inl StreamError | _ \<Rightarrow> Inr ())"

definition response_json :: "response_body \<Rightarrow> js_error + jsval" where
  "response_json b =
     (case b of BodyFails \<Rightarrow> Inl StreamError | BodyNotJson \<Rightarrow> Inl SyntaxError | BodyJson v \<Rightarrow> Inr v)"

definition first_or_undefined :: "jsval list \<Rightarrow> jsval" where
  "first_or_undefined xs = (case xs of [] \<Rightarrow> JUndef | x # _ \<Rightarrow> x)"

subsection \<open>Expression classifier\<close>

definition default_expression :: "jsnum \<Rightarrow> ExpressionInsight" where
  "default_expression c = \<lparr>narrative = JStr DEFAULT_EXPRESSION, confidence = c, label = ''neutral''\<rparr>"

text \<open>\<^verbatim>\<open>(a, b) => b.score - a.score\<close>\<close>

definition expression_compare :: "platform \<Rightarrow> jsval \<Rightarrow> jsval \<Rightarrow> js_error + jsnum" where
  "expression_compare P a b =
     bindE (getp b ''score'') (\<lambda>sb.
     bindE (getp a ''score'') (\<lambda>sa.
       Inr (num_sub (js_Number P sb) (js_Number P sa))))"

definition detectExpression :: "platform \<Rightarrow> fetch_outcome \<Rightarrow> js_error + ExpressionInsight" where
  "detectExpression P outcome =
     (case outcome of
        Rejects \<Rightarrow> Inl NetworkError
      | Responds ok body \<Rightarrow>
          if \<not> ok then
            bindE (response_text body) (\<lambda>detail. Inr (default_expression (Finite 0.42)))
          else
            bindE (response_json body) (\<lambda>data.
              case data of
                JArr (x # xs) \<Rightarrow>
                  bindE (js_sort (expression_compare P) (x # xs)) (\<lambda>sorted.
                  let top = first_or_undefined sorted in
                  bindE (getp top ''label'') (\<lambda>topLabel.
                  bindE (call_toLowerCase topLabel) (\<lambda>lower.
                  bindE (getp top ''score'') (\<lambda>topScore.
                  let refinedLabel =
                        (case table_lookup EXPRESSION_LABELS lower of
                           Own s \<Rightarrow> JStr s
                         | Inherited k \<Rightarrow> JInherited k
                         | Absent \<Rightarrow> JNull)
                  in
                  Inr \<lparr>narrative =
                         coalesce refinedLabel
                           (JStr (''Ekspresi dominan: '' @ js_String P topLabel
                                  @ '' dengan tingkat keyakinan ''
                                  @ to_fixed P 0 (num_scale 100 (js_Number P topScore)) @ ''%.'')),
                       confidence = clamp01 (js_Number P topScore),
                       label = js_String P topLabel\<rparr>))))
              | _ \<Rightarrow> Inr (default_expression (Finite 0.4))))"

subsection \<open>Age classifier\<close>

record AgeCandidate =
  cand_label :: string
  cand_score :: jsnum
  cand_directAge :: "jsnum option"

text \<open>\<^verbatim>\<open>(a, b) => Number(b?.score ?? 0) - Number(a?.score ?? 0)\<close>\<close>

definition age_compare :: "platform \<Rightarrow> jsval \<Rightarrow> jsval \<Rightarrow> js_error + jsnum" where
  "age_compare P a b =
     Inr (num_sub (js_Number P (coalesce (optget b ''score'') (JNum (Finite 0))))
                  (js_Number P (coalesce (optget a ''score'') (JNum (Finite 0)))))"

definition is_number :: "jsval \<Rightarrow> bool" where
  "is_number v = (case v of JNum _ \<Rightarrow> True | _ \<Rightarrow> False)"

definition is_string :: "jsval \<Rightarrow> bool" where
  "is_string v = (case v of JStr _ \<Rightarrow> True | _ \<Rightarrow> False)"

text \<open>The part of \<^verbatim>\<open>extractCandidate\<close> after the \<^verbatim>\<open>age_predictions\<close> branch.\<close>

definition candidate_of_object :: "platform \<Rightarrow> jsval \<Rightarrow> AgeCandidate option" where
  "candidate_of_object P obj =
     (if is_number (optget obj ''age'') then
        Some \<lparr>cand_label = js_String P (optget obj ''age''),
              cand_score =
                js_Number P (coalesce (optget obj ''confidence'')
                               (coalesce (optget obj ''score'') (JNum (Finite 0.55)))),
              cand_directAge = Some (js_Number P (optget obj ''age''))\<rparr>
      else if is_string (optget obj ''label'') then
        Some \<lparr>cand_label = js_String P (optget obj ''label''),
              cand_score =
                js_Number P (coalesce (optget obj ''score'')
                               (coalesce (optget obj ''confidence'') (JNum (Finite 0.4)))),
              cand_directAge = None\<rparr>
      else None)"

definition extractCandidate :: "platform \<Rightarrow> jsval \<Rightarrow> js_error + AgeCandidate option" where
  "extractCandidate P raw =
     (case raw of
        JArr xs \<Rightarrow>
          bindE (js_sort (age_compare P) xs) (\<lambda>sorted.
          let top = first_or_undefined sorted in
          if truthy top then
            bindE (getp top ''label'') (\<lambda>topLabel.
            bindE (getp top ''score'') (\<lambda>topScore.
              Inr (Some \<lparr>cand_label = js_String P (coalesce topLabel (JStr ''unknown'')),
                         cand_score = js_Number P (coalesce topScore (JNum (Finite 0.35))),
                         cand_directAge = None\<rparr>)))
          else Inr None)
      | JObj kvs \<Rightarrow>
          (case optget raw ''age_predictions'' of
             JArr ps \<Rightarrow>
               bindE (js_sort (age_compare P) ps) (\<lambda>sorted.
               let top = first_or_undefined sorted in
               if truthy top then
                 Inr (Some
                   \<lparr>cand_label =
                      (if is_string (optget top ''label'') then js_String P (optget top ''label'')
                       else if is_number (optget top ''age'') then js_String P (optget top ''age'')
                       else ''unknown''),
                    cand_score =
                      js_Number P (coalesce (optget top ''score'')
                                     (coalesce (optget top ''confidence'') (JNum (Finite 0.3)))),
                    cand_directAge = None\<rparr>)
               else Inr (candidate_of_object P raw))
           | _ \<Rightarrow> Inr (candidate_of_object P raw))
      | _ \<Rightarrow> Inr None)"

text \<open>The body of the \<^verbatim>\<open>try\<close> block of \<^verbatim>\<open>detectAge\<close>.\<close>

definition detectAge_try ::
  "platform \<Rightarrow> fetch_outcome \<Rightarrow> ExpressionInsight option \<Rightarrow> js_error + AgeInsight" where
  "detectAge_try P outcome expression =
     (case outcome of
        Rejects \<Rightarrow> Inl NetworkError
      | Responds ok body \<Rightarrow>
          if \<not> ok then
            bindE (response_text body) (\<lambda>detail. buildFallbackAgeInsight P expression)
          else
            bindE (response_json body) (\<lambda>raw.
            bindE (extractCandidate P raw) (\<lambda>candidate.
              case candidate of
                None \<Rightarrow> buildFallbackAgeInsight P expression
              | Some c \<Rightarrow>
                  let rng = parseAgeLabelRange (cand_label c);
                      estimated = computeEstimatedAge rng (cand_directAge c);
                      conf = clamp01 (cand_score c)
                  in
                  if range_min rng = None \<and> range_max rng = None \<and> estimated = None
                  then buildFallbackAgeInsight P expression
                  else
                    Inr \<lparr>age_label = cand_label c,
                         age_confidence = conf,
                         age_estimated = estimated,
                         age_range = rng,
                         age_headline = buildAgeHeadline P rng estimated,
                         age_narrative = buildAgeNarrative P rng estimated conf\<rparr>)))"

text \<open>The \<^verbatim>\<open>catch\<close> block calls the fallback once more, outside any handler.\<close>

definition detectAge ::
  "platform \<Rightarrow> fetch_outcome \<Rightarrow> ExpressionInsight option \<Rightarrow> js_error + AgeInsight" where
  "detectAge P outcome expression =
     (case detectAge_try P outcome expression of
        Inr insight \<Rightarrow> Inr insight
      | Inl error \<Rightarrow> buildFallbackAgeInsight P expression)"

subsection \<open>Narrative generator\<close>

text \<open>
  The request text (the two prompts) reaches only the upstream service, whose answer is
  an input of the model, so the prompts are not built here. What is kept of the code
  before the \<^verbatim>\<open>fetch\<close> is the one step that can throw: \<^verbatim>\<open>affinity.map(...)\<close> on
  the value found in \<^verbatim>\<open>EXPRESSION_MAJOR_AFFINITY\<close>. The message of a thrown error is
  only logged by the caller and is not modelled.
\<close>

text \<open>\<^verbatim>\<open>payload?.choices?.[0]?.message?.content\<close>\<close>

definition message_content :: "jsval \<Rightarrow> jsval" where
  "message_content payload =
     optget (optget (optindex0 (optget payload ''choices'')) ''message'') ''content''"

definition generateFaceReading ::
  "platform \<Rightarrow> fetch_outcome \<Rightarrow> ExpressionInsight \<Rightarrow> AgeInsight \<Rightarrow> js_error + jsval" where
  "generateFaceReading P outcome expression age =
     (case table_lookup EXPRESSION_MAJOR_AFFINITY (toLowerCase (label expression)) of
        Inherited k \<Rightarrow> Inl TypeError
      | _ \<Rightarrow>
          (case outcome of
             Rejects \<Rightarrow> Inl NetworkError
           | Responds ok body \<Rightarrow>
               if \<not> ok then Inl ThrownError
               else
                 bindE (response_json body) (\<lambda>payload.
                 let content = message_content payload in
                 bindE (if nullish content then Inr [] else call_trim content) (\<lambda>rawText.
                   if rawText = [] then Inl ThrownError
                   else
                     (case JSON_parse P (trim (strip_fences rawText)) of
                        Some parsed \<Rightarrow> Inr parsed
                      | None \<Rightarrow> Inl ThrownError)))))"

section \<open>The POST handler\<close>

record Env =
  NEXT_PUBLIC_HF_TOKEN :: "string option"
  HF_TOKEN :: "string option"
  TOGETHER_API_KEY :: "string option"

text \<open>
  A request: the two headers the handler reads, and what \<^verbatim>\<open>req.json()\<close> gives
  (\<open>None\<close> when it rejects).
\<close>

record Request =
  x_forwarded_for :: "string option"
  x_real_ip :: "string option"
  json_body :: "jsval option"

text \<open>
  The clock readings of one request: \<^verbatim>\<open>Date.now()\<close> inside \<^verbatim>\<open>checkRateLimit\<close>,
  \<^verbatim>\<open>Date.now()\<close> before the cache lookup, and \<^verbatim>\<open>new Date()\<close> for
  \<^verbatim>\<open>generatedAt\<close> (kept as the reading; the ISO text is not modelled).
\<close>

record Clock =
  limiter_now :: int
  cache_now :: int
  generated_now :: int

record Upstream =
  expression_call :: fetch_outcome
  age_call :: fetch_outcome
  generator_call :: fetch_outcome

record CacheEntry =
  entry_timestamp :: int
  entry_data :: AnalysisPayload

record ServerState =
  rateBuckets :: rate_buckets
  analysisCache :: "string \<rightharpoonup> CacheEntry"

record ResponseBody =
  body_payload :: AnalysisPayload
  generatedAt :: int

text \<open>A response: the payload with status 200, or an error status (its message is not modelled).\<close>

datatype Response = Json200 ResponseBody | ErrorStatus nat

definition truthy_string :: "string option \<Rightarrow> bool" where
  "truthy_string s = (case s of Some t \<Rightarrow> t \<noteq> [] | None \<Rightarrow> False)"

definition clientKey :: "Request \<Rightarrow> string" where
  "clientKey req =
     (let forwarded = (case x_forwarded_for req of Some f \<Rightarrow> f | None \<Rightarrow> '''');
          first = (case split_comma forwarded of piece # _ \<Rightarrow> trim piece | [] \<Rightarrow> '''')
      in if first \<noteq> [] then first
         else (case x_real_ip req of
                 Some ip \<Rightarrow> if ip \<noteq> [] then ip else ''anonymous''
               | None \<Rightarrow> ''anonymous''))"

text \<open>\<^verbatim>\<open>image.split(",")[1]\<close>, when it is a non-empty string.\<close>

definition base64Data :: "string \<Rightarrow> string option" where
  "base64Data img =
     (case split_comma img of
        _ # second # _ \<Rightarrow> if second \<noteq> [] then Some second else None
      | _ \<Rightarrow> None)"

text \<open>
  The pipeline after the cache lookup missed, up to \<^verbatim>\<open>basePayload\<close>. An error of
  \<^verbatim>\<open>generateFaceReading\<close> is caught and replaced by the fallback analysis.
\<close>

definition full_pipeline :: "platform \<Rightarrow> Upstream \<Rightarrow> js_error + AnalysisPayload" where
  "full_pipeline P ups =
     bindE (detectExpression P (expression_call ups)) (\<lambda>expression.
     bindE (detectAge P (age_call ups) (Some expression)) (\<lambda>ageInsight.
       case generateFaceReading P (generator_call ups) expression ageInsight of
         Inr aiResult \<Rightarrow> basePayload expression ageInsight ai aiResult
       | Inl err \<Rightarrow>
           bindE (buildFallbackAnalysis expression) (\<lambda>aiResult.
             basePayload expression ageInsight fallback aiResult)))"

text \<open>
  The handler from the rate-limit check on (lines 1025 to 1212), for a request whose
  image passed the checks: \<open>key\<close> is the client key and \<open>b64\<close> the text
  \<^verbatim>\<open>base64Data\<close>. An exception of the pipeline reaches the outer \<^verbatim>\<open>catch\<close>, which
  answers 500; by then the rate limiter has recorded the request.
\<close>

definition POST_validated ::
  "platform \<Rightarrow> string \<Rightarrow> string \<Rightarrow> Clock \<Rightarrow> Upstream \<Rightarrow> ServerState \<Rightarrow> Response \<times> ServerState" where
  "POST_validated P key b64 clock ups state =
     (let (limited, buckets) = checkRateLimit (limiter_now clock) key (rateBuckets state);
          state1 = state\<lparr>rateBuckets := buckets\<rparr>
      in
      if limited then (ErrorStatus 429, state1)
      else
        let imageHash = sha256_hex P b64;
            now = cache_now clock;
            cachedEntry =
              (case analysisCache state1 imageHash of
                 Some e \<Rightarrow> if now - entry_timestamp e < CACHE_TTL_MS then Some e else None
               | None \<Rightarrow> None)
        in
        case cachedEntry of
          Some e \<Rightarrow>
            (Json200
               \<lparr>body_payload = (entry_data e)\<lparr>meta_cached := Some True\<rparr>,
                generatedAt = generated_now clock\<rparr>,
             state1)
        | None \<Rightarrow>
            (case full_pipeline P ups of
               Inl err \<Rightarrow> (ErrorStatus 500, state1)
             | Inr payload \<Rightarrow>
                 (Json200 \<lparr>body_payload = payload, generatedAt = generated_now clock\<rparr>,
                  state1\<lparr>analysisCache :=
                            (analysisCache state1)
                              (imageHash \<mapsto> \<lparr>entry_timestamp = now, entry_data = payload\<rparr>)\<rparr>)))"

text \<open>
  \<^verbatim>\<open>POST\<close>: the credentials, then (inside the outer \<^verbatim>\<open>try\<close>) the request body
  and the image, then the rest. A body that is not JSON, or is null, throws and is
  answered 500.
\<close>

definition POST ::
  "platform \<Rightarrow> Env \<Rightarrow> Request \<Rightarrow> Clock \<Rightarrow> Upstream \<Rightarrow> ServerState \<Rightarrow> Response \<times> ServerState" where
  "POST P env req clock ups state =
     (let hfToken = (case NEXT_PUBLIC_HF_TOKEN env of Some t \<Rightarrow> Some t | None \<Rightarrow> HF_TOKEN env);
          togetherToken = TOGETHER_API_KEY env
      in
      if \<not> (truthy_string hfToken \<and> truthy_string togetherToken) then (ErrorStatus 500, state)
      else
        let key = clientKey req in
        case json_body req of
          None \<Rightarrow> (ErrorStatus 500, state)
        | Some body \<Rightarrow>
            (case getp body ''image'' of
               Inl err \<Rightarrow> (ErrorStatus 500, state)
             | Inr imageValue \<Rightarrow>
                 (case imageValue of
                    JStr img \<Rightarrow>
                      if img = [] then (ErrorStatus 400, state)
                      else
                        (case base64Data img of
                           None \<Rightarrow> (ErrorStatus 400, state)
                         | Some b64 \<Rightarrow> POST_validated P key b64 clock ups state)
                  | _ \<Rightarrow> (ErrorStatus 400, state))))"

text \<open>A run of requests against the one handler: each call starts from the state the last left.\<close>

fun POST_run ::
  "platform \<Rightarrow> Env \<Rightarrow> (Request \<times> Clock \<times> Upstream) list \<Rightarrow> ServerState
     \<Rightarrow> Response list \<times> ServerState" where
  "POST_run P env [] state = ([], state)"
| "POST_run P env ((req, clock, ups) # rest) state =
     (let (r, state') = POST P env req clock ups state;
          (rs, state'') = POST_run P env rest state'
      in (r # rs, state''))"

section \<open>Notions used in the statements\<close>

text \<open>The admitted timestamps of a key that are still inside the window at \<open>now\<close>.\<close>

definition live_timestamps :: "int \<Rightarrow> string \<Rightarrow> rate_buckets \<Rightarrow> int list" where
  "live_timestamps now key buckets =
     filter (\<lambda>ts. ts > now - RATE_LIMIT_WINDOW_MS)
       (case buckets key of Some ts \<Rightarrow> ts | None \<Rightarrow> [])"

text \<open>Both credentials are set (the first test of \<^verbatim>\<open>POST\<close> passes).\<close>

definition credentials_present :: "Env \<Rightarrow> bool" where
  "credentials_present env =
     (truthy_string (case NEXT_PUBLIC_HF_TOKEN env of Some t \<Rightarrow> Some t | None \<Rightarrow> HF_TOKEN env)
      \<and> truthy_string (TOGETHER_API_KEY env))"

text \<open>
  The base64 text of a request that passes the image checks: its body is JSON with a
  non-empty string \<^verbatim>\<open>image\<close> whose second comma-separated piece is not empty.
\<close>

definition image_payload :: "Request \<Rightarrow> string option" where
  "image_payload req =
     (case json_body req of
        Some body \<Rightarrow>
          (case optget body ''image'' of
             JStr img \<Rightarrow> if img = [] then None else base64Data img
           | _ \<Rightarrow> None)
      | None \<Rightarrow> None)"

text \<open>
  A structured result conforms to \<^verbatim>\<open>AiStructuredResult\<close> when it is not null or
  undefined and every field the normalization reads is absent, null, or of the type the
  TypeScript declaration gives it: the lists are arrays, and the texts (title,
  description, kode, nama, langkahFokus, catatan, the entries of kebiasaanPendukung) are
  strings. Fields may be missing at every level, and entries of the lists may be null.
\<close>

definition optional_string_value :: "jsval \<Rightarrow> bool" where
  "optional_string_value v = (nullish v \<or> is_string v)"

definition point_list_conforms :: "jsval \<Rightarrow> bool" where
  "point_list_conforms v =
     (nullish v \<or>
      (case v of
         JArr xs \<Rightarrow>
           list_all (\<lambda>item. optional_string_value (optget item ''title'')
                          \<and> optional_string_value (optget item ''description'')) xs
       | _ \<Rightarrow> False))"

definition string_list_conforms :: "jsval \<Rightarrow> bool" where
  "string_list_conforms v =
     (nullish v \<or> (case v of JArr xs \<Rightarrow> list_all optional_string_value xs | _ \<Rightarrow> False))"

definition alternatif_conforms :: "jsval \<Rightarrow> bool" where
  "alternatif_conforms v =
     (nullish v \<or>
      (case v of
         JArr xs \<Rightarrow>
           list_all (\<lambda>item. optional_string_value (optget item ''kode'')
                          \<and> optional_string_value (optget item ''nama'')
                          \<and> optional_string_value (optget item ''catatan'')) xs
       | _ \<Rightarrow> False))"

definition conforms_AiStructuredResult :: "jsval \<Rightarrow> bool" where
  "conforms_AiStructuredResult v =
     (\<not> nullish v \<and>
      (let manifesting = optget v ''manifesting'';
           rekomendasi = optget v ''rekomendasiJurusan'';
           utama = coalesce (optget rekomendasi ''utama'') (JObj [])
       in point_list_conforms (optget manifesting ''pekerjaanKarir'')
          \<and> point_list_conforms (optget manifesting ''masaDepan'')
          \<and> optional_string_value (optget utama ''kode'')
          \<and> optional_string_value (optget utama ''nama'')
          \<and> point_list_conforms (optget utama ''alasan'')
          \<and> optional_string_value (optget utama ''langkahFokus'')
          \<and> string_list_conforms (optget utama ''kebiasaanPendukung'')
          \<and> alternatif_conforms (optget rekomendasi ''alternatif'')))"

text \<open>
  The invariant of the two loops that fill \<^verbatim>\<open>alternatif\<close>: the set of seen codes is
  the primary code together with the codes listed so far, and no code is listed twice.
\<close>

definition seen_invariant :: "MajorCode \<Rightarrow> Alternative list \<times> MajorCode set \<Rightarrow> bool" where
  "seen_invariant u acc =
     (snd acc = insert u (set (map alt_kode (fst acc)))
      \<and> distinct (u # map alt_kode (fst acc)))"

section \<open>Sample inputs\<close>

text \<open>Concrete values at which the theorems below are instantiated.\<close>

definition sample_platform :: platform where
  "sample_platform =
     \<lparr>sha256_hex = (\<lambda>s. s),
      number_to_string = (\<lambda>n. ''0''),
      to_fixed = (\<lambda>d n. ''0''),
      other_to_number = (\<lambda>v. NaN),
      other_to_string = (\<lambda>v. ''[object Object]''),
      JSON_parse = (\<lambda>s. if s = ''null'' then Some JNull else None)\<rparr>"

definition sample_env :: Env where
  "sample_env =
     \<lparr>NEXT_PUBLIC_HF_TOKEN = Some ''hf_token'', HF_TOKEN = None,
      TOGETHER_API_KEY = Some ''together_key''\<rparr>"

definition sample_request :: Request where
  "sample_request =
     \<lparr>x_forwarded_for = Some ''203.0.113.7, 10.0.0.1'',
      x_real_ip = None,
      json_body = Some (JObj [(''image'', JStr ''data:image/png;base64,iVBORw0KGgo='')])\<rparr>"

definition sample_clock :: Clock where
  "sample_clock = \<lparr>limiter_now = 7000, cache_now = 7001, generated_now = 7950\<rparr>"

definition sample_expression_answer :: fetch_outcome where
  "sample_expression_answer =
     Responds True
       (BodyJson (JArr [JObj [(''label'', JStr ''sadness''), (''score'', JNum (Finite 0.2))],
                        JObj [(''label'', JStr ''happiness''), (''score'', JNum (Finite 0.7))]]))"

definition sample_age_answer :: fetch_outcome where
  "sample_age_answer =
     Responds True (BodyJson (JObj [(''label'', JStr ''60+''), (''score'', JNum (Finite 0.8))]))"

definition sample_upstream :: Upstream where
  "sample_upstream =
     \<lparr>expression_call = sample_expression_answer,
      age_call = sample_age_answer,
      generator_call = Responds False BodyNotJson\<rparr>"

definition sample_expression :: ExpressionInsight where
  "sample_expression =
     \<lparr>narrative = JStr ''Ekspresi bahagia mendominasi, menunjukkan energi positif dan terbuka.'',
      confidence = Finite 0.7,
      label = ''happiness''\<rparr>"

definition sample_age :: AgeInsight where
  "sample_age =
     \<lparr>age_label = ''60+'',
      age_confidence = Finite 0.8,
      age_estimated = Some (Finite 60),
      age_range = \<lparr>range_min = Some (Finite 60), range_max = None\<rparr>,
      age_headline = ''Perkiraan usia 60+ tahun'',
      age_narrative = ''Model belum yakin dengan hasil ini.''\<rparr>"

definition empty_state :: ServerState where
  "empty_state = \<lparr>rateBuckets = Map.empty, analysisCache = Map.empty\<rparr>"

definition busy_buckets :: rate_buckets where
  "busy_buckets = Map.empty(''203.0.113.7'' \<mapsto> [1000, 2000, 3000, 4000, 5000, 6000])"

definition busy_state :: ServerState where
  "busy_state = \<lparr>rateBuckets = busy_buckets, analysisCache = Map.empty\<rparr>"

definition empty_image_request :: Request where
  "empty_image_request =
     \<lparr>x_forwarded_for = Some ''203.0.113.7, 10.0.0.1'',
      x_real_ip = None,
      json_body = Some (JObj [(''image'', JStr ''data:image/png;base64,'')])\<rparr>"

text \<open>A generator answer whose message content is the JSON text \<^verbatim>\<open>null\<close>.\<close>

definition null_answer :: fetch_outcome where
  "null_answer =
     Responds True
       (BodyJson (JObj [(''choices'',
                         JArr [JObj [(''message'', JObj [(''content'', JStr ''null'')])]])]))"

text \<open>Structured results with a list that is no array, and with a title that is no string.\<close>

definition result_with_text_list :: jsval where
  "result_with_text_list = JObj [(''manifesting'', JObj [(''pekerjaanKarir'', JStr ''none'')])]"

definition result_with_number_title :: jsval where
  "result_with_number_title =
     JObj [(''manifesting'',
            JObj [(''pekerjaanKarir'',
                   JArr [JObj [(''title'', JNum (Finite 1)), (''description'', JStr ''d'')]])])]"

text \<open>A structured result with missing fields, a null entry and an entry without description.\<close>

definition partial_result :: jsval where
  "partial_result =
     JObj [(''manifesting'',
            JObj [(''pekerjaanKarir'', JArr [JNull, JObj [(''title'', JStr ''Fokus'')]])]),
           (''rekomendasiJurusan'',
            JObj [(''utama'', JObj [(''kode'', JStr '' tkj '')]),
                  (''alternatif'', JArr [JObj [(''kode'', JStr ''TKJ''), (''catatan'', JStr ''x'')],
                                         JObj [(''kode'', JStr ''dkv''), (''catatan'', JStr ''y'')]])])]"

definition later_clock :: Clock where
  "later_clock = \<lparr>limiter_now = 9000, cache_now = 9001, generated_now = 9002\<rparr>"

text \<open>Seven requests of one client within one minute.\<close>

definition seven_calls :: "(Request \<times> Clock \<times> Upstream) list" where
  "seven_calls =
     map (\<lambda>t. (sample_request,
                \<lparr>limiter_now = t, cache_now = t + 1, generated_now = t + 2\<rparr>,
                sample_upstream))
       [0, 10000, 20000, 30000, 40000, 50000, 59999]"

text \<open>An expression classifier answer whose label names an inherited member.\<close>

definition inherited_label_upstream :: Upstream where
  "inherited_label_upstream =
     \<lparr>expression_call =
        Responds True
          (BodyJson (JArr [JObj [(''label'', JStr ''constructor''),
                                 (''score'', JNum (Finite 0.9))]])),
      age_call = Rejects,
      generator_call = Responds False BodyNotJson\<rparr>"

section \<open>Age labels\<close>

lemma digit_runs_examples:
  "digit_runs ''25-32'' = [''25'', ''32'']"
  "digit_runs ''60+'' = [''60'']"
  "digit_runs ''n/a'' = []"
  by (simp_all add: digit_runs_def is_digit_def)

lemma Number_of_digits_examples:
  "Number_of_digits ''25'' = Finite 25"
  "Number_of_digits ''32'' = Finite 32"
  "Number_of_digits ''60'' = Finite 60"
  by (simp_all add: Number_of_digits_def digits_value_def)

lemma parseAgeLabelRange_closed:
  "parseAgeLabelRange ''25-32'' = \<lparr>range_min = Some (Finite 25), range_max = Some (Finite 32)\<rparr>"
  by (simp add: parseAgeLabelRange_def digit_runs_examples Number_of_digits_examples
      Number_isFinite_def Math_min_def Math_max_def)

lemma parseAgeLabelRange_open:
  "parseAgeLabelRange ''60+'' = \<lparr>range_min = Some (Finite 60), range_max = None\<rparr>"
  by (simp add: parseAgeLabelRange_def digit_runs_examples Number_of_digits_examples
      Number_isFinite_def)

lemma parseAgeLabelRange_none:
  "parseAgeLabelRange ''n/a'' = \<lparr>range_min = None, range_max = None\<rparr>"
  by (simp add: parseAgeLabelRange_def digit_runs_examples no_range_def)

lemma detectAge_label_object_na:
  "detectAge P (Responds True (BodyJson (JObj [(''label'', JStr ''n/a'')]))) expression
     = buildFallbackAgeInsight P expression"
  by (simp add: detectAge_def detectAge_try_def response_json_def extractCandidate_def
      optget_def candidate_of_object_def is_number_def is_string_def js_String_def
      parseAgeLabelRange_none computeEstimatedAge_def object_prototype_keys_def
      split: sum.splits)

lemma detectAge_label_array_na:
  "detectAge P
     (Responds True (BodyJson (JArr [JObj [(''label'', JStr ''n/a''), (''score'', JNum s)]])))
     expression
     = buildFallbackAgeInsight P expression"
  by (simp add: detectAge_def detectAge_try_def response_json_def extractCandidate_def
      optget_def js_sort_def first_or_undefined_def getp_def nullish_def coalesce_def
      js_Number_def js_String_def parseAgeLabelRange_none computeEstimatedAge_def
      split: sum.splits)

text \<open>
  C7. The label \<^verbatim>\<open>"25-32"\<close> parses to the range 25 to 32 with estimated age 29, the
  rounded midpoint; \<^verbatim>\<open>"60+"\<close> parses to the range from 60 with no upper bound and
  estimated age 60; \<^verbatim>\<open>"n/a"\<close> parses to the range with neither bound, and a
  classifier answer that carries this label and no numeric age makes \<^verbatim>\<open>detectAge\<close>
  return the fallback preset of the expression, whatever the platform, the score and the
  expression are.
\<close>

theorem age_label_examples:
  "parseAgeLabelRange ''25-32'' = \<lparr>range_min = Some (Finite 25), range_max = Some (Finite 32)\<rparr>
   \<and> computeEstimatedAge (parseAgeLabelRange ''25-32'') None = Some (Finite 29)
   \<and> parseAgeLabelRange ''60+'' = \<lparr>range_min = Some (Finite 60), range_max = None\<rparr>
   \<and> computeEstimatedAge (parseAgeLabelRange ''60+'') None = Some (Finite 60)
   \<and> parseAgeLabelRange ''n/a'' = \<lparr>range_min = None, range_max = None\<rparr>
   \<and> detectAge P (Responds True (BodyJson (JObj [(''label'', JStr ''n/a'')]))) expression
         = buildFallbackAgeInsight P expression
   \<and> detectAge P
         (Responds True (BodyJson (JArr [JObj [(''label'', JStr ''n/a''), (''score'', JNum s)]])))
         expression
         = buildFallbackAgeInsight P expression"
proof -
  have mid: "computeEstimatedAge (parseAgeLabelRange ''25-32'') None = Some (Finite 29)"
    by (simp add: parseAgeLabelRange_closed computeEstimatedAge_def)
  have low: "computeEstimatedAge (parseAgeLabelRange ''60+'') None = Some (Finite 60)"
    by (simp add: parseAgeLabelRange_open computeEstimatedAge_def)
  show ?thesis
    using mid low parseAgeLabelRange_closed parseAgeLabelRange_open parseAgeLabelRange_none
      detectAge_label_object_na detectAge_label_array_na
    by simp
qed

section \<open>Rate limiting\<close>

lemma checkRateLimit_full:
  "length (live_timestamps now key buckets) \<ge> RATE_LIMIT_MAX
   \<Longrightarrow> checkRateLimit now key buckets
       = (True, buckets(key \<mapsto> live_timestamps now key buckets))"
  by (simp add: checkRateLimit_def live_timestamps_def Let_def)

lemma checkRateLimit_room:
  "length (live_timestamps now key buckets) < RATE_LIMIT_MAX
   \<Longrightarrow> checkRateLimit now key buckets
       = (False, buckets(key \<mapsto> live_timestamps now key buckets @ [now]))"
  by (simp add: checkRateLimit_def live_timestamps_def Let_def)

text \<open>
  A run of requests that all fall into one window: the bucket only grows until it is
  full, so the first free slots are admitted and every later request is rejected.
\<close>

lemma checkRateLimit_run_one_window:
  assumes "(case buckets key of Some ts \<Rightarrow> ts | None \<Rightarrow> []) = cur"
      and "\<forall>t \<in> set stamps. \<forall>u \<in> set cur \<union> set stamps. u > t - RATE_LIMIT_WINDOW_MS"
      and "length cur \<le> RATE_LIMIT_MAX"
  shows "fst (checkRateLimit_run key stamps buckets)
         = replicate (min (length stamps) (RATE_LIMIT_MAX - length cur)) False
           @ replicate (length stamps - (RATE_LIMIT_MAX - length cur)) True"
  using assms
proof (induction stamps arbitrary: buckets cur)
  case Nil
  then show ?case by simp
next
  case (Cons now rest)
  have keep: "live_timestamps now key buckets = cur"
    using Cons.prems(1,2) by (auto simp: live_timestamps_def filter_id_conv)
  show ?case
  proof (cases "length cur < RATE_LIMIT_MAX")
    case True
    have step: "checkRateLimit now key buckets = (False, buckets(key \<mapsto> cur @ [now]))"
      using checkRateLimit_room[of now key buckets] keep True by simp
    have ih: "fst (checkRateLimit_run key rest (buckets(key \<mapsto> cur @ [now])))
         = replicate (min (length rest) (RATE_LIMIT_MAX - length (cur @ [now]))) False
           @ replicate (length rest - (RATE_LIMIT_MAX - length (cur @ [now]))) True"
    proof (rule Cons.IH)
      show "(case (buckets(key \<mapsto> cur @ [now])) key of Some ts \<Rightarrow> ts | None \<Rightarrow> []) = cur @ [now]"
        by simp
      show "\<forall>t\<in>set rest. \<forall>u\<in>set (cur @ [now]) \<union> set rest. t - RATE_LIMIT_WINDOW_MS < u"
        using Cons.prems(2) by auto
      show "length (cur @ [now]) \<le> RATE_LIMIT_MAX"
        using True by simp
    qed
    obtain m where m: "RATE_LIMIT_MAX - length cur = Suc m"
      using True by (metis Suc_diff_Suc)
    then have "RATE_LIMIT_MAX - length (cur @ [now]) = m"
      by simp
    with step ih m show ?thesis
      by (simp add: split_beta)
  next
    case False
    then have full: "length cur = RATE_LIMIT_MAX"
      using Cons.prems(3) by simp
    have step: "checkRateLimit now key buckets = (True, buckets(key \<mapsto> cur))"
      using checkRateLimit_full[of now key buckets] keep full by simp
    have ih: "fst (checkRateLimit_run key rest (buckets(key \<mapsto> cur)))
         = replicate (min (length rest) (RATE_LIMIT_MAX - length cur)) False
           @ replicate (length rest - (RATE_LIMIT_MAX - length cur)) True"
    proof (rule Cons.IH)
      show "(case (buckets(key \<mapsto> cur)) key of Some ts \<Rightarrow> ts | None \<Rightarrow> []) = cur"
        by simp
      show "\<forall>t\<in>set rest. \<forall>u\<in>set cur \<union> set rest. t - RATE_LIMIT_WINDOW_MS < u"
        using Cons.prems(2) by auto
      show "length cur \<le> RATE_LIMIT_MAX"
        using Cons.prems(3) .
    qed
    with step full show ?thesis
      by (simp add: split_beta)
  qed
qed

section \<open>The stages of the handler\<close>

lemma POST_valid:
  assumes "credentials_present env" and "image_payload req = Some b64"
  shows "POST P env req clock ups state = POST_validated P (clientKey req) b64 clock ups state"
  using assms
  by (auto simp: POST_def credentials_present_def image_payload_def getp_def nullish_def optget_def
      split: option.splits jsval.splits if_splits)

lemma POST_bad_image:
  assumes "credentials_present env" and "json_body req = Some body" and "\<not> nullish body"
      and "image_payload req = None"
  shows "POST P env req clock ups state = (ErrorStatus 400, state)"
  using assms
  by (auto simp: POST_def credentials_present_def image_payload_def getp_def
      split: option.splits jsval.splits if_splits)

lemma POST_validated_limited:
  assumes "length (live_timestamps (limiter_now clock) key (rateBuckets state)) \<ge> RATE_LIMIT_MAX"
  shows "POST_validated P key b64 clock ups state
         = (ErrorStatus 429,
            state\<lparr>rateBuckets := (rateBuckets state)(key \<mapsto>
                     live_timestamps (limiter_now clock) key (rateBuckets state))\<rparr>)"
  using assms checkRateLimit_full[of "limiter_now clock" key "rateBuckets state"]
  by (simp add: POST_validated_def)

lemma POST_validated_not_400:
  "fst (POST_validated P key b64 clock ups state) \<noteq> ErrorStatus 400"
  by (simp add: POST_validated_def Let_def split_beta split: option.splits sum.splits)

lemma POST_limiter:
  assumes "credentials_present env" and "image_payload req = Some b64"
  shows "(fst (POST P env req clock ups state) = ErrorStatus 429)
           = fst (checkRateLimit (limiter_now clock) (clientKey req) (rateBuckets state))
         \<and> rateBuckets (snd (POST P env req clock ups state))
           = snd (checkRateLimit (limiter_now clock) (clientKey req) (rateBuckets state))"
  using POST_valid[OF assms, of P clock ups state]
  by (auto simp: POST_validated_def split_beta Let_def split: option.splits sum.splits)

text \<open>
  In a run of requests of one key that all pass the checks, the handler answers 429
  exactly where \<^verbatim>\<open>checkRateLimit\<close> rejects.
\<close>

lemma POST_run_limiter:
  assumes "credentials_present env"
      and "\<forall>call \<in> set calls. image_payload (fst call) \<noteq> None \<and> clientKey (fst call) = key"
  shows "map (\<lambda>r. r = ErrorStatus 429) (fst (POST_run P env calls state))
         = fst (checkRateLimit_run key (map (\<lambda>call. limiter_now (fst (snd call))) calls)
                  (rateBuckets state))"
  using assms(2)
proof (induction calls arbitrary: state)
  case Nil
  then show ?case by simp
next
  case (Cons call rest)
  obtain req clock ups where call: "call = (req, clock, ups)"
    by (cases call)
  from Cons.prems call obtain b64 where b64: "image_payload req = Some b64"
    and key: "clientKey req = key"
    by auto
  have lim: "(fst (POST P env req clock ups state) = ErrorStatus 429)
           = fst (checkRateLimit (limiter_now clock) (clientKey req) (rateBuckets state))
         \<and> rateBuckets (snd (POST P env req clock ups state))
           = snd (checkRateLimit (limiter_now clock) (clientKey req) (rateBuckets state))"
    using POST_limiter[OF assms(1) b64, of P clock ups state] .
  have ih: "map (\<lambda>r. r = ErrorStatus 429)
              (fst (POST_run P env rest (snd (POST P env req clock ups state))))
         = fst (checkRateLimit_run key (map (\<lambda>call. limiter_now (fst (snd call))) rest)
                  (rateBuckets (snd (POST P env req clock ups state))))"
    using Cons.IH Cons.prems by simp
  show ?case
    using lim ih key by (simp add: call split_beta)
qed

lemma sample_request_checks:
  "credentials_present sample_env"
  "clientKey sample_request = ''203.0.113.7''"
  "image_payload sample_request = Some ''iVBORw0KGgo=''"
  "clientKey empty_image_request = ''203.0.113.7''"
  "image_payload empty_image_request = None"
  by (simp_all add: credentials_present_def sample_env_def truthy_string_def clientKey_def
      sample_request_def empty_image_request_def split_comma_def trim_def is_space_def
      image_payload_def optget_def base64Data_def)

text \<open>
  C2. When the admitted timestamps of a key that are still inside the window number
  exactly the maximum, \<^verbatim>\<open>checkRateLimit\<close> rejects and stores only the pruned list, with
  no new timestamp; a request of that key that has passed the credential and image
  checks (which run first) is then answered 429, and the state it leaves differs from the
  old one only in that pruned bucket. Seven calls for one key whose clock readings all
  lie within one window of each other, on a bucket that starts empty, are admitted six
  times and then rejected once; and seven such requests to the handler get six answers
  other than 429 and then one 429.
\<close>

theorem rate_limit_rejects_at_max:
  "(length (live_timestamps now key buckets) = RATE_LIMIT_MAX \<longrightarrow>
      checkRateLimit now key buckets = (True, buckets(key \<mapsto> live_timestamps now key buckets))
      \<and> (credentials_present env \<and> image_payload req \<noteq> None \<and> clientKey req = key
           \<and> limiter_now clock = now \<and> rateBuckets state = buckets \<longrightarrow>
         POST P env req clock ups state
           = (ErrorStatus 429,
              state\<lparr>rateBuckets := buckets(key \<mapsto> live_timestamps now key buckets)\<rparr>)))
   \<and> (buckets0 key = None \<and> length stamps = 7
        \<and> (\<forall>t \<in> set stamps. \<forall>u \<in> set stamps. u > t - RATE_LIMIT_WINDOW_MS) \<longrightarrow>
      fst (checkRateLimit_run key stamps buckets0)
        = [False, False, False, False, False, False, True])
   \<and> (credentials_present env \<and> rateBuckets state0 key = None \<and> length calls = 7
        \<and> (\<forall>call \<in> set calls. image_payload (fst call) \<noteq> None \<and> clientKey (fst call) = key)
        \<and> (\<forall>c \<in> set calls. \<forall>d \<in> set calls.
              limiter_now (fst (snd d)) > limiter_now (fst (snd c)) - RATE_LIMIT_WINDOW_MS) \<longrightarrow>
      map (\<lambda>r. r = ErrorStatus 429) (fst (POST_run P env calls state0))
        = [False, False, False, False, False, False, True])"
proof (intro conjI impI)
  assume full: "length (live_timestamps now key buckets) = RATE_LIMIT_MAX"
  show "checkRateLimit now key buckets = (True, buckets(key \<mapsto> live_timestamps now key buckets))"
    using full checkRateLimit_full[of now key buckets] by simp
next
  assume full: "length (live_timestamps now key buckets) = RATE_LIMIT_MAX"
  assume req: "credentials_present env \<and> image_payload req \<noteq> None \<and> clientKey req = key
               \<and> limiter_now clock = now \<and> rateBuckets state = buckets"
  then obtain b64 where b64: "image_payload req = Some b64"
    by auto
  have "POST P env req clock ups state = POST_validated P key b64 clock ups state"
    using POST_valid[of env req b64 P clock ups state] req b64 by simp
  also have "\<dots> = (ErrorStatus 429,
                   state\<lparr>rateBuckets := buckets(key \<mapsto> live_timestamps now key buckets)\<rparr>)"
    using POST_validated_limited[of clock key state P b64 ups] req full by simp
  finally show "POST P env req clock ups state
           = (ErrorStatus 429,
              state\<lparr>rateBuckets := buckets(key \<mapsto> live_timestamps now key buckets)\<rparr>)" .
next
  assume run: "buckets0 key = None \<and> length stamps = 7
        \<and> (\<forall>t \<in> set stamps. \<forall>u \<in> set stamps. u > t - RATE_LIMIT_WINDOW_MS)"
  have "fst (checkRateLimit_run key stamps buckets0)
         = replicate (min (length stamps) (RATE_LIMIT_MAX - length ([] :: int list))) False
           @ replicate (length stamps - (RATE_LIMIT_MAX - length ([] :: int list))) True"
    by (rule checkRateLimit_run_one_window) (use run in auto)
  then show "fst (checkRateLimit_run key stamps buckets0)
        = [False, False, False, False, False, False, True]"
    using run by (simp add: RATE_LIMIT_MAX_def numeral_eq_Suc)
next
  assume run: "credentials_present env \<and> rateBuckets state0 key = None \<and> length calls = 7
        \<and> (\<forall>call \<in> set calls. image_payload (fst call) \<noteq> None \<and> clientKey (fst call) = key)
        \<and> (\<forall>c \<in> set calls. \<forall>d \<in> set calls.
              limiter_now (fst (snd d)) > limiter_now (fst (snd c)) - RATE_LIMIT_WINDOW_MS)"
  let ?stamps = "map (\<lambda>call. limiter_now (fst (snd call))) calls"
  have "map (\<lambda>r. r = ErrorStatus 429) (fst (POST_run P env calls state0))
         = fst (checkRateLimit_run key ?stamps (rateBuckets state0))"
    using run POST_run_limiter[of env calls key P state0] by simp
  also have "\<dots> = replicate (min (length ?stamps) (RATE_LIMIT_MAX - length ([] :: int list))) False
           @ replicate (length ?stamps - (RATE_LIMIT_MAX - length ([] :: int list))) True"
    by (rule checkRateLimit_run_one_window) (use run in auto)
  finally show "map (\<lambda>r. r = ErrorStatus 429) (fst (POST_run P env calls state0))
        = [False, False, False, False, False, False, True]"
    using run by (simp add: RATE_LIMIT_MAX_def numeral_eq_Suc)
qed

theorem rate_limit_rejects_at_max_witness:
  "checkRateLimit 7000 ''203.0.113.7'' busy_buckets
     = (True, busy_buckets(''203.0.113.7'' \<mapsto> [1000, 2000, 3000, 4000, 5000, 6000]))
   \<and> POST sample_platform sample_env sample_request sample_clock sample_upstream busy_state
     = (ErrorStatus 429,
        busy_state\<lparr>rateBuckets :=
          busy_buckets(''203.0.113.7'' \<mapsto> [1000, 2000, 3000, 4000, 5000, 6000])\<rparr>)
   \<and> fst (checkRateLimit_run ''203.0.113.7'' [0, 10000, 20000, 30000, 40000, 50000, 59999]
             Map.empty)
     = [False, False, False, False, False, False, True]
   \<and> map (\<lambda>r. r = ErrorStatus 429) (fst (POST_run sample_platform sample_env seven_calls empty_state))
     = [False, False, False, False, False, False, True]"
proof -
  have live: "live_timestamps 7000 ''203.0.113.7'' busy_buckets = [1000, 2000, 3000, 4000, 5000, 6000]"
    by (simp add: live_timestamps_def busy_buckets_def RATE_LIMIT_WINDOW_MS_def)
  show ?thesis
    using rate_limit_rejects_at_max[of 7000 "''203.0.113.7''" busy_buckets sample_env
        sample_request sample_clock busy_state sample_platform sample_upstream Map.empty
        "[0, 10000, 20000, 30000, 40000, 50000, 59999]" empty_state seven_calls]
    by (simp add: live RATE_LIMIT_MAX_def RATE_LIMIT_WINDOW_MS_def sample_request_checks
        sample_clock_def busy_state_def empty_state_def seven_calls_def)
qed

text \<open>
  C10. A request whose image is missing or malformed is answered 400 with the shared
  state as it was; and whenever the handler answers 400, the rate-limit buckets and the
  analysis cache are unchanged, because the image checks come before the rate limiter.
\<close>

theorem bad_image_leaves_state:
  "(credentials_present env \<and> json_body req = Some body \<and> \<not> nullish body
      \<and> image_payload req = None \<longrightarrow>
      POST P env req clock ups state = (ErrorStatus 400, state))
   \<and> (fst (POST P env req clock ups state) = ErrorStatus 400 \<longrightarrow>
      snd (POST P env req clock ups state) = state)"
proof (intro conjI impI)
  assume "credentials_present env \<and> json_body req = Some body \<and> \<not> nullish body
      \<and> image_payload req = None"
  then show "POST P env req clock ups state = (ErrorStatus 400, state)"
    using POST_bad_image[of env req body P clock ups state] by simp
next
  assume "fst (POST P env req clock ups state) = ErrorStatus 400"
  then show "snd (POST P env req clock ups state) = state"
    using POST_validated_not_400[of P "clientKey req" _ clock ups state]
    by (auto simp: POST_def Let_def split: option.splits sum.splits jsval.splits if_splits)
qed

theorem bad_image_leaves_state_witness:
  "POST sample_platform sample_env empty_image_request sample_clock sample_upstream busy_state
     = (ErrorStatus 400, busy_state)
   \<and> snd (POST sample_platform sample_env empty_image_request sample_clock sample_upstream
             busy_state)
     = busy_state"
proof -
  have body: "json_body empty_image_request = Some (JObj [(''image'', JStr ''data:image/png;base64,'')])"
    by (simp add: empty_image_request_def)
  show ?thesis
    using bad_image_leaves_state[of sample_env empty_image_request
        "JObj [(''image'', JStr ''data:image/png;base64,'')]" sample_platform sample_clock
        sample_upstream busy_state]
    by (simp add: sample_request_checks body nullish_def)
qed

section \<open>Normalization\<close>

lemma mapE_total:
  assumes "\<And>x. x \<in> set xs \<Longrightarrow> \<exists>y. f x = Inr y"
  shows "\<exists>ys. mapE f xs = Inr ys"
  using assms
proof (induction xs)
  case Nil
  then show ?case by simp
next
  case (Cons x xs)
  then obtain y where y: "f x = Inr y" by (meson list.set_intros(1))
  from Cons obtain ys where ys: "mapE f xs = Inr ys" by (meson list.set_intros(2))
  show ?case by (simp add: y ys)
qed

lemma normalizeMajorCode_total:
  "optional_string_value v \<Longrightarrow> \<exists>c. normalizeMajorCode v = Inr c"
  by (auto simp: optional_string_value_def normalizeMajorCode_def nullish_def coalesce_def
      call_toUpperCase_def is_string_def Let_def split: jsval.splits)

lemma normalizeMajorCode_code_key: "normalizeMajorCode (JStr (code_key c)) = Inr c"
  by (cases c) (simp_all add: normalizeMajorCode_def coalesce_def nullish_def call_toUpperCase_def
      toUpperCase_def upper_letters_def lower_letters_def trim_def is_space_def isMajorCode_def
      major_of_key_def MAJOR_CODES_def)

lemma resolveMajorName_total:
  "optional_string_value code \<Longrightarrow> optional_string_value name \<Longrightarrow> \<exists>n. resolveMajorName code name = Inr n"
  using normalizeMajorCode_total[of code]
  by (auto simp: resolveMajorName_def optional_string_value_def nullish_def call_trim_def
      is_string_def split: jsval.splits)

lemma truthy_optional_string:
  "optional_string_value v \<Longrightarrow> truthy v \<Longrightarrow> \<exists>s. v = JStr s"
  by (auto simp: optional_string_value_def nullish_def is_string_def split: jsval.splits)

lemma normalizePoints_total:
  assumes "point_list_conforms v"
  shows "\<exists>ps. normalizePoints v = Inr ps"
proof (cases "nullish v")
  case True
  then show ?thesis by (simp add: normalizePoints_def array_or_empty_def)
next
  case False
  with assms obtain xs where v: "v = JArr xs"
    and ok: "list_all (\<lambda>item. optional_string_value (optget item ''title'')
                          \<and> optional_string_value (optget item ''description'')) xs"
    by (auto simp: point_list_conforms_def split: jsval.splits)
  let ?keep = "filter (\<lambda>item. truthy (optget item ''title'') \<and> truthy (optget item ''description'')) xs"
  let ?f = "\<lambda>item.
                  bindE (call_trim (optget item ''title''))
                    (\<lambda>t. bindE (call_trim (optget item ''description''))
                      (\<lambda>d. Inr \<lparr>point_title = t,
                                  point_description = d,
                                  point_indicator =
                                    coalesce (optget item ''indicator'') (JStr ''opportunity'')\<rparr>))"
  have "\<exists>ys. mapE ?f ?keep = Inr ys"
  proof (rule mapE_total)
    fix item assume "item \<in> set ?keep"
    then have "item \<in> set xs" and t: "truthy (optget item ''title'')" and d: "truthy (optget item ''description'')"
      by auto
    with ok have "optional_string_value (optget item ''title'')" "optional_string_value (optget item ''description'')"
      by (auto simp: list_all_iff)
    with t d obtain s1 s2 where "optget item ''title'' = JStr s1" "optget item ''description'' = JStr s2"
      using truthy_optional_string by blast
    then show "\<exists>y. ?f item = Inr y"
      by (simp add: call_trim_def)
  qed
  then show ?thesis
    using False by (simp add: normalizePoints_def array_or_empty_def v)
qed

lemma sanitizeStringArray_total:
  assumes "string_list_conforms v"
  shows "\<exists>ss. sanitizeStringArray v = Inr ss"
proof (cases "nullish v")
  case True
  then show ?thesis by (simp add: sanitizeStringArray_def array_or_empty_def)
next
  case False
  with assms obtain xs where v: "v = JArr xs" and ok: "list_all optional_string_value xs"
    by (auto simp: string_list_conforms_def split: jsval.splits)
  have "\<exists>ys. mapE (\<lambda>entry. if nullish entry then Inr [] else call_trim entry) xs = Inr ys"
  proof (rule mapE_total)
    fix entry assume "entry \<in> set xs"
    with ok have "optional_string_value entry" by (auto simp: list_all_iff)
    then show "\<exists>y. (if nullish entry then Inr [] else call_trim entry) = Inr y"
      by (auto simp: optional_string_value_def is_string_def call_trim_def split: jsval.splits)
  qed
  then show ?thesis
    using False by (auto simp: sanitizeStringArray_def array_or_empty_def v)
qed

lemma alternatifDariAi_total:
  assumes "alternatif_conforms v"
  shows "\<exists>alts. alternatifDariAi v = Inr alts"
proof (cases "nullish v")
  case True
  then show ?thesis by (simp add: alternatifDariAi_def array_or_empty_def List.map_filter_simps)
next
  case False
  with assms obtain xs where v: "v = JArr xs"
    and ok: "list_all (\<lambda>item. optional_string_value (optget item ''kode'')
                          \<and> optional_string_value (optget item ''nama'')
                          \<and> optional_string_value (optget item ''catatan'')) xs"
    by (auto simp: alternatif_conforms_def split: jsval.splits)
  let ?f = "\<lambda>item.
                     let c = optget item ''catatan'' in
                     if nullish c then Inr None
                     else
                       bindE (call_trim c)
                         (\<lambda>catatan.
                            if catatan = [] then Inr None
                            else
                              bindE (normalizeMajorCode (optget item ''kode''))
                                (\<lambda>code.
                                   bindE (resolveMajorName (optget item ''kode'') (optget item ''nama''))
                                     (\<lambda>nama. Inr (Some \<lparr>alt_kode = code,
                                                          alt_nama = nama,
                                                          alt_catatan = catatan\<rparr>))))"
  have "\<exists>ys. mapE ?f xs = Inr ys"
  proof (rule mapE_total)
    fix item assume "item \<in> set xs"
    with ok have k: "optional_string_value (optget item ''kode'')"
      and n: "optional_string_value (optget item ''nama'')"
      and c: "optional_string_value (optget item ''catatan'')"
      by (auto simp: list_all_iff)
    obtain code where code: "normalizeMajorCode (optget item ''kode'') = Inr code"
      using normalizeMajorCode_total[OF k] by blast
    obtain nama where nama: "resolveMajorName (optget item ''kode'') (optget item ''nama'') = Inr nama"
      using resolveMajorName_total[OF k n] by blast
    show "\<exists>y. ?f item = Inr y"
      using c by (auto simp: Let_def optional_string_value_def is_string_def call_trim_def code nama
          split: jsval.splits)
  qed
  then show ?thesis
    using False by (auto simp: alternatifDariAi_def array_or_empty_def v)
qed

lemma bindE_Inr_iff: "bindE m f = Inr y \<longleftrightarrow> (\<exists>x. m = Inr x \<and> f x = Inr y)"
  by (cases m) simp_all

lemma point_list_conforms_points: "point_list_conforms (JArr (map point_value ps))"
  by (simp add: point_list_conforms_def list_all_iff point_value_def optget_def
      optional_string_value_def is_string_def)

lemma string_list_conforms_strings: "string_list_conforms (JArr (map JStr ss))"
  by (simp add: string_list_conforms_def list_all_iff optional_string_value_def is_string_def)

lemma basePayload_total:
  assumes "conforms_AiStructuredResult v"
  shows "\<exists>p. basePayload e a src v = Inr p"
proof -
  let ?man = "optget v ''manifesting''"
  let ?rek = "optget v ''rekomendasiJurusan''"
  let ?utama = "coalesce (optget ?rek ''utama'') (JObj [])"
  from assms have nn: "\<not> nullish v"
    and c1: "point_list_conforms (optget ?man ''pekerjaanKarir'')"
    and c2: "point_list_conforms (optget ?man ''masaDepan'')"
    and c3: "optional_string_value (optget ?utama ''kode'')"
    and c4: "optional_string_value (optget ?utama ''nama'')"
    and c5: "point_list_conforms (optget ?utama ''alasan'')"
    and c6: "optional_string_value (optget ?utama ''langkahFokus'')"
    and c7: "string_list_conforms (optget ?utama ''kebiasaanPendukung'')"
    and c8: "alternatif_conforms (optget ?rek ''alternatif'')"
    by (simp_all add: conforms_AiStructuredResult_def Let_def)
  obtain karir where karir: "normalizePoints (optget ?man ''pekerjaanKarir'') = Inr karir"
    using normalizePoints_total[OF c1] by blast
  obtain masa where masa: "normalizePoints (optget ?man ''masaDepan'') = Inr masa"
    using normalizePoints_total[OF c2] by blast
  obtain code where code: "normalizeMajorCode (optget ?utama ''kode'') = Inr code"
    using normalizeMajorCode_total[OF c3] by blast
  obtain nama where nama: "resolveMajorName (optget ?utama ''kode'') (optget ?utama ''nama'') = Inr nama"
    using resolveMajorName_total[OF c3 c4] by blast
  obtain alasan0 where alasan0: "normalizePoints (optget ?utama ''alasan'') = Inr alasan0"
    using normalizePoints_total[OF c5] by blast
  obtain dflt where dflt: "normalizePoints (JArr (map point_value (DEFAULT_MAJOR_POINTS code))) = Inr dflt"
    using normalizePoints_total[OF point_list_conforms_points] by blast
  obtain langkah where langkah:
    "(let l = optget ?utama ''langkahFokus''
      in if nullish l then Inr (focus_langkah (DEFAULT_MAJOR_FOCUS code)) else call_trim l) = Inr langkah"
    using c6 by (auto simp: Let_def optional_string_value_def is_string_def call_trim_def
        nullish_def split: jsval.splits)
  obtain keb where keb: "sanitizeStringArray (optget ?utama ''kebiasaanPendukung'') = Inr keb"
    using sanitizeStringArray_total[OF c7] by blast
  obtain alts where alts: "alternatifDariAi (optget ?rek ''alternatif'') = Inr alts"
    using alternatifDariAi_total[OF c8] by blast
  show ?thesis
    unfolding basePayload_def
    using nn langkah
    by (simp add: getp_def karir masa code nama alasan0 dflt keb alts Let_def)
qed

lemma basePayload_result:
  assumes "basePayload e a src v = Inr p"
  shows "meta_source p = src \<and> meta_cached p = None
         \<and> (\<exists>fromAi. rekomendasi_alternatif p = build_alternatif (utama_kode p) fromAi)"
  using assms
  unfolding basePayload_def
  by (auto simp: bindE_Inr_iff Let_def)

lemma alternatif_from_ai_invariant:
  "seen_invariant u acc \<Longrightarrow> seen_invariant u (alternatif_from_ai alts acc)"
proof (induction alts arbitrary: acc)
  case Nil
  then show ?case by simp
next
  case (Cons alt rest)
  obtain out seen where acc: "acc = (out, seen)" by (cases acc)
  show ?case
  proof (cases "alt_kode alt \<in> seen")
    case True
    then show ?thesis using Cons acc by simp
  next
    case False
    have "seen_invariant u (out @ [alt], insert (alt_kode alt) seen)"
      using Cons.prems False acc by (auto simp: seen_invariant_def)
    then show ?thesis using Cons.IH False acc by simp
  qed
qed

lemma alternatif_defaults_invariant:
  "seen_invariant u acc \<Longrightarrow>
   seen_invariant u (alternatif_defaults codes acc)
   \<and> set codes \<union> snd acc \<subseteq> snd (alternatif_defaults codes acc)"
proof (induction codes arbitrary: acc)
  case Nil
  then show ?case by simp
next
  case (Cons code rest)
  obtain out seen where acc: "acc = (out, seen)" by (cases acc)
  show ?case
  proof (cases "code \<in> seen")
    case True
    have "seen_invariant u (out, seen)"
      using Cons.prems acc by simp
    from Cons.IH[OF this] show ?thesis
      using True acc by auto
  next
    case False
    let ?acc' = "(out @ [\<lparr>alt_kode = code, alt_nama = MAJOR_LABELS code,
                          alt_catatan = DEFAULT_MAJOR_NOTES code\<rparr>], insert code seen)"
    have "seen_invariant u ?acc'"
      using Cons.prems False acc by (auto simp: seen_invariant_def)
    from Cons.IH[OF this] show ?thesis
      using False acc by auto
  qed
qed

lemma MAJOR_CODES_all: "set MAJOR_CODES = UNIV"
proof -
  have "c \<in> set MAJOR_CODES" for c by (cases c) (simp_all add: MAJOR_CODES_def)
  then show ?thesis by auto
qed

lemma build_alternatif_codes:
  "distinct (u # map alt_kode (build_alternatif u fromAi))
   \<and> set (u # map alt_kode (build_alternatif u fromAi)) = set MAJOR_CODES"
proof -
  let ?a1 = "alternatif_from_ai fromAi ([], {u})"
  let ?a2 = "alternatif_defaults MAJOR_CODES ?a1"
  have "seen_invariant u ([], {u})" by (simp add: seen_invariant_def)
  then have "seen_invariant u ?a1" by (rule alternatif_from_ai_invariant)
  then have inv: "seen_invariant u ?a2" and sub: "set MAJOR_CODES \<subseteq> snd ?a2"
    using alternatif_defaults_invariant[of u ?a1 MAJOR_CODES] by auto
  from sub have "snd ?a2 = UNIV" using MAJOR_CODES_all by auto
  with inv show ?thesis
    by (simp add: seen_invariant_def build_alternatif_def MAJOR_CODES_all)
qed

lemma build_alternatif_length: "length (build_alternatif u fromAi) = length MAJOR_CODES - 1"
proof -
  have d: "distinct (u # map alt_kode (build_alternatif u fromAi))"
    and s: "set (u # map alt_kode (build_alternatif u fromAi)) = set MAJOR_CODES"
    using build_alternatif_codes by auto
  have "card (set MAJOR_CODES) = 3"
    by (simp add: MAJOR_CODES_def)
  then have "length (u # map alt_kode (build_alternatif u fromAi)) = 3"
    using d s distinct_card[of "u # map alt_kode (build_alternatif u fromAi)"] by simp
  then show ?thesis by (simp add: MAJOR_CODES_def)
qed

lemma template_notes_total: "\<exists>ns. template_notes entries acc = Inr ns"
proof (induction entries arbitrary: acc)
  case Nil
  then show ?case by simp
next
  case (Cons entry rest)
  obtain code remark where entry: "entry = (code, remark)" by (cases entry)
  obtain n where "normalizeMajorCode (JStr code) = Inr n"
    using normalizeMajorCode_total[of "JStr code"]
    by (auto simp: optional_string_value_def is_string_def)
  then show ?case using Cons.IH entry by simp
qed

lemma alternatif_conforms_notes:
  "alternatif_conforms
     (JArr (map (\<lambda>(code, note).
                   JObj [(''kode'', JStr (code_key code)),
                         (''nama'', JStr (MAJOR_LABELS code)),
                         (''catatan'', JStr note)]) ns))"
  by (auto simp: alternatif_conforms_def list_all_iff optget_def optional_string_value_def
      is_string_def)

lemma buildFallbackAnalysis_total:
  "\<exists>v. buildFallbackAnalysis e = Inr v
       \<and> conforms_AiStructuredResult v
       \<and> optget (optget (optget v ''rekomendasiJurusan'') ''utama'') ''kode''
           = JStr (code_key (case major (select_template (toLowerCase (label e))) of
                               Some c \<Rightarrow> c
                             | None \<Rightarrow> RPL))"
proof -
  let ?t = "select_template (toLowerCase (label e))"
  obtain notes0 where notes0:
    "(case alternatifNotes ?t of Some entries \<Rightarrow> template_notes entries [] | None \<Rightarrow> Inr [])
       = Inr notes0"
    using template_notes_total by (cases "alternatifNotes ?t") auto
  have opt: "point_list_conforms (optional_points ps)" for ps
    using point_list_conforms_points
    by (cases ps) (simp_all add: optional_points_def point_list_conforms_def nullish_def)
  show ?thesis
    unfolding buildFallbackAnalysis_def Let_def
    apply (simp only: notes0 bindE.simps)
    apply (intro exI conjI)
      apply (rule refl)
     apply (simp add: conforms_AiStructuredResult_def optget_def coalesce_def nullish_def
        Let_def opt point_list_conforms_points string_list_conforms_strings
        alternatif_conforms_notes optional_string_value_def is_string_def)
    apply (simp add: optget_def)
    done
qed

lemma normalizeMajorCode_keys:
  "normalizeMajorCode (JStr ''RPL'') = Inr RPL"
  "normalizeMajorCode (JStr ''DKV'') = Inr DKV"
  "normalizeMajorCode (JStr ''TKJ'') = Inr TKJ"
  using normalizeMajorCode_code_key[of RPL] normalizeMajorCode_code_key[of DKV]
    normalizeMajorCode_code_key[of TKJ]
  by simp_all

lemma select_template_examples:
  "select_template (toLowerCase ''Happiness'') = template_happiness"
  "select_template (toLowerCase '''') = template_default"
  "select_template (toLowerCase ''unknown'') = template_default"
  "select_template (toLowerCase ''constructor'') = inherited_member_fields"
  by (simp_all add: select_template_def toLowerCase_def upper_letters_def lower_letters_def
      table_lookup_def FALLBACK_TEMPLATES_def object_prototype_keys_def)

lemma major_examples:
  "major template_happiness = Some DKV" "major template_default = Some DKV"
  "major inherited_member_fields = None"
  by (simp_all add: template_happiness_def template_default_def inherited_member_fields_def)

lemma buildFallbackAnalysis_examples:
  "\<exists>v. buildFallbackAnalysis \<lparr>narrative = n, confidence = c, label = ''Happiness''\<rparr> = Inr v
        \<and> optget (optget (optget v ''rekomendasiJurusan'') ''utama'') ''kode'' = JStr ''DKV''"
  "\<exists>v. buildFallbackAnalysis \<lparr>narrative = n, confidence = c, label = ''unknown''\<rparr> = Inr v
        \<and> optget (optget (optget v ''rekomendasiJurusan'') ''utama'') ''kode'' = JStr ''DKV''"
  "\<exists>v. buildFallbackAnalysis \<lparr>narrative = n, confidence = c, label = ''''\<rparr> = Inr v
        \<and> optget (optget (optget v ''rekomendasiJurusan'') ''utama'') ''kode'' = JStr ''DKV''"
  "\<exists>v. buildFallbackAnalysis \<lparr>narrative = n, confidence = c, label = ''constructor''\<rparr> = Inr v
        \<and> optget (optget (optget v ''rekomendasiJurusan'') ''utama'') ''kode'' = JStr ''RPL''"
  using buildFallbackAnalysis_total[of "\<lparr>narrative = n, confidence = c, label = ''Happiness''\<rparr>"]
    buildFallbackAnalysis_total[of "\<lparr>narrative = n, confidence = c, label = ''unknown''\<rparr>"]
    buildFallbackAnalysis_total[of "\<lparr>narrative = n, confidence = c, label = ''''\<rparr>"]
    buildFallbackAnalysis_total[of "\<lparr>narrative = n, confidence = c, label = ''constructor''\<rparr>"]
  by (simp_all add: select_template_examples major_examples) blast+

text \<open>
  C8. For every expression insight, whatever its label, \<^verbatim>\<open>buildFallbackAnalysis\<close>
  returns a value (it has no error path), and the code of the primary recommendation in
  that value is one of the three track codes. The template is a function of the
  lowercased label: the entry of that name, else the default entry; a label that names
  an inherited member of the table object selects that member, which has no template
  field, and the code falls back to RPL.
\<close>

theorem buildFallbackAnalysis_primary_code:
  "\<exists>v c. buildFallbackAnalysis expression = Inr v
         \<and> c \<in> set MAJOR_CODES
         \<and> optget (optget (optget v ''rekomendasiJurusan'') ''utama'') ''kode''
             = JStr (code_key c)"
  using buildFallbackAnalysis_total[of expression] MAJOR_CODES_all by blast

text \<open>
  C9. For every expression insight, the output of \<^verbatim>\<open>buildFallbackAnalysis\<close> passes the
  normalization, and the payload lists one primary track and exactly two alternatives
  (the size of the enumeration less one), every track code exactly once among them.
\<close>

theorem fallback_round_trip:
  "\<exists>v p. buildFallbackAnalysis expression = Inr v
         \<and> basePayload expression ageInsight src v = Inr p
         \<and> length (rekomendasi_alternatif p) = length MAJOR_CODES - 1
         \<and> length (rekomendasi_alternatif p) = 2
         \<and> distinct (utama_kode p # map alt_kode (rekomendasi_alternatif p))
         \<and> set (utama_kode p # map alt_kode (rekomendasi_alternatif p)) = set MAJOR_CODES"
proof -
  obtain v where v: "buildFallbackAnalysis expression = Inr v"
    and conf: "conforms_AiStructuredResult v"
    using buildFallbackAnalysis_total[of expression] by blast
  obtain p where p: "basePayload expression ageInsight src v = Inr p"
    using basePayload_total[OF conf] by blast
  obtain fromAi where alt: "rekomendasi_alternatif p = build_alternatif (utama_kode p) fromAi"
    using basePayload_result[OF p] by blast
  have "length (rekomendasi_alternatif p) = length MAJOR_CODES - 1"
    using alt build_alternatif_length by simp
  moreover have "length MAJOR_CODES - 1 = 2"
    by (simp add: MAJOR_CODES_def)
  moreover have "distinct (utama_kode p # map alt_kode (rekomendasi_alternatif p))
     \<and> set (utama_kode p # map alt_kode (rekomendasi_alternatif p)) = set MAJOR_CODES"
    using alt build_alternatif_codes[of "utama_kode p" fromAi] by simp
  ultimately show ?thesis
    using v p by auto
qed

lemma generateFaceReading_null:
  "generateFaceReading sample_platform null_answer sample_expression sample_age = Inr JNull"
  by (simp add: generateFaceReading_def null_answer_def sample_expression_def table_lookup_def
      EXPRESSION_MAJOR_AFFINITY_def toLowerCase_def upper_letters_def lower_letters_def
      response_json_def message_content_def optget_def optindex0_def nullish_def call_trim_def
      trim_def is_space_def sample_platform_def)

text \<open>
  C1, as stated, fails. The generator can answer the JSON text \<^verbatim>\<open>null\<close>, which
  \<^verbatim>\<open>generateFaceReading\<close> returns as its result, and the first read of the
  normalization, \<^verbatim>\<open>aiResult.manifesting\<close>, throws on it. A list field that holds a
  string and a title that holds a number make it throw as well.
\<close>

theorem normalization_throws:
  "generateFaceReading sample_platform null_answer sample_expression sample_age = Inr JNull
   \<and> basePayload sample_expression sample_age ai JNull = Inl TypeError
   \<and> basePayload sample_expression sample_age ai result_with_text_list = Inl TypeError
   \<and> basePayload sample_expression sample_age ai result_with_number_title = Inl TypeError"
proof -
  have "basePayload sample_expression sample_age ai JNull = Inl TypeError"
    by (simp add: basePayload_def getp_def nullish_def)
  moreover have "basePayload sample_expression sample_age ai result_with_text_list = Inl TypeError"
    by (simp add: basePayload_def getp_def nullish_def result_with_text_list_def optget_def
        normalizePoints_def array_or_empty_def)
  moreover have "basePayload sample_expression sample_age ai result_with_number_title
                 = Inl TypeError"
    by (simp add: basePayload_def getp_def nullish_def result_with_number_title_def optget_def
        normalizePoints_def array_or_empty_def call_trim_def)
  ultimately show ?thesis
    using generateFaceReading_null by simp
qed

text \<open>
  C1, amended. The normalization is total on every structured result that conforms to
  \<^verbatim>\<open>AiStructuredResult\<close>: not null or undefined, and each field the normalization reads
  absent, null or of its declared type. Numbers, strings, booleans and the empty object
  conform, so primitives and objects with missing fields never make it throw.
\<close>

theorem normalization_total_on_conforming:
  "(conforms_AiStructuredResult v \<longrightarrow> (\<exists>p. basePayload expression ageInsight src v = Inr p))
   \<and> conforms_AiStructuredResult (JObj [])
   \<and> conforms_AiStructuredResult (JNum n)
   \<and> conforms_AiStructuredResult (JStr s)
   \<and> conforms_AiStructuredResult (JBool b)"
proof -
  have prim: "conforms_AiStructuredResult (JObj [])" "conforms_AiStructuredResult (JNum n)"
    "conforms_AiStructuredResult (JStr s)" "conforms_AiStructuredResult (JBool b)"
    by (simp_all add: conforms_AiStructuredResult_def nullish_def optget_def coalesce_def
        point_list_conforms_def string_list_conforms_def alternatif_conforms_def
        optional_string_value_def object_prototype_keys_def)
  show ?thesis
    using basePayload_total[of v expression ageInsight src] prim by blast
qed

theorem normalization_total_on_conforming_witness:
  "conforms_AiStructuredResult partial_result
   \<and> (\<exists>p. basePayload sample_expression sample_age ai partial_result = Inr p)"
proof -
  have "conforms_AiStructuredResult partial_result"
    by (simp add: conforms_AiStructuredResult_def partial_result_def nullish_def optget_def
        coalesce_def point_list_conforms_def string_list_conforms_def alternatif_conforms_def
        optional_string_value_def is_string_def object_prototype_keys_def)
  then show ?thesis
    using normalization_total_on_conforming[of partial_result sample_expression sample_age ai]
    by simp
qed

section \<open>The pipeline\<close>

lemma POST_validated_hit:
  assumes "fst (checkRateLimit (limiter_now clock) key (rateBuckets state)) = False"
      and "analysisCache state (sha256_hex P b64) = Some entry"
      and "cache_now clock - entry_timestamp entry < CACHE_TTL_MS"
  shows "POST_validated P key b64 clock ups state
         = (Json200 \<lparr>body_payload = (entry_data entry)\<lparr>meta_cached := Some True\<rparr>,
                     generatedAt = generated_now clock\<rparr>,
            state\<lparr>rateBuckets := snd (checkRateLimit (limiter_now clock) key (rateBuckets state))\<rparr>)"
  using assms by (simp add: POST_validated_def split_beta)

lemma POST_validated_miss:
  assumes "fst (checkRateLimit (limiter_now clock) key (rateBuckets state)) = False"
      and "(case analysisCache state (sha256_hex P b64) of
              Some entry \<Rightarrow> \<not> cache_now clock - entry_timestamp entry < CACHE_TTL_MS
            | None \<Rightarrow> True)"
      and "full_pipeline P ups = Inr payload"
  shows "POST_validated P key b64 clock ups state
         = (Json200 \<lparr>body_payload = payload, generatedAt = generated_now clock\<rparr>,
            state\<lparr>rateBuckets := snd (checkRateLimit (limiter_now clock) key (rateBuckets state)),
                  analysisCache := (analysisCache state)
                     (sha256_hex P b64 \<mapsto> \<lparr>entry_timestamp = cache_now clock, entry_data = payload\<rparr>)\<rparr>)"
  using assms by (simp add: POST_validated_def split_beta split: option.splits)

lemma POST_validated_error:
  assumes "fst (checkRateLimit (limiter_now clock) key (rateBuckets state)) = False"
      and "(case analysisCache state (sha256_hex P b64) of
              Some entry \<Rightarrow> \<not> cache_now clock - entry_timestamp entry < CACHE_TTL_MS
            | None \<Rightarrow> True)"
      and "full_pipeline P ups = Inl err"
  shows "POST_validated P key b64 clock ups state
         = (ErrorStatus 500,
            state\<lparr>rateBuckets := snd (checkRateLimit (limiter_now clock) key (rateBuckets state))\<rparr>)"
  using assms by (auto simp: POST_validated_def split_beta split: option.splits)

lemma full_pipeline_fallback:
  assumes "detectExpression P (expression_call ups) = Inr expression"
      and "detectAge P (age_call ups) (Some expression) = Inr ageInsight"
      and "generateFaceReading P (generator_call ups) expression ageInsight = Inl err"
  shows "\<exists>payload. full_pipeline P ups = Inr payload \<and> meta_source payload = fallback
                   \<and> meta_cached payload = None"
proof -
  obtain v where v: "buildFallbackAnalysis expression = Inr v"
    and conf: "conforms_AiStructuredResult v"
    using buildFallbackAnalysis_total[of expression] by blast
  obtain p where p: "basePayload expression ageInsight fallback v = Inr p"
    using basePayload_total[OF conf] by blast
  have "full_pipeline P ups = Inr p"
    using assms v p by (simp add: full_pipeline_def)
  then show ?thesis
    using basePayload_result[OF p] by simp
qed

lemma full_pipeline_result:
  assumes "full_pipeline P ups = Inr payload"
  shows "meta_cached payload = None"
proof -
  from assms obtain e a where
    rest: "(case generateFaceReading P (generator_call ups) e a of
              Inr aiResult \<Rightarrow> basePayload e a ai aiResult
            | Inl err \<Rightarrow> bindE (buildFallbackAnalysis e) (basePayload e a fallback)) = Inr payload"
    by (auto simp: full_pipeline_def bindE_Inr_iff)
  show ?thesis
  proof (cases "generateFaceReading P (generator_call ups) e a")
    case (Inl err)
    with rest obtain v where "basePayload e a fallback v = Inr payload"
      by (auto simp: bindE_Inr_iff)
    then show ?thesis using basePayload_result by blast
  next
    case (Inr v)
    with rest have "basePayload e a ai v = Inr payload" by simp
    then show ?thesis using basePayload_result by blast
  qed
qed

lemma generateFaceReading_not_ok:
  "\<exists>err. generateFaceReading P (Responds False body) expression ageInsight = Inl err"
  by (simp add: generateFaceReading_def split: member.splits)

lemma generateFaceReading_rejects:
  "\<exists>err. generateFaceReading P Rejects expression ageInsight = Inl err"
  by (simp add: generateFaceReading_def split: member.splits)

lemma generateFaceReading_no_content:
  assumes "nullish (message_content payload) \<or> message_content payload = JStr s \<and> trim s = []"
  shows "\<exists>err. generateFaceReading P (Responds True (BodyJson payload)) expression ageInsight = Inl err"
  using assms
  by (auto simp: generateFaceReading_def response_json_def call_trim_def nullish_def Let_def
      split: member.splits)

lemma generateFaceReading_unparseable:
  assumes "message_content payload = JStr s"
      and "JSON_parse P (trim (strip_fences (trim s))) = None"
  shows "\<exists>err. generateFaceReading P (Responds True (BodyJson payload)) expression ageInsight = Inl err"
  using assms
  by (auto simp: generateFaceReading_def response_json_def call_trim_def nullish_def Let_def
      split: member.splits)

lemma generateFaceReading_not_json:
  "\<exists>err. generateFaceReading P (Responds True BodyNotJson) expression ageInsight = Inl err"
  by (simp add: generateFaceReading_def response_json_def split: member.splits)

lemma POST_generator_failure:
  assumes "credentials_present env" and "image_payload req = Some b64"
      and "fst (checkRateLimit (limiter_now clock) (clientKey req) (rateBuckets state)) = False"
      and "(case analysisCache state (sha256_hex P b64) of
              Some entry \<Rightarrow> \<not> cache_now clock - entry_timestamp entry < CACHE_TTL_MS
            | None \<Rightarrow> True)"
      and "detectExpression P (expression_call ups) = Inr expression"
      and "detectAge P (age_call ups) (Some expression) = Inr ageInsight"
      and "generateFaceReading P (generator_call ups) expression ageInsight = Inl err"
  shows "\<exists>payload.
           POST P env req clock ups state
             = (Json200 \<lparr>body_payload = payload, generatedAt = generated_now clock\<rparr>,
                state\<lparr>rateBuckets :=
                        snd (checkRateLimit (limiter_now clock) (clientKey req) (rateBuckets state)),
                      analysisCache := (analysisCache state)
                        (sha256_hex P b64 \<mapsto>
                           \<lparr>entry_timestamp = cache_now clock, entry_data = payload\<rparr>)\<rparr>)
           \<and> meta_source payload = fallback \<and> meta_cached payload = None"
proof -
  obtain payload where run: "full_pipeline P ups = Inr payload"
    and meta: "meta_source payload = fallback" "meta_cached payload = None"
    using full_pipeline_fallback[OF assms(5,6,7)] by blast
  have "POST P env req clock ups state = POST_validated P (clientKey req) b64 clock ups state"
    using POST_valid[OF assms(1,2)] .
  then show ?thesis
    using POST_validated_miss[OF assms(3,4) run] meta by simp
qed

lemma POST_validated_fresh:
  assumes "POST_validated P key b64 clock ups state = (Json200 body, state')"
      and "meta_cached (body_payload body) = None"
  shows "analysisCache state' (sha256_hex P b64)
         = Some \<lparr>entry_timestamp = cache_now clock, entry_data = body_payload body\<rparr>"
  using assms
  by (auto simp: POST_validated_def split_beta Let_def split: if_splits option.splits sum.splits)

lemma sample_detectExpression:
  "detectExpression sample_platform sample_expression_answer = Inr sample_expression"
  by (simp add: detectExpression_def sample_expression_answer_def response_json_def js_sort_def
      expression_compare_def getp_def nullish_def optget_def js_Number_def num_sub_def num_lt0_def
      first_or_undefined_def call_toLowerCase_def toLowerCase_def upper_letters_def
      lower_letters_def table_lookup_def EXPRESSION_LABELS_def coalesce_def clamp01_def
      Math_min_def Math_max_def js_String_def sample_expression_def)

lemma sample_detectAge:
  "\<exists>ageInsight. detectAge sample_platform sample_age_answer (Some sample_expression) = Inr ageInsight"
  by (simp add: detectAge_def detectAge_try_def sample_age_answer_def response_json_def
      extractCandidate_def optget_def candidate_of_object_def is_number_def is_string_def
      js_String_def js_Number_def coalesce_def nullish_def parseAgeLabelRange_open
      computeEstimatedAge_def object_prototype_keys_def Let_def)

lemma sample_generator_fails:
  "\<exists>err. generateFaceReading sample_platform (Responds False BodyNotJson) sample_expression a = Inl err"
  by (rule generateFaceReading_not_ok)

lemma sample_admitted:
  "fst (checkRateLimit 7000 ''203.0.113.7'' Map.empty) = False"
  "snd (checkRateLimit 7000 ''203.0.113.7'' Map.empty) = Map.empty(''203.0.113.7'' \<mapsto> [7000])"
  "fst (checkRateLimit 9000 ''203.0.113.7'' (Map.empty(''203.0.113.7'' \<mapsto> [7000]))) = False"
  by (simp_all add: checkRateLimit_def RATE_LIMIT_MAX_def RATE_LIMIT_WINDOW_MS_def)

lemma POST_keeps_live_entry:
  assumes "analysisCache state h = Some entry"
      and "cache_now clock - entry_timestamp entry < CACHE_TTL_MS"
  shows "analysisCache (snd (POST P env req clock ups state)) h = Some entry"
proof -
  have "analysisCache (snd (POST_validated P key b64 clock ups state)) h = Some entry" for key b64
    using assms
    by (auto simp: POST_validated_def split_beta Let_def split: option.splits sum.splits)
  then show ?thesis
    using assms(1)
    by (auto simp: POST_def Let_def split: option.splits sum.splits jsval.splits)
qed

lemma buildFallbackAnalysis_value:
  assumes "t = select_template (toLowerCase (label e))"
      and "m = (case major t of Some c \<Rightarrow> c | None \<Rightarrow> RPL)"
  shows "\<exists>notes0.
          (case alternatifNotes t of Some entries \<Rightarrow> template_notes entries [] | None \<Rightarrow> Inr [])
            = Inr notes0
          \<and> buildFallbackAnalysis e
            = Inr (JObj
             [(''expressionSummary'', JObj
                 [(''headline'', narrative e),
                  (''energyTone'', optional_string (energyTone t)),
                  (''personalityHighlight'', optional_string (personality t)),
                  (''confidenceModifier'',
                     JNum (case confidenceModifier t of
                             Some c \<Rightarrow> c
                           | None \<Rightarrow> Finite (- 0.1)))]),
              (''manifesting'', JObj
                 [(''pekerjaanKarir'', optional_points (karir t)),
                  (''masaDepan'', optional_points (masaDepan t))]),
              (''rekomendasiJurusan'', JObj
                 [(''utama'', JObj
                     [(''kode'', JStr (code_key m)),
                      (''nama'', JStr (MAJOR_LABELS m)),
                      (''alasan'', JArr (map point_value
                         (case alasan t of
                            Some ps \<Rightarrow> if length ps > 0 then ps else DEFAULT_MAJOR_POINTS m
                          | None \<Rightarrow> DEFAULT_MAJOR_POINTS m))),
                      (''langkahFokus'', JStr
                         (case langkah t of
                            Some s \<Rightarrow> trim s
                          | None \<Rightarrow> focus_langkah (DEFAULT_MAJOR_FOCUS m))),
                      (''kebiasaanPendukung'', JArr (map JStr
                         (case kebiasaan t of
                            Some ks \<Rightarrow>
                              if length ks > 0 then filter (\<lambda>e. e \<noteq> []) (map trim ks)
                              else focus_kebiasaan (DEFAULT_MAJOR_FOCUS m)
                          | None \<Rightarrow> focus_kebiasaan (DEFAULT_MAJOR_FOCUS m))))]),
                  (''alternatif'', JArr
                     (map (\<lambda>(code, note).
                        JObj [(''kode'', JStr (code_key code)),
                              (''nama'', JStr (MAJOR_LABELS code)),
                              (''catatan'', JStr note)])
                       (default_notes m MAJOR_CODES notes0)))])])"
proof -
  obtain notes0 where notes0:
    "(case alternatifNotes t of Some entries \<Rightarrow> template_notes entries [] | None \<Rightarrow> Inr [])
       = Inr notes0"
    using template_notes_total by (cases "alternatifNotes t") auto
  show ?thesis
    apply (rule exI[of _ notes0])
    apply (rule conjI[OF notes0])
    unfolding buildFallbackAnalysis_def Let_def assms(2)[symmetric] assms(1)[symmetric]
    apply (simp only: notes0 bindE.simps)
    done
qed

lemma basePayload_fields:
  assumes "basePayload e a src v = Inr p"
  shows "payload_age p = a \<and> expr_baseLabel p = label e \<and> expr_baseConfidence p = confidence e
       \<and> expr_headline p = coalesce (optget (optget v ''expressionSummary'') ''headline'') (narrative e)
       \<and> expr_energyTone p
           = coalesce (optget (optget v ''expressionSummary'') ''energyTone'')
               (JStr ''Energi netral, tetap jaga kestabilan emosi.'')
       \<and> expr_personalityHighlight p
           = coalesce (optget (optget v ''expressionSummary'') ''personalityHighlight'')
               (JStr ''Karakter terlihat seimbang dan responsif.'')
       \<and> expr_confidence p
           = (case coalesce (optget (optget v ''expressionSummary'') ''confidenceModifier'')
                     (JNum (Finite 0)) of
                JNum (Finite c) \<Rightarrow> clamp01 (num_add (confidence e) (Finite c))
              | _ \<Rightarrow> confidence e)
       \<and> normalizePoints (optget (optget v ''manifesting'') ''pekerjaanKarir'')
           = Inr (manifesting_pekerjaanKarir p)
       \<and> normalizePoints (optget (optget v ''manifesting'') ''masaDepan'')
           = Inr (manifesting_masaDepan p)
       \<and> normalizeMajorCode
            (optget (coalesce (optget (optget v ''rekomendasiJurusan'') ''utama'') (JObj [])) ''kode'')
           = Inr (utama_kode p)
       \<and> resolveMajorName
            (optget (coalesce (optget (optget v ''rekomendasiJurusan'') ''utama'') (JObj [])) ''kode'')
            (optget (coalesce (optget (optget v ''rekomendasiJurusan'') ''utama'') (JObj [])) ''nama'')
           = Inr (utama_nama p)
       \<and> (\<exists>fromAi. alternatifDariAi (optget (optget v ''rekomendasiJurusan'') ''alternatif'')
                     = Inr fromAi
                   \<and> rekomendasi_alternatif p = build_alternatif (utama_kode p) fromAi)"
proof -
  have nn: "\<not> nullish v"
    using assms unfolding basePayload_def by (cases "nullish v") (simp_all add: getp_def)
  have g: "getp v k = Inr (optget v k)" for k
    using nn by (simp add: getp_def)
  show ?thesis
    using assms
    unfolding basePayload_def g bindE.simps
    apply (simp only: bindE_Inr_iff Let_def)
    apply (elim exE conjE)
    apply (simp only: sum.inject)
    apply clarsimp
    done
qed

lemma resolveMajorName_label:
  "resolveMajorName (JStr (code_key m)) (JStr (MAJOR_LABELS m)) = Inr (MAJOR_LABELS m)"
  by (cases m)
     (simp_all add: resolveMajorName_def normalizeMajorCode_code_key[of RPL, simplified]
        normalizeMajorCode_code_key[of DKV, simplified]
        normalizeMajorCode_code_key[of TKJ, simplified] call_trim_def trim_def is_space_def)

lemma fallback_payload_fields:
  assumes t: "t = select_template (toLowerCase (label e))"
      and m: "m = (case major t of Some c \<Rightarrow> c | None \<Rightarrow> RPL)"
      and v: "buildFallbackAnalysis e = Inr v"
      and p: "basePayload e a fallback v = Inr p"
  shows "utama_kode p = m \<and> utama_nama p = MAJOR_LABELS m
       \<and> expr_headline p = narrative e
       \<and> expr_energyTone p
           = (case energyTone t of
                Some s \<Rightarrow> JStr s
              | None \<Rightarrow> JStr ''Energi netral, tetap jaga kestabilan emosi.'')
       \<and> expr_personalityHighlight p
           = (case personality t of
                Some s \<Rightarrow> JStr s
              | None \<Rightarrow> JStr ''Karakter terlihat seimbang dan responsif.'')
       \<and> expr_confidence p
           = (case (case confidenceModifier t of Some c \<Rightarrow> c | None \<Rightarrow> Finite (- 0.1)) of
                Finite c \<Rightarrow> clamp01 (num_add (confidence e) (Finite c))
              | _ \<Rightarrow> confidence e)
       \<and> expr_baseLabel p = label e \<and> expr_baseConfidence p = confidence e
       \<and> payload_age p = a
       \<and> normalizePoints (optional_points (karir t)) = Inr (manifesting_pekerjaanKarir p)
       \<and> normalizePoints (optional_points (masaDepan t)) = Inr (manifesting_masaDepan p)
       \<and> (\<exists>notes0 fromAi.
             (case alternatifNotes t of Some entries \<Rightarrow> template_notes entries [] | None \<Rightarrow> Inr [])
               = Inr notes0
             \<and> alternatifDariAi
                 (JArr (map (\<lambda>(code, note).
                          JObj [(''kode'', JStr (code_key code)),
                                (''nama'', JStr (MAJOR_LABELS code)),
                                (''catatan'', JStr note)])
                        (default_notes m MAJOR_CODES notes0)))
               = Inr fromAi
             \<and> rekomendasi_alternatif p = build_alternatif m fromAi)"
proof -
  obtain notes0 where notes0:
    "(case alternatifNotes t of Some entries \<Rightarrow> template_notes entries [] | None \<Rightarrow> Inr [])
       = Inr notes0"
    and built: "buildFallbackAnalysis e
            = Inr (JObj
             [(''expressionSummary'', JObj
                 [(''headline'', narrative e),
                  (''energyTone'', optional_string (energyTone t)),
                  (''personalityHighlight'', optional_string (personality t)),
                  (''confidenceModifier'',
                     JNum (case confidenceModifier t of
                             Some c \<Rightarrow> c
                           | None \<Rightarrow> Finite (- 0.1)))]),
              (''manifesting'', JObj
                 [(''pekerjaanKarir'', optional_points (karir t)),
                  (''masaDepan'', optional_points (masaDepan t))]),
              (''rekomendasiJurusan'', JObj
                 [(''utama'', JObj
                     [(''kode'', JStr (code_key m)),
                      (''nama'', JStr (MAJOR_LABELS m)),
                      (''alasan'', JArr (map point_value
                         (case alasan t of
                            Some ps \<Rightarrow> if length ps > 0 then ps else DEFAULT_MAJOR_POINTS m
                          | None \<Rightarrow> DEFAULT_MAJOR_POINTS m))),
                      (''langkahFokus'', JStr
                         (case langkah t of
                            Some s \<Rightarrow> trim s
                          | None \<Rightarrow> focus_langkah (DEFAULT_MAJOR_FOCUS m))),
                      (''kebiasaanPendukung'', JArr (map JStr
                         (case kebiasaan t of
                            Some ks \<Rightarrow>
                              if length ks > 0 then filter (\<lambda>e. e \<noteq> []) (map trim ks)
                              else focus_kebiasaan (DEFAULT_MAJOR_FOCUS m)
                          | None \<Rightarrow> focus_kebiasaan (DEFAULT_MAJOR_FOCUS m))))]),
                  (''alternatif'', JArr
                     (map (\<lambda>(code, note).
                        JObj [(''kode'', JStr (code_key code)),
                              (''nama'', JStr (MAJOR_LABELS code)),
                              (''catatan'', JStr note)])
                       (default_notes m MAJOR_CODES notes0)))])])"
    using buildFallbackAnalysis_value[OF t m] by blast
  note f = basePayload_fields[OF p]
  have sum: "optget (optget v ''expressionSummary'') ''headline'' = narrative e"
    "optget (optget v ''expressionSummary'') ''energyTone'' = optional_string (energyTone t)"
    "optget (optget v ''expressionSummary'') ''personalityHighlight''
       = optional_string (personality t)"
    "optget (optget v ''expressionSummary'') ''confidenceModifier''
       = JNum (case confidenceModifier t of Some c \<Rightarrow> c | None \<Rightarrow> Finite (- 0.1))"
    "optget (optget v ''manifesting'') ''pekerjaanKarir'' = optional_points (karir t)"
    "optget (optget v ''manifesting'') ''masaDepan'' = optional_points (masaDepan t)"
    "optget (coalesce (optget (optget v ''rekomendasiJurusan'') ''utama'') (JObj [])) ''kode''
       = JStr (code_key m)"
    "optget (coalesce (optget (optget v ''rekomendasiJurusan'') ''utama'') (JObj [])) ''nama''
       = JStr (MAJOR_LABELS m)"
    "optget (optget v ''rekomendasiJurusan'') ''alternatif''
       = JArr (map (\<lambda>(code, note).
                        JObj [(''kode'', JStr (code_key code)),
                              (''nama'', JStr (MAJOR_LABELS code)),
                              (''catatan'', JStr note)])
                       (default_notes m MAJOR_CODES notes0))"
    using v built by (auto simp: optget_def coalesce_def nullish_def)
  have kode: "utama_kode p = m"
    using f sum normalizeMajorCode_code_key[of m] by simp
  have nama: "utama_nama p = MAJOR_LABELS m"
    using f sum resolveMajorName_label[of m] by simp
  have head: "expr_headline p = narrative e"
    using f sum by (simp add: coalesce_def)
  have tone: "expr_energyTone p
           = (case energyTone t of
                Some s \<Rightarrow> JStr s
              | None \<Rightarrow> JStr ''Energi netral, tetap jaga kestabilan emosi.'')"
    using f sum by (simp add: coalesce_def optional_string_def nullish_def split: option.splits)
  have pers: "expr_personalityHighlight p
           = (case personality t of
                Some s \<Rightarrow> JStr s
              | None \<Rightarrow> JStr ''Karakter terlihat seimbang dan responsif.'')"
    using f sum by (simp add: coalesce_def optional_string_def nullish_def split: option.splits)
  have conf: "expr_confidence p
           = (case (case confidenceModifier t of Some c \<Rightarrow> c | None \<Rightarrow> Finite (- 0.1)) of
                Finite c \<Rightarrow> clamp01 (num_add (confidence e) (Finite c))
              | _ \<Rightarrow> confidence e)"
    using f sum by (simp add: coalesce_def nullish_def)
  have pts: "normalizePoints (optional_points (karir t)) = Inr (manifesting_pekerjaanKarir p)"
    "normalizePoints (optional_points (masaDepan t)) = Inr (manifesting_masaDepan p)"
    using f sum by simp_all
  obtain fromAi where alt:
    "alternatifDariAi (optget (optget v ''rekomendasiJurusan'') ''alternatif'') = Inr fromAi"
    "rekomendasi_alternatif p = build_alternatif (utama_kode p) fromAi"
    using f by blast
  have rest: "expr_baseLabel p = label e" "expr_baseConfidence p = confidence e" "payload_age p = a"
    using f by simp_all
  show ?thesis
    apply (intro conjI)
    apply (rule kode) apply (rule nama) apply (rule head) apply (rule tone) apply (rule pers)
    apply (rule conf) apply (rule rest(1)) apply (rule rest(2)) apply (rule rest(3))
    apply (rule pts(1)) apply (rule pts(2))
    apply (rule exI[of _ notes0], rule exI[of _ fromAi])
    using notes0 alt sum(9) kode apply simp
    done
qed

lemma full_pipeline_caught:
  assumes "detectExpression P (expression_call ups) = Inr expression"
      and "detectAge P (age_call ups) (Some expression) = Inr ageInsight"
      and "generateFaceReading P (generator_call ups) expression ageInsight = Inl err"
  shows "full_pipeline P ups
         = bindE (buildFallbackAnalysis expression) (basePayload expression ageInsight fallback)"
  using assms by (simp add: full_pipeline_def)

lemma sample_template:
  "select_template (toLowerCase (label sample_expression)) = template_happiness"
  "(case major template_happiness of Some c \<Rightarrow> c | None \<Rightarrow> RPL) = DKV"
  "energyTone template_happiness
     = Some ''Energi wajah ceria dan hangat, mudah membangun situasi kolaboratif.''"
  "personality template_happiness
     = Some ''Karakter supel serta ekspresif, cocok memimpin aktivitas kreatif.''"
  "confidenceModifier template_happiness = None"
  by (simp_all add: sample_expression_def select_template_def toLowerCase_def upper_letters_def
      lower_letters_def table_lookup_def FALLBACK_TEMPLATES_def template_happiness_def)

lemma sample_template_karir:
  "normalizePoints (optional_points (karir template_happiness))
     = Inr [\<lparr>point_title = ''Karisma tim'',
              point_description =
                ''Aura positif memudahkan mengambil peran koordinasi dalam proyek bersama.'',
              point_indicator = JStr ''strength''\<rparr>,
            \<lparr>point_title = ''Salurkan ide visual'',
              point_description =
                ''Eksplor kelas multimedia atau desain untuk menyalurkan imajinasi.'',
              point_indicator = JStr ''opportunity''\<rparr>]"
  by (simp add: template_happiness_def createPoint_def optional_points_def point_value_def
      normalizePoints_def array_or_empty_def nullish_def optget_def call_trim_def trim_def
      is_space_def coalesce_def)

lemma sample_template_notes:
  "(case alternatifNotes template_happiness of
      Some entries \<Rightarrow> template_notes entries []
    | None \<Rightarrow> Inr [])
     = Inr [(RPL, ''Jika ingin menyalurkan ide ke aplikasi interaktif, RPL bisa jadi kombinasi yang seru.''),
            (TKJ, ''Energi positifmu juga bisa menghidupkan tim teknis di jurusan TKJ.'')]"
  by (simp add: template_happiness_def normalizeMajorCode_keys)

lemma sample_alternatif:
  "alternatifDariAi
     (JArr (map (\<lambda>(code, note).
              JObj [(''kode'', JStr (code_key code)),
                    (''nama'', JStr (MAJOR_LABELS code)),
                    (''catatan'', JStr note)])
            (default_notes DKV MAJOR_CODES
               [(RPL, ''Jika ingin menyalurkan ide ke aplikasi interaktif, RPL bisa jadi kombinasi yang seru.''),
                (TKJ, ''Energi positifmu juga bisa menghidupkan tim teknis di jurusan TKJ.'')])))
     = Inr [\<lparr>alt_kode = RPL, alt_nama = ''Rekayasa Perangkat Lunak'',
              alt_catatan = ''Jika ingin menyalurkan ide ke aplikasi interaktif, RPL bisa jadi kombinasi yang seru.''\<rparr>,
            \<lparr>alt_kode = TKJ, alt_nama = ''Teknik Komputer dan Jaringan'',
              alt_catatan = ''Energi positifmu juga bisa menghidupkan tim teknis di jurusan TKJ.''\<rparr>]"
  by (simp add: MAJOR_CODES_def alternatifDariAi_def array_or_empty_def nullish_def optget_def
      call_trim_def trim_def is_space_def normalizeMajorCode_keys resolveMajorName_def
      List.map_filter_simps)

lemma sample_build_alternatif:
  "build_alternatif DKV
     [\<lparr>alt_kode = RPL, alt_nama = n1, alt_catatan = c1\<rparr>,
      \<lparr>alt_kode = TKJ, alt_nama = n2, alt_catatan = c2\<rparr>]
     = [\<lparr>alt_kode = RPL, alt_nama = n1, alt_catatan = c1\<rparr>,
        \<lparr>alt_kode = TKJ, alt_nama = n2, alt_catatan = c2\<rparr>]"
  by (simp add: build_alternatif_def MAJOR_CODES_def)

text \<open>
  C6. For a request that reaches the narrative generator (credentials and image pass,
  the rate limiter admits it, the cache misses, and both classifiers return), an error
  of \<^verbatim>\<open>generateFaceReading\<close> is caught: the handler builds
  \<^verbatim>\<open>buildFallbackAnalysis(expression)\<close>, normalizes that value, stores the payload in
  the cache and answers 200 with it. The payload has \<^verbatim>\<open>meta.source\<close> equal to
  \<^verbatim>\<open>fallback\<close> and carries the content of the template \<open>t\<close> selected by the
  lowercased label: its track code \<open>m\<close> (RPL when the template has none) and the name of
  that track, the expression narrative as headline, the energy and personality sentences
  of the template, its career and future points as normalized, and the alternatives
  built from its notes and the default notes; the age insight and the classifier's label
  and confidence are passed through. The adapter itself performs no fallback: on a
  response that is not ok, on a body that is not JSON, on missing or blank content and on
  content that does not parse, its result is an error.
\<close>

theorem generator_failure_falls_back:
  "(credentials_present env \<and> image_payload req = Some b64
      \<and> fst (checkRateLimit (limiter_now clock) (clientKey req) (rateBuckets state)) = False
      \<and> (case analysisCache state (sha256_hex P b64) of
            Some entry \<Rightarrow> \<not> cache_now clock - entry_timestamp entry < CACHE_TTL_MS
          | None \<Rightarrow> True)
      \<and> detectExpression P (expression_call ups) = Inr expression
      \<and> detectAge P (age_call ups) (Some expression) = Inr ageInsight
      \<and> generateFaceReading P (generator_call ups) expression ageInsight = Inl err
      \<and> t = select_template (toLowerCase (label expression))
      \<and> m = (case major t of Some c \<Rightarrow> c | None \<Rightarrow> RPL)
    \<longrightarrow> (\<exists>v payload.
          buildFallbackAnalysis expression = Inr v
          \<and> basePayload expression ageInsight fallback v = Inr payload
          \<and> POST P env req clock ups state
              = (Json200 \<lparr>body_payload = payload, generatedAt = generated_now clock\<rparr>,
                 state\<lparr>rateBuckets :=
                         snd (checkRateLimit (limiter_now clock) (clientKey req) (rateBuckets state)),
                       analysisCache := (analysisCache state)
                         (sha256_hex P b64 \<mapsto>
                            \<lparr>entry_timestamp = cache_now clock, entry_data = payload\<rparr>)\<rparr>)
          \<and> meta_source payload = fallback \<and> meta_cached payload = None
          \<and> utama_kode payload = m \<and> utama_nama payload = MAJOR_LABELS m
          \<and> expr_headline payload = narrative expression
          \<and> expr_energyTone payload
              = (case energyTone t of
                   Some s \<Rightarrow> JStr s
                 | None \<Rightarrow> JStr ''Energi netral, tetap jaga kestabilan emosi.'')
          \<and> expr_personalityHighlight payload
              = (case personality t of
                   Some s \<Rightarrow> JStr s
                 | None \<Rightarrow> JStr ''Karakter terlihat seimbang dan responsif.'')
          \<and> expr_baseLabel payload = label expression
          \<and> expr_baseConfidence payload = confidence expression
          \<and> payload_age payload = ageInsight
          \<and> normalizePoints (optional_points (karir t))
              = Inr (manifesting_pekerjaanKarir payload)
          \<and> normalizePoints (optional_points (masaDepan t))
              = Inr (manifesting_masaDepan payload)
          \<and> (\<exists>notes0 fromAi.
                (case alternatifNotes t of
                   Some entries \<Rightarrow> template_notes entries []
                 | None \<Rightarrow> Inr [])
                  = Inr notes0
                \<and> alternatifDariAi
                    (JArr (map (\<lambda>(code, note).
                             JObj [(''kode'', JStr (code_key code)),
                                   (''nama'', JStr (MAJOR_LABELS code)),
                                   (''catatan'', JStr note)])
                           (default_notes m MAJOR_CODES notes0)))
                  = Inr fromAi
                \<and> rekomendasi_alternatif payload = build_alternatif m fromAi)))
   \<and> (\<exists>e. generateFaceReading P (Responds False anyBody) expression ageInsight = Inl e)
   \<and> (\<exists>e. generateFaceReading P (Responds True BodyNotJson) expression ageInsight = Inl e)
   \<and> (nullish (message_content answer)
        \<or> message_content answer = JStr s \<and> trim s = []
        \<or> message_content answer = JStr s \<and> JSON_parse P (trim (strip_fences (trim s))) = None
      \<longrightarrow> (\<exists>e. generateFaceReading P (Responds True (BodyJson answer)) expression ageInsight
                   = Inl e))"
proof (intro conjI impI)
  assume a: "credentials_present env \<and> image_payload req = Some b64
      \<and> fst (checkRateLimit (limiter_now clock) (clientKey req) (rateBuckets state)) = False
      \<and> (case analysisCache state (sha256_hex P b64) of
            Some entry \<Rightarrow> \<not> cache_now clock - entry_timestamp entry < CACHE_TTL_MS
          | None \<Rightarrow> True)
      \<and> detectExpression P (expression_call ups) = Inr expression
      \<and> detectAge P (age_call ups) (Some expression) = Inr ageInsight
      \<and> generateFaceReading P (generator_call ups) expression ageInsight = Inl err
      \<and> t = select_template (toLowerCase (label expression))
      \<and> m = (case major t of Some c \<Rightarrow> c | None \<Rightarrow> RPL)"
  then have t: "t = select_template (toLowerCase (label expression))"
    and m: "m = (case major t of Some c \<Rightarrow> c | None \<Rightarrow> RPL)"
    by simp_all
  obtain v where v: "buildFallbackAnalysis expression = Inr v"
    and conf: "conforms_AiStructuredResult v"
    using buildFallbackAnalysis_total[of expression] by blast
  obtain payload where p: "basePayload expression ageInsight fallback v = Inr payload"
    using basePayload_total[OF conf] by blast
  have run: "full_pipeline P ups = Inr payload"
    using a v p full_pipeline_caught[of P ups expression ageInsight err] by simp
  have post: "POST P env req clock ups state
              = (Json200 \<lparr>body_payload = payload, generatedAt = generated_now clock\<rparr>,
                 state\<lparr>rateBuckets :=
                         snd (checkRateLimit (limiter_now clock) (clientKey req) (rateBuckets state)),
                       analysisCache := (analysisCache state)
                         (sha256_hex P b64 \<mapsto>
                            \<lparr>entry_timestamp = cache_now clock, entry_data = payload\<rparr>)\<rparr>)"
    using a POST_valid[of env req b64 P clock ups state]
      POST_validated_miss[of clock "clientKey req" state P b64 ups payload] run
    by simp
  have meta: "meta_source payload = fallback \<and> meta_cached payload = None"
    using basePayload_result[OF p] by simp
  note fields = fallback_payload_fields[OF t m v p]
  show "\<exists>v payload.
          buildFallbackAnalysis expression = Inr v
          \<and> basePayload expression ageInsight fallback v = Inr payload
          \<and> POST P env req clock ups state
              = (Json200 \<lparr>body_payload = payload, generatedAt = generated_now clock\<rparr>,
                 state\<lparr>rateBuckets :=
                         snd (checkRateLimit (limiter_now clock) (clientKey req) (rateBuckets state)),
                       analysisCache := (analysisCache state)
                         (sha256_hex P b64 \<mapsto>
                            \<lparr>entry_timestamp = cache_now clock, entry_data = payload\<rparr>)\<rparr>)
          \<and> meta_source payload = fallback \<and> meta_cached payload = None
          \<and> utama_kode payload = m \<and> utama_nama payload = MAJOR_LABELS m
          \<and> expr_headline payload = narrative expression
          \<and> expr_energyTone payload
              = (case energyTone t of
                   Some s \<Rightarrow> JStr s
                 | None \<Rightarrow> JStr ''Energi netral, tetap jaga kestabilan emosi.'')
          \<and> expr_personalityHighlight payload
              = (case personality t of
                   Some s \<Rightarrow> JStr s
                 | None \<Rightarrow> JStr ''Karakter terlihat seimbang dan responsif.'')
          \<and> expr_baseLabel payload = label expression
          \<and> expr_baseConfidence payload = confidence expression
          \<and> payload_age payload = ageInsight
          \<and> normalizePoints (optional_points (karir t))
              = Inr (manifesting_pekerjaanKarir payload)
          \<and> normalizePoints (optional_points (masaDepan t))
              = Inr (manifesting_masaDepan payload)
          \<and> (\<exists>notes0 fromAi.
                (case alternatifNotes t of
                   Some entries \<Rightarrow> template_notes entries []
                 | None \<Rightarrow> Inr [])
                  = Inr notes0
                \<and> alternatifDariAi
                    (JArr (map (\<lambda>(code, note).
                             JObj [(''kode'', JStr (code_key code)),
                                   (''nama'', JStr (MAJOR_LABELS code)),
                                   (''catatan'', JStr note)])
                           (default_notes m MAJOR_CODES notes0)))
                  = Inr fromAi
                \<and> rekomendasi_alternatif payload = build_alternatif m fromAi)"
    apply (rule exI[of _ v], rule exI[of _ payload])
    apply (rule conjI[OF v], rule conjI[OF p], rule conjI[OF post])
    using meta fields apply blast
    done
next
  show "\<exists>e. generateFaceReading P (Responds False anyBody) expression ageInsight = Inl e"
    by (rule generateFaceReading_not_ok)
next
  show "\<exists>e. generateFaceReading P (Responds True BodyNotJson) expression ageInsight = Inl e"
    by (rule generateFaceReading_not_json)
next
  assume "nullish (message_content answer)
        \<or> message_content answer = JStr s \<and> trim s = []
        \<or> message_content answer = JStr s \<and> JSON_parse P (trim (strip_fences (trim s))) = None"
  then show "\<exists>e. generateFaceReading P (Responds True (BodyJson answer)) expression ageInsight
                   = Inl e"
    using generateFaceReading_no_content[of answer s P expression ageInsight]
      generateFaceReading_unparseable[of answer s P expression ageInsight]
    by blast
qed

theorem generator_failure_falls_back_witness:
  "\<exists>body state'.
      POST sample_platform sample_env sample_request sample_clock sample_upstream empty_state
        = (Json200 body, state')
      \<and> meta_source (body_payload body) = fallback
      \<and> utama_kode (body_payload body) = DKV
      \<and> utama_nama (body_payload body) = ''Desain Komunikasi Visual''
      \<and> expr_headline (body_payload body)
          = JStr ''Ekspresi bahagia mendominasi, menunjukkan energi positif dan terbuka.''
      \<and> expr_energyTone (body_payload body)
          = JStr ''Energi wajah ceria dan hangat, mudah membangun situasi kolaboratif.''
      \<and> expr_personalityHighlight (body_payload body)
          = JStr ''Karakter supel serta ekspresif, cocok memimpin aktivitas kreatif.''
      \<and> map point_title (manifesting_pekerjaanKarir (body_payload body))
          = [''Karisma tim'', ''Salurkan ide visual'']
      \<and> map alt_kode (rekomendasi_alternatif (body_payload body)) = [RPL, TKJ]
      \<and> map alt_catatan (rekomendasi_alternatif (body_payload body))
          = [''Jika ingin menyalurkan ide ke aplikasi interaktif, RPL bisa jadi kombinasi yang seru.'',
             ''Energi positifmu juga bisa menghidupkan tim teknis di jurusan TKJ.'']"
proof -
  obtain a where a: "detectAge sample_platform sample_age_answer (Some sample_expression) = Inr a"
    using sample_detectAge by blast
  obtain err where err:
    "generateFaceReading sample_platform (Responds False BodyNotJson) sample_expression a = Inl err"
    using sample_generator_fails by blast
  have hyps: "credentials_present sample_env \<and> image_payload sample_request = Some ''iVBORw0KGgo=''
      \<and> fst (checkRateLimit (limiter_now sample_clock) (clientKey sample_request)
                (rateBuckets empty_state)) = False
      \<and> (case analysisCache empty_state (sha256_hex sample_platform ''iVBORw0KGgo='') of
            Some entry \<Rightarrow> \<not> cache_now sample_clock - entry_timestamp entry < CACHE_TTL_MS
          | None \<Rightarrow> True)
      \<and> detectExpression sample_platform (expression_call sample_upstream) = Inr sample_expression
      \<and> detectAge sample_platform (age_call sample_upstream) (Some sample_expression) = Inr a
      \<and> generateFaceReading sample_platform (generator_call sample_upstream) sample_expression a
          = Inl err
      \<and> template_happiness = select_template (toLowerCase (label sample_expression))
      \<and> DKV = (case major template_happiness of Some c \<Rightarrow> c | None \<Rightarrow> RPL)"
    by (simp add: sample_request_checks sample_clock_def empty_state_def sample_admitted
        sample_upstream_def sample_detectExpression a err sample_template)
  from generator_failure_falls_back[of sample_env sample_request "''iVBORw0KGgo=''" sample_clock
        empty_state sample_platform sample_upstream sample_expression a err template_happiness DKV]
    hyps
  obtain v payload notes0 fromAi where
    post: "POST sample_platform sample_env sample_request sample_clock sample_upstream empty_state
              = (Json200 \<lparr>body_payload = payload, generatedAt = generated_now sample_clock\<rparr>,
                 empty_state\<lparr>rateBuckets :=
                         snd (checkRateLimit (limiter_now sample_clock) (clientKey sample_request)
                                (rateBuckets empty_state)),
                       analysisCache := (analysisCache empty_state)
                         (sha256_hex sample_platform ''iVBORw0KGgo='' \<mapsto>
                            \<lparr>entry_timestamp = cache_now sample_clock, entry_data = payload\<rparr>)\<rparr>)"
    and meta: "meta_source payload = fallback"
    and kode: "utama_kode payload = DKV" "utama_nama payload = MAJOR_LABELS DKV"
    and head: "expr_headline payload = narrative sample_expression"
    and tone: "expr_energyTone payload
              = (case energyTone template_happiness of
                   Some s \<Rightarrow> JStr s
                 | None \<Rightarrow> JStr ''Energi netral, tetap jaga kestabilan emosi.'')"
    and pers: "expr_personalityHighlight payload
              = (case personality template_happiness of
                   Some s \<Rightarrow> JStr s
                 | None \<Rightarrow> JStr ''Karakter terlihat seimbang dan responsif.'')"
    and karir: "normalizePoints (optional_points (karir template_happiness))
              = Inr (manifesting_pekerjaanKarir payload)"
    and notes0: "(case alternatifNotes template_happiness of
                   Some entries \<Rightarrow> template_notes entries []
                 | None \<Rightarrow> Inr [])
                  = Inr notes0"
    and fromAi: "alternatifDariAi
                    (JArr (map (\<lambda>(code, note).
                             JObj [(''kode'', JStr (code_key code)),
                                   (''nama'', JStr (MAJOR_LABELS code)),
                                   (''catatan'', JStr note)])
                           (default_notes DKV MAJOR_CODES notes0)))
                  = Inr fromAi"
    and alt: "rekomendasi_alternatif payload = build_alternatif DKV fromAi"
    by blast
  have k: "map point_title (manifesting_pekerjaanKarir payload)
           = [''Karisma tim'', ''Salurkan ide visual'']"
  proof -
    from karir[unfolded sample_template_karir, symmetric]
    have "manifesting_pekerjaanKarir payload
          = [\<lparr>point_title = ''Karisma tim'',
              point_description =
                ''Aura positif memudahkan mengambil peran koordinasi dalam proyek bersama.'',
              point_indicator = JStr ''strength''\<rparr>,
            \<lparr>point_title = ''Salurkan ide visual'',
              point_description =
                ''Eksplor kelas multimedia atau desain untuk menyalurkan imajinasi.'',
              point_indicator = JStr ''opportunity''\<rparr>]"
      by simp
    then show ?thesis by simp
  qed
  have n: "notes0 = [(RPL, ''Jika ingin menyalurkan ide ke aplikasi interaktif, RPL bisa jadi kombinasi yang seru.''),
            (TKJ, ''Energi positifmu juga bisa menghidupkan tim teknis di jurusan TKJ.'')]"
    using notes0[unfolded sample_template_notes, symmetric] by simp
  have alts: "rekomendasi_alternatif payload
     = [\<lparr>alt_kode = RPL, alt_nama = ''Rekayasa Perangkat Lunak'',
              alt_catatan = ''Jika ingin menyalurkan ide ke aplikasi interaktif, RPL bisa jadi kombinasi yang seru.''\<rparr>,
            \<lparr>alt_kode = TKJ, alt_nama = ''Teknik Komputer dan Jaringan'',
              alt_catatan = ''Energi positifmu juga bisa menghidupkan tim teknis di jurusan TKJ.''\<rparr>]"
  proof -
    from fromAi[unfolded n sample_alternatif, symmetric]
    have "fromAi
     = [\<lparr>alt_kode = RPL, alt_nama = ''Rekayasa Perangkat Lunak'',
              alt_catatan = ''Jika ingin menyalurkan ide ke aplikasi interaktif, RPL bisa jadi kombinasi yang seru.''\<rparr>,
            \<lparr>alt_kode = TKJ, alt_nama = ''Teknik Komputer dan Jaringan'',
              alt_catatan = ''Energi positifmu juga bisa menghidupkan tim teknis di jurusan TKJ.''\<rparr>]"
      by simp
    then show ?thesis
      using alt by (simp add: sample_build_alternatif)
  qed
  show ?thesis
    apply (rule exI[of _ "\<lparr>body_payload = payload, generatedAt = generated_now sample_clock\<rparr>"])
    apply (rule exI)
    apply (rule conjI[OF post])
    using meta kode head tone pers k alts
    apply (simp add: sample_template sample_expression_def)
    done
qed

text \<open>
  C3. Let a first request be answered 200 with a freshly built payload (\<^verbatim>\<open>meta.cached\<close>
  unset). A second request with the same base64 text, admitted by the rate limiter, whose
  cache clock reading is within the TTL of the first one's, and which finds the entry the
  first one stored, is answered 200 with the same payload except that \<^verbatim>\<open>meta.cached\<close>
  is true, and with its own \<^verbatim>\<open>generatedAt\<close>; the cache after it is the cache before
  it, and the entry still holds the first request's timestamp and payload. Moreover no
  request at all, handled while an entry is within its TTL, changes that entry, so the
  second request does find it.
\<close>

theorem cached_replay:
  "(credentials_present env \<and> credentials_present env'
    \<and> image_payload req1 = Some b64 \<and> image_payload req2 = Some b64
    \<and> POST P env req1 clock1 ups1 state0 = (Json200 body1, state1)
    \<and> meta_cached (body_payload body1) = None
    \<and> analysisCache state (sha256_hex P b64) = analysisCache state1 (sha256_hex P b64)
    \<and> fst (checkRateLimit (limiter_now clock2) (clientKey req2) (rateBuckets state)) = False
    \<and> cache_now clock2 - cache_now clock1 < CACHE_TTL_MS
    \<longrightarrow> (\<exists>state2.
          POST P env' req2 clock2 ups2 state
            = (Json200 \<lparr>body_payload = (body_payload body1)\<lparr>meta_cached := Some True\<rparr>,
                        generatedAt = generated_now clock2\<rparr>,
               state2)
          \<and> analysisCache state2 = analysisCache state
          \<and> analysisCache state2 (sha256_hex P b64)
              = Some \<lparr>entry_timestamp = cache_now clock1, entry_data = body_payload body1\<rparr>))
   \<and> (analysisCache state3 h = Some entry
       \<and> cache_now clock3 - entry_timestamp entry < CACHE_TTL_MS
    \<longrightarrow> analysisCache (snd (POST P env3 req3 clock3 ups3 state3)) h = Some entry)"
proof (intro conjI impI)
  assume a: "credentials_present env \<and> credentials_present env'
    \<and> image_payload req1 = Some b64 \<and> image_payload req2 = Some b64
   \<and> POST P env req1 clock1 ups1 state0 = (Json200 body1, state1)
   \<and> meta_cached (body_payload body1) = None
   \<and> analysisCache state (sha256_hex P b64) = analysisCache state1 (sha256_hex P b64)
   \<and> fst (checkRateLimit (limiter_now clock2) (clientKey req2) (rateBuckets state)) = False
   \<and> cache_now clock2 - cache_now clock1 < CACHE_TTL_MS"
  have first: "POST_validated P (clientKey req1) b64 clock1 ups1 state0 = (Json200 body1, state1)"
    using a POST_valid[of env req1 b64 P clock1 ups1 state0] by simp
  have stored: "analysisCache state (sha256_hex P b64)
                = Some \<lparr>entry_timestamp = cache_now clock1, entry_data = body_payload body1\<rparr>"
    using a POST_validated_fresh[OF first] by simp
  have second: "POST P env' req2 clock2 ups2 state
                = POST_validated P (clientKey req2) b64 clock2 ups2 state"
    using a POST_valid[of env' req2 b64 P clock2 ups2 state] by simp
  have "POST_validated P (clientKey req2) b64 clock2 ups2 state
         = (Json200 \<lparr>body_payload = (body_payload body1)\<lparr>meta_cached := Some True\<rparr>,
                     generatedAt = generated_now clock2\<rparr>,
            state\<lparr>rateBuckets :=
                    snd (checkRateLimit (limiter_now clock2) (clientKey req2) (rateBuckets state))\<rparr>)"
    using POST_validated_hit[of clock2 "clientKey req2" state P b64
        "\<lparr>entry_timestamp = cache_now clock1, entry_data = body_payload body1\<rparr>" ups2]
      a stored by simp
  with second stored show "\<exists>state2.
          POST P env' req2 clock2 ups2 state
            = (Json200 \<lparr>body_payload = (body_payload body1)\<lparr>meta_cached := Some True\<rparr>,
                        generatedAt = generated_now clock2\<rparr>,
               state2)
          \<and> analysisCache state2 = analysisCache state
          \<and> analysisCache state2 (sha256_hex P b64)
              = Some \<lparr>entry_timestamp = cache_now clock1, entry_data = body_payload body1\<rparr>"
    by simp
next
  assume "analysisCache state3 h = Some entry
       \<and> cache_now clock3 - entry_timestamp entry < CACHE_TTL_MS"
  then show "analysisCache (snd (POST P env3 req3 clock3 ups3 state3)) h = Some entry"
    using POST_keeps_live_entry[of state3 h entry clock3 P env3 req3 ups3] by simp
qed

theorem cached_replay_witness:
  "\<exists>body1 state1 state2.
      POST sample_platform sample_env sample_request sample_clock sample_upstream empty_state
        = (Json200 body1, state1)
      \<and> meta_cached (body_payload body1) = None
      \<and> POST sample_platform sample_env sample_request later_clock sample_upstream state1
        = (Json200 \<lparr>body_payload = (body_payload body1)\<lparr>meta_cached := Some True\<rparr>,
                    generatedAt = generated_now later_clock\<rparr>,
           state2)
      \<and> analysisCache state2 = analysisCache state1
      \<and> analysisCache
            (snd (POST sample_platform sample_env empty_image_request later_clock sample_upstream
                    state1))
            (sha256_hex sample_platform ''iVBORw0KGgo='')
          = analysisCache state1 (sha256_hex sample_platform ''iVBORw0KGgo='')"
proof -
  obtain a where a: "detectAge sample_platform sample_age_answer (Some sample_expression) = Inr a"
    using sample_detectAge by blast
  obtain err where err:
    "generateFaceReading sample_platform (Responds False BodyNotJson) sample_expression a = Inl err"
    using sample_generator_fails by blast
  obtain payload where first:
    "POST sample_platform sample_env sample_request sample_clock sample_upstream empty_state
       = (Json200 \<lparr>body_payload = payload, generatedAt = generated_now sample_clock\<rparr>,
          empty_state\<lparr>rateBuckets :=
                  snd (checkRateLimit (limiter_now sample_clock) (clientKey sample_request)
                         (rateBuckets empty_state)),
                analysisCache := (analysisCache empty_state)
                  (sha256_hex sample_platform ''iVBORw0KGgo='' \<mapsto>
                     \<lparr>entry_timestamp = cache_now sample_clock, entry_data = payload\<rparr>)\<rparr>)"
    and fresh: "meta_cached payload = None"
    using POST_generator_failure[of sample_env sample_request "''iVBORw0KGgo=''" sample_clock
        empty_state sample_platform sample_upstream sample_expression a err]
    by (auto simp: sample_request_checks sample_clock_def empty_state_def sample_admitted
        sample_upstream_def sample_detectExpression a err)
  let ?body1 = "\<lparr>body_payload = payload, generatedAt = generated_now sample_clock\<rparr>"
  let ?state1 = "empty_state\<lparr>rateBuckets :=
                  snd (checkRateLimit (limiter_now sample_clock) (clientKey sample_request)
                         (rateBuckets empty_state)),
                analysisCache := (analysisCache empty_state)
                  (sha256_hex sample_platform ''iVBORw0KGgo='' \<mapsto>
                     \<lparr>entry_timestamp = cache_now sample_clock, entry_data = payload\<rparr>)\<rparr>"
  have admitted: "fst (checkRateLimit (limiter_now later_clock) (clientKey sample_request)
                         (rateBuckets ?state1)) = False"
    by (simp add: sample_request_checks sample_clock_def later_clock_def empty_state_def
        sample_admitted)
  have ttl: "cache_now later_clock - cache_now sample_clock < CACHE_TTL_MS"
    by (simp add: later_clock_def sample_clock_def CACHE_TTL_MS_def)
  have stored: "analysisCache ?state1 (sha256_hex sample_platform ''iVBORw0KGgo='')
                = Some \<lparr>entry_timestamp = cache_now sample_clock, entry_data = payload\<rparr>"
    by simp
  note replay = cached_replay[of sample_env sample_env sample_request "''iVBORw0KGgo=''"
        sample_request sample_platform sample_clock sample_upstream empty_state ?body1 ?state1
        ?state1 later_clock sample_upstream ?state1 "sha256_hex sample_platform ''iVBORw0KGgo=''"
        "\<lparr>entry_timestamp = cache_now sample_clock, entry_data = payload\<rparr>" later_clock
        sample_env empty_image_request sample_upstream]
  have kept: "analysisCache
            (snd (POST sample_platform sample_env empty_image_request later_clock sample_upstream
                    ?state1))
            (sha256_hex sample_platform ''iVBORw0KGgo='')
          = analysisCache ?state1 (sha256_hex sample_platform ''iVBORw0KGgo='')"
    using replay stored ttl by simp
  have "\<exists>state2.
          POST sample_platform sample_env sample_request later_clock sample_upstream ?state1
            = (Json200 \<lparr>body_payload = (body_payload ?body1)\<lparr>meta_cached := Some True\<rparr>,
                        generatedAt = generated_now later_clock\<rparr>,
               state2)
          \<and> analysisCache state2 = analysisCache ?state1
          \<and> analysisCache state2 (sha256_hex sample_platform ''iVBORw0KGgo='')
              = Some \<lparr>entry_timestamp = cache_now sample_clock, entry_data = body_payload ?body1\<rparr>"
    using replay first fresh admitted ttl
    by (simp add: sample_request_checks)
  then show ?thesis
    using first fresh kept by auto
qed

section \<open>Failures of the classifiers\<close>

lemma detectExpression_defaults:
  "detectExpression P (Responds False BodyNotJson) = Inr (default_expression (Finite 0.42))"
  "detectExpression P (Responds False (BodyJson v)) = Inr (default_expression (Finite 0.42))"
  "detectExpression P (Responds True (BodyJson (JArr []))) = Inr (default_expression (Finite 0.4))"
  "\<not> (\<exists>xs. v = JArr xs) \<Longrightarrow>
     detectExpression P (Responds True (BodyJson v)) = Inr (default_expression (Finite 0.4))"
  by (auto simp: detectExpression_def response_text_def response_json_def
      split: jsval.splits list.splits)

lemma sample_without_expression:
  "fst (POST sample_platform sample_env sample_request sample_clock
          (sample_upstream\<lparr>expression_call := Rejects\<rparr>) empty_state)
     = ErrorStatus 500"
proof -
  have "full_pipeline sample_platform (sample_upstream\<lparr>expression_call := Rejects\<rparr>)
          = Inl NetworkError"
    by (simp add: full_pipeline_def detectExpression_def)
  then show ?thesis
    using POST_valid[of sample_env sample_request "''iVBORw0KGgo=''" sample_platform sample_clock
        "sample_upstream\<lparr>expression_call := Rejects\<rparr>" empty_state]
      POST_validated_error[of sample_clock "''203.0.113.7''" empty_state sample_platform
        "''iVBORw0KGgo=''" "sample_upstream\<lparr>expression_call := Rejects\<rparr>" NetworkError]
    by (simp add: sample_request_checks sample_clock_def empty_state_def sample_admitted)
qed

text \<open>
  C4 does not hold of the code. \<^verbatim>\<open>detectExpression\<close> has no handler around its
  \<^verbatim>\<open>fetch\<close>: a rejected call leaves it as an error, as does a body that is not JSON,
  and the handler then answers 500. (The default insight is returned for a response that
  is not ok and for a JSON body that is no array or an empty one, see
  \<open>detectExpression_defaults\<close>.)
\<close>

theorem detectExpression_propagates_failure:
  "detectExpression P Rejects = Inl NetworkError
   \<and> detectExpression P (Responds True BodyNotJson) = Inl SyntaxError
   \<and> fst (POST sample_platform sample_env sample_request sample_clock
            (sample_upstream\<lparr>expression_call := Rejects\<rparr>) empty_state)
       = ErrorStatus 500"
  using sample_without_expression
  by (simp add: detectExpression_def response_json_def)

lemma table_lookup_Inherited:
  "table_lookup tab k = Inherited k' \<Longrightarrow> k \<in> set object_prototype_keys"
  by (auto simp: table_lookup_def split: option.splits if_splits)

lemma buildFallbackAgeInsight_total:
  assumes "toLowerCase (label e) \<notin> set object_prototype_keys"
  shows "\<exists>a. buildFallbackAgeInsight P (Some e) = Inr a"
proof -
  obtain pd where dflt: "table_lookup FALLBACK_AGE_PRESETS ''default'' = Own pd"
    by (simp add: table_lookup_def FALLBACK_AGE_PRESETS_def)
  show ?thesis
  proof (cases "table_lookup FALLBACK_AGE_PRESETS (toLowerCase (label e))")
    case (Own p)
    then show ?thesis by (simp add: buildFallbackAgeInsight_def Let_def)
  next
    case (Inherited k)
    then show ?thesis using assms table_lookup_Inherited by blast
  next
    case Absent
    then show ?thesis by (simp add: buildFallbackAgeInsight_def Let_def dflt)
  qed
qed

lemma detectAge_total_on_own_labels:
  assumes "toLowerCase (label e) \<notin> set object_prototype_keys"
  shows "\<exists>a. detectAge P outcome (Some e) = Inr a"
  using buildFallbackAgeInsight_total[OF assms, of P]
  by (cases "detectAge_try P outcome (Some e)") (auto simp: detectAge_def)

lemma inherited_label_pipeline:
  "full_pipeline sample_platform inherited_label_upstream = Inl TypeError"
proof -
  have low: "toLowerCase ''constructor'' = ''constructor''"
    by (simp add: toLowerCase_def upper_letters_def lower_letters_def)
  have e: "detectExpression sample_platform (expression_call inherited_label_upstream)
           = Inr \<lparr>narrative = JInherited ''constructor'', confidence = Finite 0.9,
                  label = ''constructor''\<rparr>"
    by (simp add: detectExpression_def inherited_label_upstream_def response_json_def js_sort_def
        getp_def nullish_def optget_def first_or_undefined_def call_toLowerCase_def low
        table_lookup_def EXPRESSION_LABELS_def object_prototype_keys_def coalesce_def
        js_Number_def clamp01_def Math_min_def Math_max_def js_String_def)
  have key: "map_of FALLBACK_AGE_PRESETS ''constructor'' = None"
    by (simp add: FALLBACK_AGE_PRESETS_def)
  have a: "detectAge sample_platform Rejects
             (Some \<lparr>narrative = JInherited ''constructor'', confidence = Finite 0.9,
                    label = ''constructor''\<rparr>) = Inl TypeError"
    by (simp add: detectAge_def detectAge_try_def buildFallbackAgeInsight_def low
        table_lookup_def key object_prototype_keys_def)
  show ?thesis
    using e a by (simp add: full_pipeline_def inherited_label_upstream_def)
qed

lemma inherited_label_request:
  "fst (POST sample_platform sample_env sample_request sample_clock inherited_label_upstream
          empty_state)
     = ErrorStatus 500"
  using inherited_label_pipeline
    POST_valid[of sample_env sample_request "''iVBORw0KGgo=''" sample_platform sample_clock
      inherited_label_upstream empty_state]
    POST_validated_error[of sample_clock "''203.0.113.7''" empty_state sample_platform
      "''iVBORw0KGgo=''" inherited_label_upstream TypeError]
  by (simp add: sample_request_checks sample_clock_def empty_state_def sample_admitted)

text \<open>
  C5 does not hold of the code. The fallback preset is looked up with
  \<^verbatim>\<open>FALLBACK_AGE_PRESETS[key]\<close>; when the lowercased expression label names an
  inherited member (\<^verbatim>\<open>constructor\<close>, \<^verbatim>\<open>__proto__\<close>), the value found is not
  nullish, the read \<^verbatim>\<open>preset.range.min\<close> throws, and the \<^verbatim>\<open>catch\<close> block of
  \<^verbatim>\<open>detectAge\<close> throws again when it calls the fallback: the error leaves
  \<^verbatim>\<open>detectAge\<close> and the handler answers 500. (For every other label
  \<^verbatim>\<open>detectAge\<close> returns an insight whatever the classifier does, see
  \<open>detectAge_total_on_own_labels\<close>.)
\<close>

theorem detectAge_raises_on_inherited_label:
  "detectAge P Rejects (Some \<lparr>narrative = n, confidence = c, label = ''constructor''\<rparr>)
     = Inl TypeError
   \<and> detectAge P (Responds False body)
       (Some \<lparr>narrative = n, confidence = c, label = ''__proto__''\<rparr>)
     = Inl TypeError
   \<and> fst (POST sample_platform sample_env sample_request sample_clock inherited_label_upstream
            empty_state)
     = ErrorStatus 500"
proof -
  have key: "map_of FALLBACK_AGE_PRESETS ''constructor'' = None"
    "map_of FALLBACK_AGE_PRESETS ''__proto__'' = None"
    by (simp_all add: FALLBACK_AGE_PRESETS_def)
  have low: "toLowerCase ''constructor'' = ''constructor''" "toLowerCase ''__proto__'' = ''__proto__''"
    by (simp_all add: toLowerCase_def upper_letters_def lower_letters_def)
  have fb: "buildFallbackAgeInsight P (Some \<lparr>narrative = n, confidence = c, label = ''constructor''\<rparr>)
            = Inl TypeError"
    "buildFallbackAgeInsight P (Some \<lparr>narrative = n, confidence = c, label = ''__proto__''\<rparr>)
            = Inl TypeError"
    by (simp_all add: buildFallbackAgeInsight_def low table_lookup_def key object_prototype_keys_def)
  show ?thesis
    using inherited_label_request
    by (cases body) (simp_all add: detectAge_def detectAge_try_def fb response_text_def)
qed

end
